theory Spec2Isabelle
  imports Complex_Main
begin

section \<open>Data model (execution/models)\<close>

text \<open>
  The three enums of \<^verbatim>\<open>models/status.py\<close>. Constructors that occur in two enums are
  written qualified, as in the source: \<open>ToolStatus.SUCCESS\<close>, \<open>ExecutionStatus.SUCCESS\<close>.
\<close>

datatype ExecutionStatus = PENDING | RUNNING | SUCCESS | FAILED | PARTIAL | CANCELLED | TIMEOUT

datatype ToolStatus =
  PENDING | RUNNING | SUCCESS | FAILED | SKIPPED | TIMEOUT | RATE_LIMITED | CIRCUIT_OPEN

datatype ExecutionMode = SEQUENTIAL | PARALLEL | CONDITIONAL | COMPENSATING

text \<open>
  Python values of type \<open>Any\<close> that travel in parameter and result dictionaries.
  A \<open>dict\<close> is an association list with unique keys in insertion order;
  Python floats are modelled as exact reals throughout: no rounding, and an
  operation that overflows to infinity is not distinguished from its exact value.
  The one float operation of the engine that raises on overflow, the power \<open>**\<close> of
  the retry backoff, raises in the model as well (\<open>float_pow\<close> below).
\<close>

datatype pyval =
  PyNone | PyBool bool | PyInt int | PyFloat real | PyStr string
  | PyList "pyval list" | PyDict "(string \<times> pyval) list"

type_synonym pydict = "(string \<times> pyval) list"

text \<open>\<open>d[k] = v\<close>: an existing key keeps its position, a new key goes last.\<close>

fun dict_set :: "'k \<Rightarrow> 'v \<Rightarrow> ('k \<times> 'v) list \<Rightarrow> ('k \<times> 'v) list" where
  "dict_set k v [] = [(k, v)]"
| "dict_set k v (p # d) = (if fst p = k then (k, v) # d else p # dict_set k v d)"

text \<open>\<open>d.get(k)\<close> is \<open>map_of d k\<close>; \<open>k in d\<close> is \<open>map_of d k \<noteq> None\<close>.\<close>

text \<open>
  Messages built by f-strings are kept as the list of their parts: literal text and
  string holes are \<open>Text\<close>, the other holes keep the formatted value, so that no
  rendering of numbers, lists or enums has to be guessed.
\<close>

datatype fpart =
  Text string | FInt int | FFloat2 real | FStrList "string list" | FMode ExecutionMode

type_synonym message = "fpart list"

text \<open>
  Exceptions. \<open>ToolError\<close> and its four subclasses are those of \<^verbatim>\<open>models/errors.py\<close>;
  \<open>AsyncioTimeoutError\<close> is \<open>asyncio.TimeoutError\<close>; \<open>Other n\<close> is any further
  subclass of \<open>Exception\<close> with class name \<open>n\<close>. Only subclasses of \<open>Exception\<close>
  are modelled (not \<open>BaseException\<close>: cancellation, interrupts).
\<close>

datatype exception_type =
  Exception | ToolError | ValidationError | RateLimitError | CircuitBreakerError
  | TimeoutError | AsyncioTimeoutError | RuntimeError | ValueError | ZeroDivisionError
  | OverflowError | Other string

fun issubclass :: "exception_type \<Rightarrow> exception_type \<Rightarrow> bool" where
  "issubclass c Exception = True"
| "issubclass c ToolError =
     (c = ToolError \<or> c = ValidationError \<or> c = RateLimitError
      \<or> c = CircuitBreakerError \<or> c = TimeoutError)"
| "issubclass c d = (c = d)"

fun type_name :: "exception_type \<Rightarrow> string" where
  "type_name Exception = ''Exception''"
| "type_name ToolError = ''ToolError''"
| "type_name ValidationError = ''ValidationError''"
| "type_name RateLimitError = ''RateLimitError''"
| "type_name CircuitBreakerError = ''CircuitBreakerError''"
| "type_name TimeoutError = ''TimeoutError''"
| "type_name AsyncioTimeoutError = ''TimeoutError''"
| "type_name RuntimeError = ''RuntimeError''"
| "type_name ValueError = ''ValueError''"
| "type_name ZeroDivisionError = ''ZeroDivisionError''"
| "type_name OverflowError = ''OverflowError''"
| "type_name (Other n) = n"

text \<open>
  An exception object: its class, \<open>str(e)\<close>, and the \<open>ToolError\<close> attributes the
  engine reads (\<open>tool_name\<close>, \<open>error_code\<close>; \<open>None\<close> on other exceptions).
\<close>

record exception =
  exn_type :: exception_type
  str :: message
  exn_tool_name :: "string option"
  error_code :: "string option"

definition isinstance :: "exception \<Rightarrow> exception_type list \<Rightarrow> bool" where
  "isinstance e classes = list_ex (issubclass (exn_type e)) classes"

text \<open>\<^verbatim>\<open>models/tool.py\<close>: ToolCall and ToolResult. Times are seconds as reals.\<close>

record ToolCall =
  tool_name :: string
  params :: pydict
  timeout_seconds :: "int option"
  retry_on_failure :: bool
  metadata :: pydict

record ToolResult =
  tool_name :: string
  status :: ToolStatus
  data :: "pydict option"
  error :: "message option"
  execution_time_ms :: real
  timestamp :: real
  metadata :: pydict
  retry_count :: int

definition success :: "ToolResult \<Rightarrow> bool" where
  "success r = (ToolResult.status r = ToolStatus.SUCCESS)"

text \<open>Truth value of an \<open>Optional[Dict]\<close>: neither \<open>None\<close> nor empty.\<close>

fun truthy :: "pydict option \<Rightarrow> bool" where
  "truthy None = False"
| "truthy (Some d) = (d \<noteq> [])"

text \<open>\<^verbatim>\<open>models/errors.py\<close>: ExecutionError.\<close>

record ExecutionError =
  message :: message
  tool_name :: "string option"
  error_code :: "string option"
  error_type :: string
  timestamp :: real
  details :: "pydict option"
  recoverable :: bool

text \<open>\<^verbatim>\<open>models/execution.py\<close>: ExecutionRequest and ExecutionResponse.\<close>

record ExecutionRequest =
  request_id :: "string option"
  user_id :: string
  session_id :: "string option"
  tool_calls :: "ToolCall list"
  execution_mode :: ExecutionMode
  stop_on_error :: bool
  timeout_seconds :: "int option"
  metadata :: pydict
  request_context :: pydict

record ExecutionResponse =
  request_id :: string
  status :: ExecutionStatus
  results :: "ToolResult list"
  errors :: "ExecutionError list"
  start_time :: real
  end_time :: "real option"
  duration_ms :: "real option"
  metadata :: pydict

section \<open>ExecutionContext (execution/core/context.py)\<close>

record ExecutionContext =
  request_id :: string
  user_id :: "string option"
  session_id :: "string option"
  metadata :: pydict
  shared_context :: pydict
  results :: "ToolResult list"
  errors :: "ExecutionError list"
  start_time :: real
  end_time :: "real option"
  status :: ExecutionStatus
  tool_results :: "(string \<times> ToolResult) list"
  execution_order :: "string list"

text \<open>
  The constructor; \<open>rid\<close> is the request id (the caller passes the uuid drawn when
  none was given) and \<open>now\<close> the reading of \<open>datetime.utcnow()\<close>.
\<close>

definition ExecutionContext_init ::
  "string \<Rightarrow> string option \<Rightarrow> string option \<Rightarrow> pydict \<Rightarrow> pydict \<Rightarrow> real \<Rightarrow> ExecutionContext" where
  "ExecutionContext_init rid uid sid md shared now =
     \<lparr>ExecutionContext.request_id = rid, user_id = uid, session_id = sid, metadata = md,
      shared_context = shared, results = [], errors = [], start_time = now,
      end_time = None, status = ExecutionStatus.PENDING, tool_results = [],
      execution_order = []\<rparr>"

definition add_result :: "ToolResult \<Rightarrow> ExecutionContext \<Rightarrow> ExecutionContext" where
  "add_result r c =
     c\<lparr>ExecutionContext.results := ExecutionContext.results c @ [r],
       tool_results := dict_set (ToolResult.tool_name r) r (tool_results c),
       execution_order := execution_order c @ [ToolResult.tool_name r]\<rparr>"

definition add_error :: "ExecutionError \<Rightarrow> ExecutionContext \<Rightarrow> ExecutionContext" where
  "add_error err c = c\<lparr>ExecutionContext.errors := ExecutionContext.errors c @ [err]\<rparr>"

definition get_result :: "ExecutionContext \<Rightarrow> string \<Rightarrow> ToolResult option" where
  "get_result c name = map_of (tool_results c) name"

definition get_last_result :: "ExecutionContext \<Rightarrow> ToolResult option" where
  "get_last_result c =
     (if ExecutionContext.results c \<noteq> [] then Some (last (ExecutionContext.results c)) else None)"

definition complete :: "ExecutionStatus \<Rightarrow> real \<Rightarrow> ExecutionContext \<Rightarrow> ExecutionContext" where
  "complete st now c = c\<lparr>ExecutionContext.status := st, end_time := Some now\<rparr>"

definition is_complete :: "ExecutionContext \<Rightarrow> bool" where
  "is_complete c = (ExecutionContext.end_time c \<noteq> None)"

text \<open>
  \<^verbatim>\<open>ConditionalStrategy.create_condition_from_result\<close> (strategies/conditional.py):
  the predicate it returns looks the tool's result up by name.
\<close>

definition create_condition_from_result ::
  "string \<Rightarrow> (ToolResult \<Rightarrow> bool) \<Rightarrow> ExecutionContext \<Rightarrow> bool" where
  "create_condition_from_result name check c =
     (case get_result c name of None \<Rightarrow> False | Some r \<Rightarrow> check r)"

text \<open>A run of \<open>add_result\<close> calls, first element first.\<close>

definition add_results :: "ToolResult list \<Rightarrow> ExecutionContext \<Rightarrow> ExecutionContext" where
  "add_results rs c = foldl (\<lambda>c r. add_result r c) c rs"

section \<open>ResultAggregator (execution/core/result.py)\<close>

definition determine_status :: "ToolResult list \<Rightarrow> ExecutionError list \<Rightarrow> ExecutionStatus" where
  "determine_status rs errs =
     (if rs = [] \<and> errs = [] then ExecutionStatus.PENDING
      else
        let success_count = sum_list [1::int. r \<leftarrow> rs, ToolResult.status r = ToolStatus.SUCCESS];
            failed_count = sum_list [1::int. r \<leftarrow> rs, ToolResult.status r = ToolStatus.FAILED];
            timeout_count = sum_list [1::int. r \<leftarrow> rs, ToolResult.status r = ToolStatus.TIMEOUT];
            total_count = int (length rs)
        in if success_count = total_count \<and> total_count > 0 then ExecutionStatus.SUCCESS
           else if failed_count = total_count \<or> failed_count + timeout_count = total_count
             then ExecutionStatus.FAILED
           else if timeout_count > 0 then ExecutionStatus.TIMEOUT
           else if success_count > 0 \<and> failed_count > 0 then ExecutionStatus.PARTIAL
           else ExecutionStatus.FAILED)"

text \<open>\<open>now\<close> is read only when no end time is given.\<close>

definition aggregate ::
  "string \<Rightarrow> ToolResult list \<Rightarrow> ExecutionError list \<Rightarrow> real \<Rightarrow> real option \<Rightarrow> pydict
     \<Rightarrow> real \<Rightarrow> ExecutionResponse" where
  "aggregate rid rs errs start end_opt md now =
     (let end' = (case end_opt of None \<Rightarrow> now | Some t \<Rightarrow> t);
          duration = (end' - start) * 1000;
          st = determine_status rs errs
      in \<lparr>ExecutionResponse.request_id = rid, status = st, results = rs, errors = errs,
          start_time = start, end_time = Some end', duration_ms = Some duration,
          metadata = md\<rparr>)"

section \<open>CircuitBreaker (execution/safety/circuit_breaker.py)\<close>

datatype CircuitState = CLOSED | OPEN | HALF_OPEN

record CircuitBreakerConfig =
  failure_threshold :: int
  success_threshold :: int
  timeout_seconds :: int
  half_open_max_calls :: int

record CircuitBreakerState =
  config :: CircuitBreakerConfig
  state :: CircuitState
  failure_count :: int
  success_count :: int
  last_failure_time :: "real option"
  opened_at :: "real option"
  half_open_calls :: int

definition CircuitBreakerState_init :: "CircuitBreakerConfig \<Rightarrow> CircuitBreakerState" where
  "CircuitBreakerState_init cfg =
     \<lparr>CircuitBreakerState.config = cfg, state = CLOSED, failure_count = 0, success_count = 0,
      last_failure_time = None, opened_at = None, half_open_calls = 0\<rparr>"

text \<open>
  Every method that reads \<open>datetime.utcnow()\<close> takes the reading as \<open>now\<close>
  (seconds). \<open>can_execute\<close> returns its answer and the state it leaves.
\<close>

definition can_execute :: "real \<Rightarrow> CircuitBreakerState \<Rightarrow> bool \<times> CircuitBreakerState" where
  "can_execute now b =
     (if state b = CLOSED then (True, b)
      else if state b = OPEN then
        (case opened_at b of
           Some t \<Rightarrow>
             (let elapsed = now - t in
              if elapsed \<ge> of_int (CircuitBreakerConfig.timeout_seconds (CircuitBreakerState.config b))
              then (True, b\<lparr>state := HALF_OPEN, half_open_calls := 0\<rparr>)
              else (False, b))
         | None \<Rightarrow> (False, b))
      else if state b = HALF_OPEN then
        (half_open_calls b < half_open_max_calls (CircuitBreakerState.config b), b)
      else (False, b))"

definition open_circuit :: "real \<Rightarrow> CircuitBreakerState \<Rightarrow> CircuitBreakerState" where
  \<comment> \<open>\<open>_open\<close>\<close>
  "open_circuit now b =
     b\<lparr>state := OPEN, opened_at := Some now, failure_count := 0, success_count := 0\<rparr>"

definition close_circuit :: "CircuitBreakerState \<Rightarrow> CircuitBreakerState" where
  \<comment> \<open>\<open>_close\<close>\<close>
  "close_circuit b =
     b\<lparr>state := CLOSED, failure_count := 0, success_count := 0, opened_at := None\<rparr>"

definition record_success :: "CircuitBreakerState \<Rightarrow> CircuitBreakerState" where
  "record_success b =
     (if state b = HALF_OPEN then
        (let b1 = b\<lparr>success_count := success_count b + 1\<rparr> in
         if success_count b1 \<ge> success_threshold (CircuitBreakerState.config b1)
         then close_circuit b1 else b1)
      else if state b = CLOSED then b\<lparr>failure_count := 0\<rparr>
      else b)"

definition record_failure :: "real \<Rightarrow> CircuitBreakerState \<Rightarrow> CircuitBreakerState" where
  "record_failure now b =
     (let b0 = b\<lparr>last_failure_time := Some now\<rparr> in
      if state b0 = HALF_OPEN then open_circuit now b0
      else if state b0 = CLOSED then
        (let b1 = b0\<lparr>failure_count := failure_count b0 + 1\<rparr> in
         if failure_count b1 \<ge> failure_threshold (CircuitBreakerState.config b1)
         then open_circuit now b1 else b1)
      else b0)"

text \<open>
  A history of \<open>record_success\<close> and \<open>record_failure\<close> calls on one breaker; a
  failure carries the clock reading of its call.
\<close>

datatype outcome_call = RecordSuccess | RecordFailure real

fun record_call :: "outcome_call \<Rightarrow> CircuitBreakerState \<Rightarrow> CircuitBreakerState" where
  "record_call RecordSuccess b = record_success b"
| "record_call (RecordFailure now) b = record_failure now b"

definition record_calls :: "outcome_call list \<Rightarrow> CircuitBreakerState \<Rightarrow> CircuitBreakerState" where
  "record_calls cs b = foldl (\<lambda>b c. record_call c b) b cs"

text \<open>The manager: one breaker per tool name, created on first use.\<close>

record CircuitBreaker =
  default_config :: CircuitBreakerConfig
  breakers :: "(string \<times> CircuitBreakerState) list"
  configs :: "(string \<times> CircuitBreakerConfig) list"

definition get_breaker :: "string \<Rightarrow> CircuitBreaker \<Rightarrow> CircuitBreakerState \<times> CircuitBreaker" where
  "get_breaker nm cb =
     (case map_of (breakers cb) nm of
        Some b \<Rightarrow> (b, cb)
      | None \<Rightarrow>
          (let cfg = (case map_of (CircuitBreaker.configs cb) nm of
                        Some c \<Rightarrow> c | None \<Rightarrow> CircuitBreaker.default_config cb);
               b = CircuitBreakerState_init cfg
           in (b, cb\<lparr>breakers := dict_set nm b (breakers cb)\<rparr>)))"

definition CircuitBreaker_can_execute ::
  "string \<Rightarrow> real \<Rightarrow> CircuitBreaker \<Rightarrow> bool \<times> CircuitBreaker" where
  "CircuitBreaker_can_execute nm now cb =
     (let (b, cb1) = get_breaker nm cb;
          (can, b1) = can_execute now b;
          b2 = (if state b1 = HALF_OPEN \<and> can
                then b1\<lparr>half_open_calls := half_open_calls b1 + 1\<rparr> else b1)
      in (can, cb1\<lparr>breakers := dict_set nm b2 (breakers cb1)\<rparr>))"

definition CircuitBreaker_record_success :: "string \<Rightarrow> CircuitBreaker \<Rightarrow> CircuitBreaker" where
  "CircuitBreaker_record_success nm cb =
     (let (b, cb1) = get_breaker nm cb
      in cb1\<lparr>breakers := dict_set nm (record_success b) (breakers cb1)\<rparr>)"

definition CircuitBreaker_record_failure ::
  "string \<Rightarrow> real \<Rightarrow> CircuitBreaker \<Rightarrow> CircuitBreaker" where
  "CircuitBreaker_record_failure nm now cb =
     (let (b, cb1) = get_breaker nm cb
      in cb1\<lparr>breakers := dict_set nm (record_failure now b) (breakers cb1)\<rparr>)"

section \<open>RateLimiter (execution/safety/rate_limiter.py)\<close>

record RateLimitConfig =
  max_calls :: int
  window_seconds :: int
  burst_size :: int

definition RateLimitConfig_init :: "int \<Rightarrow> int \<Rightarrow> int option \<Rightarrow> RateLimitConfig" where
  \<comment> \<open>\<open>burst_size or max_calls\<close>\<close>
  "RateLimitConfig_init mc ws bs =
     \<lparr>max_calls = mc, window_seconds = ws,
      burst_size = (case bs of None \<Rightarrow> mc | Some b \<Rightarrow> if b = 0 then mc else b)\<rparr>"

record RateLimiter =
  config :: RateLimitConfig
  tokens :: real
  last_update :: real
  refill_rate :: real

text \<open>The constructor divides by \<open>window_seconds\<close>: it raises when that is zero.\<close>

definition RateLimiter_init :: "RateLimitConfig \<Rightarrow> real \<Rightarrow> exception + RateLimiter" where
  "RateLimiter_init cfg now =
     (if window_seconds cfg = 0
      then Inl \<lparr>exn_type = ZeroDivisionError, str = [Text ''division by zero''],
                exn_tool_name = None, error_code = None\<rparr>
      else Inr \<lparr>RateLimiter.config = cfg, tokens = of_int (burst_size cfg), last_update = now,
                refill_rate = of_int (max_calls cfg) / of_int (window_seconds cfg)\<rparr>)"

definition refill :: "real \<Rightarrow> RateLimiter \<Rightarrow> RateLimiter" where
  \<comment> \<open>\<open>_refill\<close>\<close>
  "refill now l =
     (let elapsed = now - last_update l;
          tokens_to_add = elapsed * refill_rate l
      in l\<lparr>tokens := min (of_int (burst_size (RateLimiter.config l))) (tokens l + tokens_to_add),
           last_update := now\<rparr>)"

definition acquire :: "int \<Rightarrow> real \<Rightarrow> RateLimiter \<Rightarrow> bool \<times> RateLimiter" where
  "acquire n now l =
     (let l1 = refill now l in
      if tokens l1 \<ge> of_int n then (True, l1\<lparr>tokens := tokens l1 - of_int n\<rparr>)
      else (False, l1))"

text \<open>A history of \<open>acquire\<close> calls (requested tokens, clock reading) on one limiter.\<close>

definition acquires :: "(int \<times> real) list \<Rightarrow> RateLimiter \<Rightarrow> RateLimiter" where
  "acquires cs l = foldl (\<lambda>l (n, now). snd (acquire n now l)) l cs"

record MultiRateLimiter =
  default_config :: RateLimitConfig
  limiters :: "(string \<times> RateLimiter) list"
  configs :: "(string \<times> RateLimitConfig) list"

definition get_limiter ::
  "string \<Rightarrow> real \<Rightarrow> MultiRateLimiter \<Rightarrow> exception + (RateLimiter \<times> MultiRateLimiter)" where
  "get_limiter nm now m =
     (case map_of (limiters m) nm of
        Some l \<Rightarrow> Inr (l, m)
      | None \<Rightarrow>
          (let cfg = (case map_of (MultiRateLimiter.configs m) nm of
                        Some c \<Rightarrow> c | None \<Rightarrow> MultiRateLimiter.default_config m)
           in case RateLimiter_init cfg now of
                Inl e \<Rightarrow> Inl e
              | Inr l \<Rightarrow> Inr (l, m\<lparr>limiters := dict_set nm l (limiters m)\<rparr>)))"

definition MultiRateLimiter_acquire ::
  "string \<Rightarrow> int \<Rightarrow> real \<Rightarrow> MultiRateLimiter \<Rightarrow> exception + (bool \<times> MultiRateLimiter)" where
  "MultiRateLimiter_acquire nm n now m =
     (case get_limiter nm now m of
        Inl e \<Rightarrow> Inl e
      | Inr (l, m1) \<Rightarrow>
          (let (ok, l1) = acquire n now l
           in Inr (ok, m1\<lparr>limiters := dict_set nm l1 (limiters m1)\<rparr>)))"

section \<open>The world the engine runs in\<close>

text \<open>
  Everything mutable or external in one record, threaded through every operation:
  the clock (\<open>datetime.utcnow()\<close>, in seconds), the successive outputs of
  \<open>random.random()\<close>, the external systems the tools act on (\<open>'x\<close>), the breaker
  and limiter managers held by the executor, and the ExecutionContext of the request.
  Coroutines run one at a time, each to completion; logging is left out.
\<close>

record 'x world =
  clock :: real
  random_source :: "nat \<Rightarrow> real"
  random_draws :: nat
  external :: 'x
  circuit_breaker :: CircuitBreaker
  rate_limiter :: MultiRateLimiter
  execution_context :: ExecutionContext

definition random :: "'x world \<Rightarrow> real \<times> 'x world" where
  "random w = (random_source w (random_draws w), w\<lparr>random_draws := Suc (random_draws w)\<rparr>)"

definition random_uniform :: "real \<Rightarrow> real \<Rightarrow> 'x world \<Rightarrow> real \<times> 'x world" where
  \<comment> \<open>\<open>random.uniform(a, b)\<close> is \<open>a + (b - a) * random()\<close>\<close>
  "random_uniform a b w = (let (u, w1) = random w in (a + (b - a) * u, w1))"

definition sleep :: "real \<Rightarrow> 'x world \<Rightarrow> 'x world" where
  \<comment> \<open>\<open>await asyncio.sleep(delay)\<close>\<close>
  "sleep delay w = w\<lparr>clock := clock w + max 0 delay\<rparr>"

text \<open>
  What awaiting a coroutine under \<open>asyncio.wait_for(..., timeout)\<close> can do: return a
  value, raise, or still be running when the deadline expires (it is then
  cancelled and \<open>asyncio.TimeoutError\<close> is raised).
\<close>

datatype 'a awaited = Returned 'a | Raised exception | Expired

text \<open>
  A tool. \<^verbatim>\<open>execution/tools/base.py\<close> is not among the sources, so a tool is its
  name and what awaiting \<open>tool._execute_with_timing(params, context)\<close> under a
  deadline of so many seconds does to the world.
\<close>

record 'x BaseTool =
  name :: string
  execute_with_timing :: "int \<Rightarrow> pydict \<Rightarrow> 'x world \<Rightarrow> ToolResult awaited \<times> 'x world"

section \<open>RetryStrategy (execution/safety/retries.py)\<close>

record RetryConfig =
  max_attempts :: int
  initial_delay_seconds :: real
  max_delay_seconds :: real
  exponential_base :: real
  jitter :: bool
  retryable_exceptions :: "exception_type list"

definition RetryConfig_init ::
  "int \<Rightarrow> real \<Rightarrow> real \<Rightarrow> real \<Rightarrow> bool \<Rightarrow> exception_type list option \<Rightarrow> RetryConfig" where
  \<comment> \<open>\<open>retryable_exceptions or (Exception,)\<close>\<close>
  "RetryConfig_init ma idl mdl eb jt re =
     \<lparr>max_attempts = ma, initial_delay_seconds = idl, max_delay_seconds = mdl,
      exponential_base = eb, jitter = jt,
      retryable_exceptions = (case re of None \<Rightarrow> [Exception]
                                | Some cs \<Rightarrow> if cs = [] then [Exception] else cs)\<rparr>"

definition RetryConfig_default :: RetryConfig where
  "RetryConfig_default = RetryConfig_init 3 1 60 2 True None"

record RetryStrategy =
  default_config :: RetryConfig
  tool_configs :: "(string \<times> RetryConfig) list"

definition get_config :: "RetryStrategy \<Rightarrow> string option \<Rightarrow> RetryConfig" where
  \<comment> \<open>\<open>_get_config\<close>\<close>
  "get_config s nm =
     (case nm of
        None \<Rightarrow> RetryStrategy.default_config s
      | Some n \<Rightarrow>
          (if n \<noteq> [] then
             (case map_of (tool_configs s) n of
                Some c \<Rightarrow> c | None \<Rightarrow> RetryStrategy.default_config s)
           else RetryStrategy.default_config s))"

text \<open>
  The float power \<open>x ** n\<close> with an \<open>int\<close> exponent. The exponent is first converted
  to a float, then the power is taken; either step raises \<open>OverflowError\<close> when its
  value is out of the range of a double, that is when it would round to infinity:
  from \<open>2 ^ 1024 - 2 ^ 970\<close> on in absolute value (half a unit in the last place above
  the largest double). A power that underflows is zero, without an exception. The
  other float operations of \<open>_calculate_delay\<close> (\<open>*\<close>, \<open>min\<close>, \<open>+\<close>, \<open>max\<close>) never raise.
\<close>

definition float_overflow :: "real \<Rightarrow> bool" where
  "float_overflow x = (2 ^ 1024 - 2 ^ 970 \<le> \<bar>x\<bar>)"

definition overflow_error :: "message \<Rightarrow> exception" where
  "overflow_error msg =
     \<lparr>exn_type = OverflowError, str = msg, exn_tool_name = None, error_code = None\<rparr>"

definition int_too_large :: exception where
  "int_too_large = overflow_error [Text ''int too large to convert to float'']"

definition result_out_of_range :: exception where
  "result_out_of_range =
     overflow_error
       [Text (''(34, '' @ [CHR 0x27] @ ''Numerical result out of range'' @ [CHR 0x27] @ '')'')]"

definition float_pow :: "real \<Rightarrow> nat \<Rightarrow> exception + real" where
  "float_pow x n =
     (if float_overflow (real n) then Inl int_too_large
      else if float_overflow (x ^ n) then Inl result_out_of_range
      else Inr (x ^ n))"

definition calculate_delay ::
  "nat \<Rightarrow> RetryConfig \<Rightarrow> 'x world \<Rightarrow> (exception + real) \<times> 'x world" where
  \<comment> \<open>\<open>_calculate_delay\<close>; the attempt index comes from \<open>range\<close>, so it is a natural number\<close>
  "calculate_delay attempt cfg w =
     (case float_pow (exponential_base cfg) attempt of
        Inl e \<Rightarrow> (Inl e, w)
      | Inr p \<Rightarrow>
          (let delay = initial_delay_seconds cfg * p;
               delay = min delay (max_delay_seconds cfg)
           in if jitter cfg then
                (let jitter_range = delay * 0.25;
                     (r, w1) = random_uniform (- jitter_range) jitter_range w
                 in (Inr (max 0 (delay + r)), w1))
              else (Inr (max 0 delay), w)))"

definition is_retryable :: "exception \<Rightarrow> RetryConfig \<Rightarrow> bool" where
  \<comment> \<open>\<open>_is_retryable\<close>\<close>
  "is_retryable e cfg = isinstance e (retryable_exceptions cfg)"

definition retry_logic_failed :: exception where
  "retry_logic_failed =
     \<lparr>exn_type = RuntimeError, str = [Text ''Retry logic failed unexpectedly''],
      exn_tool_name = None, error_code = None\<rparr>"

text \<open>
  \<open>RetryStrategy.execute\<close>: the loop \<open>for attempt in range(config.max_attempts)\<close>
  from \<open>attempt\<close> on, and what follows the loop. \<open>func\<close> is the wrapped call with its
  arguments bound. An exception raised by \<open>_calculate_delay\<close> inside the \<open>except\<close>
  block leaves the loop and the method.
\<close>

function execute_attempts ::
  "RetryConfig \<Rightarrow> ('x world \<Rightarrow> (exception + 'a) \<times> 'x world) \<Rightarrow> int \<Rightarrow> exception option
     \<Rightarrow> 'x world \<Rightarrow> (exception + 'a) \<times> 'x world" where
  "execute_attempts cfg func attempt last_exception w =
     (if attempt < max_attempts cfg then
        (case func w of
           (Inr r, w1) \<Rightarrow> (Inr r, w1)
         | (Inl e, w1) \<Rightarrow>
             (if \<not> is_retryable e cfg then (Inl e, w1)
              else if attempt \<ge> max_attempts cfg - 1 then (Inl e, w1)
              else
                (case calculate_delay (nat attempt) cfg w1 of
                   (Inl oe, w2) \<Rightarrow> (Inl oe, w2)
                 | (Inr delay, w2) \<Rightarrow>
                     execute_attempts cfg func (attempt + 1) (Some e) (sleep delay w2))))
      else
        (case last_exception of
           Some e \<Rightarrow> (Inl e, w)
         | None \<Rightarrow> (Inl retry_logic_failed, w)))"
  by pat_completeness auto
termination
  by (relation "measure (\<lambda>(cfg, func, attempt, last_exception, w). nat (max_attempts cfg - attempt))")
    auto

definition RetryStrategy_execute ::
  "RetryStrategy \<Rightarrow> ('x world \<Rightarrow> (exception + 'a) \<times> 'x world) \<Rightarrow> string option
     \<Rightarrow> 'x world \<Rightarrow> (exception + 'a) \<times> 'x world" where
  "RetryStrategy_execute s func nm w = execute_attempts (get_config s nm) func 0 None w"

text \<open>\<open>RetryStrategy.execute_with_result\<close>: the result comes with the attempt count.\<close>

function execute_with_result_attempts ::
  "RetryConfig \<Rightarrow> ('x world \<Rightarrow> (exception + 'a) \<times> 'x world) \<Rightarrow> int
     \<Rightarrow> 'x world \<Rightarrow> (exception + 'a \<times> int) \<times> 'x world" where
  "execute_with_result_attempts cfg func attempt w =
     (if attempt < max_attempts cfg then
        (case func w of
           (Inr r, w1) \<Rightarrow> (Inr (r, attempt + 1), w1)
         | (Inl e, w1) \<Rightarrow>
             (if \<not> is_retryable e cfg \<or> attempt \<ge> max_attempts cfg - 1 then (Inl e, w1)
              else
                (case calculate_delay (nat attempt) cfg w1 of
                   (Inl oe, w2) \<Rightarrow> (Inl oe, w2)
                 | (Inr delay, w2) \<Rightarrow>
                     execute_with_result_attempts cfg func (attempt + 1) (sleep delay w2))))
      else (Inl retry_logic_failed, w))"
  by pat_completeness auto
termination
  by (relation "measure (\<lambda>(cfg, func, attempt, w). nat (max_attempts cfg - attempt))") auto

definition execute_with_result ::
  "RetryStrategy \<Rightarrow> ('x world \<Rightarrow> (exception + 'a) \<times> 'x world) \<Rightarrow> string option
     \<Rightarrow> 'x world \<Rightarrow> (exception + 'a \<times> int) \<times> 'x world" where
  "execute_with_result s func nm w = execute_with_result_attempts (get_config s nm) func 0 w"

text \<open>
  The world in which attempt number \<open>k\<close> (counted from 0) of a retried call starts,
  when every earlier attempt was followed by the backoff sleep (no sleep where the
  delay could not be computed).
\<close>

fun world_before_attempt ::
  "RetryConfig \<Rightarrow> ('x world \<Rightarrow> (exception + 'a) \<times> 'x world) \<Rightarrow> nat \<Rightarrow> 'x world \<Rightarrow> 'x world" where
  "world_before_attempt cfg func 0 w = w"
| "world_before_attempt cfg func (Suc k) w =
     (let (r, w1) = func (world_before_attempt cfg func k w)
      in case calculate_delay k cfg w1 of
           (Inr delay, w2) \<Rightarrow> sleep delay w2
         | (Inl oe, w2) \<Rightarrow> w2)"

section \<open>TimeoutHandler (execution/safety/timeout.py)\<close>

record TimeoutHandler =
  default_timeout_seconds :: int
  tool_timeouts :: "(string \<times> int) list"

definition get_timeout :: "TimeoutHandler \<Rightarrow> string option \<Rightarrow> int" where
  "get_timeout h nm =
     (case nm of
        None \<Rightarrow> default_timeout_seconds h
      | Some n \<Rightarrow>
          (if n \<noteq> [] then
             (case map_of (tool_timeouts h) n of
                Some t \<Rightarrow> t | None \<Rightarrow> default_timeout_seconds h)
           else default_timeout_seconds h))"

text \<open>
  \<open>func\<close> is the wrapped coroutine with its arguments bound, as a function of the
  deadline it is awaited under.
\<close>

definition execute_with_timeout ::
  "TimeoutHandler \<Rightarrow> (int \<Rightarrow> 'x world \<Rightarrow> 'a awaited \<times> 'x world) \<Rightarrow> string option \<Rightarrow> int option
     \<Rightarrow> 'x world \<Rightarrow> (exception + 'a) \<times> 'x world" where
  "execute_with_timeout h func nm override w =
     (let timeout = (case override of
                       None \<Rightarrow> get_timeout h nm
                     | Some t \<Rightarrow> if t \<noteq> 0 then t else get_timeout h nm);
          start = clock w;
          (a, w1) = func timeout w;
          timed_out =
            \<lparr>exn_type = TimeoutError,
             str = [Text ''Execution exceeded timeout of '', FInt timeout,
                    Text ''s (elapsed: '', FFloat2 (clock w1 - start), Text ''s)''],
             exn_tool_name = nm, error_code = Some ''TIMEOUT''\<rparr>
      in case a of
           Returned r \<Rightarrow> (Inr r, w1)
         | Raised e \<Rightarrow> (if exn_type e = AsyncioTimeoutError then (Inl timed_out, w1) else (Inl e, w1))
         | Expired \<Rightarrow> (Inl timed_out, w1))"

section \<open>ToolExecutor (execution/core/executor.py)\<close>

record ValidationResult =
  is_valid :: bool
  errors :: "string list"
  warnings :: "string list"

text \<open>
  The executor with its injected collaborators. The breaker and limiter managers
  live in the world. The validator's two methods are parameters: ExecutionValidator
  rests on the jsonschema library and on BaseTool methods that are not among the
  sources; each may return a verdict or raise.
\<close>

record 'x ToolExecutor =
  retry_strategy :: RetryStrategy
  timeout_handler :: TimeoutHandler
  validate_params ::
    "'x BaseTool \<Rightarrow> pydict \<Rightarrow> 'x world \<Rightarrow> (exception + ValidationResult) \<times> 'x world"
  validate_result ::
    "'x BaseTool \<Rightarrow> pydict \<Rightarrow> 'x world \<Rightarrow> (exception + ValidationResult) \<times> 'x world"

definition tool_error ::
  "exception_type \<Rightarrow> message \<Rightarrow> string \<Rightarrow> string \<Rightarrow> exception" where
  "tool_error ty msg nm code =
     \<lparr>exn_type = ty, str = msg, exn_tool_name = Some nm, error_code = Some code\<rparr>"

definition executor_execute_with_timeout ::
  "'x ToolExecutor \<Rightarrow> 'x BaseTool \<Rightarrow> pydict \<Rightarrow> 'x world \<Rightarrow> (exception + ToolResult) \<times> 'x world" where
  \<comment> \<open>\<open>ToolExecutor._execute_with_timeout\<close>\<close>
  "executor_execute_with_timeout ex tool ps w =
     execute_with_timeout (timeout_handler ex) (\<lambda>t. execute_with_timing tool t ps)
       (Some (name tool)) None w"

text \<open>The body of the \<open>try\<close> block of \<open>ToolExecutor.execute\<close>, steps 1 to 6.\<close>

definition execute_pipeline ::
  "'x ToolExecutor \<Rightarrow> 'x BaseTool \<Rightarrow> pydict \<Rightarrow> 'x world \<Rightarrow> (exception + ToolResult) \<times> 'x world" where
  "execute_pipeline ex tool ps w =
     (let nm = name tool in
      case validate_params ex tool ps w of
        (Inl e, w1) \<Rightarrow> (Inl e, w1)
      | (Inr vr, w1) \<Rightarrow>
          if \<not> is_valid vr then
            (Inl (tool_error ValidationError
                    [Text ''Parameter validation failed: '', FStrList (ValidationResult.errors vr)]
                    nm ''VALIDATION_ERROR''), w1)
          else
            (let (can, cb) = CircuitBreaker_can_execute nm (clock w1) (circuit_breaker w1);
                 w2 = w1\<lparr>circuit_breaker := cb\<rparr>
             in if \<not> can then
                  (Inl (tool_error CircuitBreakerError
                          [Text (''Circuit breaker is open for tool: '' @ nm)]
                          nm ''CIRCUIT_OPEN''), w2)
                else
                  (case MultiRateLimiter_acquire nm 1 (clock w2) (rate_limiter w2) of
                     Inl e \<Rightarrow> (Inl e, w2)
                   | Inr (acquired, rl) \<Rightarrow>
                       (let w3 = w2\<lparr>rate_limiter := rl\<rparr>
                        in if \<not> acquired then
                             (Inl (tool_error RateLimitError
                                     [Text (''Rate limit exceeded for tool: '' @ nm)]
                                     nm ''RATE_LIMITED''), w3)
                           else
                             (case execute_with_result (retry_strategy ex)
                                     (executor_execute_with_timeout ex tool ps) (Some nm) w3 of
                                (Inl e, w4) \<Rightarrow> (Inl e, w4)
                              | (Inr (r, attempt_count), w4) \<Rightarrow>
                                  (let r1 = r\<lparr>retry_count := attempt_count - 1\<rparr>;
                                       w5 = w4\<lparr>circuit_breaker :=
                                              CircuitBreaker_record_success nm (circuit_breaker w4)\<rparr>
                                   in if success r1 \<and> truthy (data r1) then
                                        (case validate_result ex tool (the (data r1)) w5 of
                                           (Inl e, w6) \<Rightarrow> (Inl e, w6)
                                         | (Inr rv, w6) \<Rightarrow> (Inr r1, w6))
                                      else (Inr r1, w5)))))))"

definition opt_str :: "string option \<Rightarrow> pyval" where
  "opt_str s = (case s of None \<Rightarrow> PyNone | Some t \<Rightarrow> PyStr t)"

text \<open>
  \<open>ToolExecutor.execute\<close>: the \<open>try\<close> block and its two handlers. The result type
  still allows an exception to escape; that none does is a theorem.
\<close>

definition ToolExecutor_execute ::
  "'x ToolExecutor \<Rightarrow> 'x BaseTool \<Rightarrow> pydict \<Rightarrow> 'x world \<Rightarrow> (exception + ToolResult) \<times> 'x world" where
  "ToolExecutor_execute ex tool ps w =
     (let start = clock w; nm = name tool in
      case execute_pipeline ex tool ps w of
        (Inr r, w1) \<Rightarrow> (Inr r, w1)
      | (Inl e, w1) \<Rightarrow>
          if isinstance e [ValidationError, CircuitBreakerError, RateLimitError] then
            (let execution_time = (clock w1 - start) * 1000;
                 st = (if isinstance e [CircuitBreakerError] then ToolStatus.CIRCUIT_OPEN
                       else if isinstance e [RateLimitError] then ToolStatus.RATE_LIMITED
                       else ToolStatus.FAILED)
             in (Inr \<lparr>ToolResult.tool_name = nm, status = st, data = None, error = Some (str e),
                      execution_time_ms = execution_time, timestamp = clock w1,
                      metadata = [(''error_code'', opt_str (exception.error_code e))], retry_count = 0\<rparr>, w1))
          else
            (let execution_time = (clock w1 - start) * 1000;
                 w2 = w1\<lparr>circuit_breaker :=
                        CircuitBreaker_record_failure nm (clock w1) (circuit_breaker w1)\<rparr>
             in (Inr \<lparr>ToolResult.tool_name = nm, status = ToolStatus.FAILED, data = None,
                      error = Some (str e), execution_time_ms = execution_time,
                      timestamp = clock w2,
                      metadata = [(''error_type'', PyStr (type_name (exn_type e)))],
                      retry_count = 0\<rparr>, w2)))"

declare execute_attempts.simps [simp del]

declare execute_with_result_attempts.simps [simp del]

section \<open>ToolRegistry (execution/core/registry.py)\<close>

text \<open>
  Of the registry only the name index \<open>_tools\<close> is read by the operations below; it
  is a \<open>dict\<close> from names to tools.
\<close>

record 'x ToolRegistry =
  tools :: "(string \<times> 'x BaseTool) list"

definition registry_get :: "'x ToolRegistry \<Rightarrow> string \<Rightarrow> 'x BaseTool option" where
  \<comment> \<open>\<open>get\<close>\<close>
  "registry_get reg nm = map_of (tools reg) nm"

definition registry_exists :: "'x ToolRegistry \<Rightarrow> string \<Rightarrow> bool" where
  \<comment> \<open>\<open>exists\<close>\<close>
  "registry_exists reg nm = (map_of (tools reg) nm \<noteq> None)"

definition registry_list_all :: "'x ToolRegistry \<Rightarrow> string list" where
  \<comment> \<open>\<open>list_all\<close>\<close>
  "registry_list_all reg = map fst (tools reg)"

text \<open>\<open>validate_tool_calls\<close>: the loop over \<open>enumerate(tool_calls)\<close> from index \<open>i\<close> on.\<close>

fun validate_tool_calls_from :: "'x ToolRegistry \<Rightarrow> nat \<Rightarrow> ToolCall list \<Rightarrow> message list" where
  "validate_tool_calls_from reg i [] = []"
| "validate_tool_calls_from reg i (tc # rest) =
     (let nm = ToolCall.tool_name tc in
      if nm = [] then
        [Text ''Tool call '', FInt (int i), Text ('': missing 'tool_name'' @ [CHR 0x27])]
          # validate_tool_calls_from reg (Suc i) rest
      else if \<not> registry_exists reg nm then
        [Text ''Tool call '', FInt (int i), Text ('': unknown tool '' @ [CHR 0x27] @ nm @ [CHR 0x27] @ ''. Available tools: ''),
         FStrList (registry_list_all reg)]
          # validate_tool_calls_from reg (Suc i) rest
      else validate_tool_calls_from reg (Suc i) rest)"

definition validate_tool_calls :: "'x ToolRegistry \<Rightarrow> ToolCall list \<Rightarrow> message list" where
  "validate_tool_calls reg tcs = validate_tool_calls_from reg 0 tcs"

section \<open>SequentialStrategy (execution/strategies/sequential.py)\<close>

record 'x SequentialStrategy =
  registry :: "'x ToolRegistry"
  executor :: "'x ToolExecutor"

text \<open>
  The parameters a call is executed with: a copy of its own, with the data of the
  previous result under \<open>_previous_result\<close> when \<open>pass_results\<close> is set, this is
  not the first call, and the last result so far is successful with non-empty data.
\<close>

definition prepare_params :: "bool \<Rightarrow> nat \<Rightarrow> ToolResult list \<Rightarrow> ToolCall \<Rightarrow> pydict" where
  "prepare_params pass_results i rs tc =
     (if pass_results \<and> i > 0 \<and> rs \<noteq> [] \<and> success (last rs) \<and> truthy (data (last rs))
      then dict_set ''_previous_result'' (PyDict (the (data (last rs)))) (ToolCall.params tc)
      else ToolCall.params tc)"

text \<open>
  The loop of \<open>SequentialStrategy.execute\<close> from index \<open>i\<close> on, with the results
  collected so far; \<open>break\<close> returns, \<open>continue\<close> goes on with the rest.
\<close>

fun sequential_loop ::
  "'x SequentialStrategy \<Rightarrow> bool \<Rightarrow> bool \<Rightarrow> nat \<Rightarrow> ToolCall list \<Rightarrow> ToolResult list \<Rightarrow> 'x world
     \<Rightarrow> (exception + ToolResult list) \<times> 'x world" where
  "sequential_loop s stop pass_results i [] rs w = (Inr rs, w)"
| "sequential_loop s stop pass_results i (tc # rest) rs w =
     (case registry_get (SequentialStrategy.registry s) (ToolCall.tool_name tc) of
        None \<Rightarrow>
          if stop then (Inr rs, w) else sequential_loop s stop pass_results (Suc i) rest rs w
      | Some tool \<Rightarrow>
          (case ToolExecutor_execute (SequentialStrategy.executor s) tool
                  (prepare_params pass_results i rs tc) w of
             (Inl e, w1) \<Rightarrow> (Inl e, w1)
           | (Inr r, w1) \<Rightarrow>
               (let rs1 = rs @ [r];
                    w2 = w1\<lparr>execution_context := add_result r (execution_context w1)\<rparr>
                in if \<not> success r \<and> stop then (Inr rs1, w2)
                   else sequential_loop s stop pass_results (Suc i) rest rs1 w2)))"

definition SequentialStrategy_execute ::
  "'x SequentialStrategy \<Rightarrow> ToolCall list \<Rightarrow> bool \<Rightarrow> bool \<Rightarrow> 'x world
     \<Rightarrow> (exception + ToolResult list) \<times> 'x world" where
  "SequentialStrategy_execute s tcs stop pass_results w =
     sequential_loop s stop pass_results 0 tcs [] w"

section \<open>CompensatingStrategy (execution/strategies/compensating.py)\<close>

record CompensatingAction =
  tool_name :: string
  params :: pydict
  description :: string

record TransactionStep =
  forward :: ToolCall
  compensate :: "CompensatingAction option"

record 'x CompensatingStrategy =
  registry :: "'x ToolRegistry"
  executor :: "'x ToolExecutor"

definition compensation_params :: "CompensatingAction \<Rightarrow> ToolResult \<Rightarrow> pydict" where
  "compensation_params ca forward_result =
     (if truthy (data forward_result)
      then dict_set ''_forward_result'' (PyDict (the (data forward_result)))
             (CompensatingAction.params ca)
      else CompensatingAction.params ca)"

text \<open>
  The loop of \<open>_rollback\<close> over the list it is given (\<open>rollback\<close> passes the
  executed steps reversed). An exception of the executor is caught and the loop
  goes on.
\<close>

fun rollback_loop ::
  "'x CompensatingStrategy \<Rightarrow> (TransactionStep \<times> ToolResult) list \<Rightarrow> 'x world \<Rightarrow> 'x world" where
  "rollback_loop s [] w = w"
| "rollback_loop s ((step, forward_result) # rest) w =
     (case compensate step of
        None \<Rightarrow> rollback_loop s rest w
      | Some ca \<Rightarrow>
          (case registry_get (CompensatingStrategy.registry s) (CompensatingAction.tool_name ca) of
             None \<Rightarrow> rollback_loop s rest w
           | Some tool \<Rightarrow>
               (case ToolExecutor_execute (CompensatingStrategy.executor s) tool
                       (compensation_params ca forward_result) w of
                  (Inl e, w1) \<Rightarrow> rollback_loop s rest w1
                | (Inr r, w1) \<Rightarrow>
                    rollback_loop s rest
                      (w1\<lparr>execution_context := add_result r (execution_context w1)\<rparr>))))"

definition rollback ::
  "'x CompensatingStrategy \<Rightarrow> (TransactionStep \<times> ToolResult) list \<Rightarrow> 'x world \<Rightarrow> 'x world" where
  \<comment> \<open>\<open>_rollback\<close>\<close>
  "rollback s executed_steps w =
     (if executed_steps = [] then w else rollback_loop s (rev executed_steps) w)"

text \<open>
  The forward loop of \<open>CompensatingStrategy.execute\<close>, with the results and the
  successfully executed steps collected so far.
\<close>

fun compensating_loop ::
  "'x CompensatingStrategy \<Rightarrow> TransactionStep list \<Rightarrow> ToolResult list
     \<Rightarrow> (TransactionStep \<times> ToolResult) list \<Rightarrow> 'x world
     \<Rightarrow> (exception + ToolResult list) \<times> 'x world" where
  "compensating_loop s [] rs executed_steps w = (Inr rs, w)"
| "compensating_loop s (step # rest) rs executed_steps w =
     (case registry_get (CompensatingStrategy.registry s) (ToolCall.tool_name (forward step)) of
        None \<Rightarrow> (Inr rs, rollback s executed_steps w)
      | Some tool \<Rightarrow>
          (case ToolExecutor_execute (CompensatingStrategy.executor s) tool
                  (ToolCall.params (forward step)) w of
             (Inl e, w1) \<Rightarrow> (Inl e, w1)
           | (Inr r, w1) \<Rightarrow>
               (let rs1 = rs @ [r];
                    w2 = w1\<lparr>execution_context := add_result r (execution_context w1)\<rparr>
                in if \<not> success r then (Inr rs1, rollback s executed_steps w2)
                   else compensating_loop s rest rs1 (executed_steps @ [(step, r)]) w2)))"

definition CompensatingStrategy_execute ::
  "'x CompensatingStrategy \<Rightarrow> TransactionStep list \<Rightarrow> 'x world
     \<Rightarrow> (exception + ToolResult list) \<times> 'x world" where
  "CompensatingStrategy_execute s steps w = compensating_loop s steps [] [] w"

text \<open>
  The compensations a rollback performs, as a list of executor calls: the executed
  steps in reverse order, without the steps that have no compensating action or
  whose compensating tool is not registered; and running such a list, every call of
  it, whatever the earlier ones returned or raised.
\<close>

fun compensation_call ::
  "'x ToolRegistry \<Rightarrow> TransactionStep \<times> ToolResult \<Rightarrow> ('x BaseTool \<times> pydict) option" where
  "compensation_call reg (step, forward_result) =
     (case compensate step of
        None \<Rightarrow> None
      | Some ca \<Rightarrow>
          (case registry_get reg (CompensatingAction.tool_name ca) of
             None \<Rightarrow> None
           | Some tool \<Rightarrow> Some (tool, compensation_params ca forward_result)))"

definition compensation_calls ::
  "'x ToolRegistry \<Rightarrow> (TransactionStep \<times> ToolResult) list \<Rightarrow> ('x BaseTool \<times> pydict) list" where
  "compensation_calls reg executed_steps =
     List.map_filter (compensation_call reg) (rev executed_steps)"

definition run_compensation ::
  "'x ToolExecutor \<Rightarrow> 'x BaseTool \<times> pydict \<Rightarrow> 'x world \<Rightarrow> 'x world" where
  "run_compensation ex c w =
     (case ToolExecutor_execute ex (fst c) (snd c) w of
        (Inl e, w1) \<Rightarrow> w1
      | (Inr r, w1) \<Rightarrow> w1\<lparr>execution_context := add_result r (execution_context w1)\<rparr>)"

definition run_compensations ::
  "'x ToolExecutor \<Rightarrow> ('x BaseTool \<times> pydict) list \<Rightarrow> 'x world \<Rightarrow> 'x world" where
  "run_compensations ex cs w = foldl (\<lambda>w c. run_compensation ex c w) w cs"

section \<open>ExecutionDispatcher (execution/core/dispatcher.py)\<close>

record 'x ExecutionDispatcher =
  registry :: "'x ToolRegistry"
  executor :: "'x ToolExecutor"
  max_concurrent :: int

definition tool_not_found :: "string \<Rightarrow> real \<Rightarrow> ExecutionError" where
  "tool_not_found nm now =
     \<lparr>ExecutionError.message = [Text (''Tool not found: '' @ nm)], tool_name = Some nm,
      error_code = Some ''TOOL_NOT_FOUND'', error_type = ''ToolNotFoundError'',
      timestamp = now, details = None, recoverable = False\<rparr>"

text \<open>The loop of \<open>_execute_sequential\<close>, with the results collected so far.\<close>

fun execute_sequential_loop ::
  "'x ExecutionDispatcher \<Rightarrow> bool \<Rightarrow> ToolCall list \<Rightarrow> ToolResult list \<Rightarrow> 'x world
     \<Rightarrow> (exception + ToolResult list) \<times> 'x world" where
  "execute_sequential_loop d stop [] rs w = (Inr rs, w)"
| "execute_sequential_loop d stop (tc # rest) rs w =
     (case registry_get (ExecutionDispatcher.registry d) (ToolCall.tool_name tc) of
        None \<Rightarrow>
          (let w1 = w\<lparr>execution_context :=
                       add_error (tool_not_found (ToolCall.tool_name tc) (clock w))
                         (execution_context w)\<rparr>
           in if stop then (Inr rs, w1) else execute_sequential_loop d stop rest rs w1)
      | Some tool \<Rightarrow>
          (case ToolExecutor_execute (ExecutionDispatcher.executor d) tool (ToolCall.params tc) w of
             (Inl e, w1) \<Rightarrow> (Inl e, w1)
           | (Inr r, w1) \<Rightarrow>
               (let w2 = w1\<lparr>execution_context := add_result r (execution_context w1)\<rparr>;
                    rs1 = rs @ [r]
                in if stop \<and> \<not> success r then (Inr rs1, w2)
                   else execute_sequential_loop d stop rest rs1 w2)))"

definition execute_sequential ::
  "'x ExecutionDispatcher \<Rightarrow> ToolCall list \<Rightarrow> bool \<Rightarrow> 'x world
     \<Rightarrow> (exception + ToolResult list) \<times> 'x world" where
  \<comment> \<open>\<open>_execute_sequential\<close>\<close>
  "execute_sequential d tcs stop w = execute_sequential_loop d stop tcs [] w"

definition execute_single ::
  "'x ExecutionDispatcher \<Rightarrow> ToolCall \<Rightarrow> 'x world \<Rightarrow> (exception + ToolResult) \<times> 'x world" where
  "execute_single d tc w =
     (case registry_get (ExecutionDispatcher.registry d) (ToolCall.tool_name tc) of
        None \<Rightarrow>
          (let err = tool_not_found (ToolCall.tool_name tc) (clock w);
               w1 = w\<lparr>execution_context := add_error err (execution_context w)\<rparr>
           in (Inr \<lparr>ToolResult.tool_name = ToolCall.tool_name tc, status = ToolStatus.FAILED,
                    data = None, error = Some (ExecutionError.message err),
                    execution_time_ms = 0, timestamp = clock w1, metadata = [],
                    retry_count = 0\<rparr>, w1))
      | Some tool \<Rightarrow>
          ToolExecutor_execute (ExecutionDispatcher.executor d) tool (ToolCall.params tc) w)"

text \<open>
  \<open>asyncio.gather\<close> over the tasks. The interleaving of the tasks is not modelled:
  they run one after the other in submission order, which is also the order of the
  results; the first exception ends the gathering.
\<close>

fun gather :: "'x ExecutionDispatcher \<Rightarrow> ToolCall list \<Rightarrow> 'x world
     \<Rightarrow> (exception + ToolResult list) \<times> 'x world" where
  "gather d [] w = (Inr [], w)"
| "gather d (tc # rest) w =
     (case execute_single d tc w of
        (Inl e, w1) \<Rightarrow> (Inl e, w1)
      | (Inr r, w1) \<Rightarrow>
          (case gather d rest w1 of
             (Inl e, w2) \<Rightarrow> (Inl e, w2)
           | (Inr rs, w2) \<Rightarrow> (Inr (r # rs), w2)))"

definition execute_parallel ::
  "'x ExecutionDispatcher \<Rightarrow> ToolCall list \<Rightarrow> 'x world
     \<Rightarrow> (exception + ToolResult list) \<times> 'x world" where
  \<comment> \<open>\<open>_execute_parallel\<close>\<close>
  "execute_parallel d tcs w =
     (case gather d tcs w of
        (Inl e, w1) \<Rightarrow> (Inl e, w1)
      | (Inr rs, w1) \<Rightarrow>
          (Inr rs, w1\<lparr>execution_context := add_results rs (execution_context w1)\<rparr>))"

definition unsupported_mode :: "ExecutionMode \<Rightarrow> exception" where
  "unsupported_mode m =
     \<lparr>exn_type = ValueError, str = [Text ''Unsupported execution mode: '', FMode m],
      exn_tool_name = None, error_code = None\<rparr>"

text \<open>The branch of \<open>dispatch\<close> on the execution mode.\<close>

definition execute_by_mode ::
  "'x ExecutionDispatcher \<Rightarrow> ExecutionRequest \<Rightarrow> 'x world
     \<Rightarrow> (exception + ToolResult list) \<times> 'x world" where
  "execute_by_mode d req w =
     (if execution_mode req = SEQUENTIAL then
        execute_sequential d (tool_calls req) (stop_on_error req) w
      else if execution_mode req = PARALLEL then execute_parallel d (tool_calls req) w
      else (Inl (unsupported_mode (execution_mode req)), w))"

definition execution_error :: "message \<Rightarrow> string \<Rightarrow> string \<Rightarrow> real \<Rightarrow> ExecutionError" where
  "execution_error msg ty code now =
     \<lparr>ExecutionError.message = msg, tool_name = None, error_code = Some code,
      error_type = ty, timestamp = now, details = None, recoverable = False\<rparr>"

text \<open>
  The pieces of \<open>dispatch\<close>: the request id (\<open>uuid4\<close> is the identifier drawn when
  the request has none), the context it creates, and the final status it gives the
  context from the results.
\<close>

definition dispatch_request_id :: "string \<Rightarrow> ExecutionRequest \<Rightarrow> string" where
  \<comment> \<open>\<open>request.request_id or str(uuid.uuid4())\<close>\<close>
  "dispatch_request_id uuid4 req =
     (case ExecutionRequest.request_id req of
        None \<Rightarrow> uuid4 | Some r \<Rightarrow> if r \<noteq> [] then r else uuid4)"

definition dispatch_context :: "string \<Rightarrow> ExecutionRequest \<Rightarrow> real \<Rightarrow> ExecutionContext" where
  "dispatch_context uuid4 req now =
     ExecutionContext_init (dispatch_request_id uuid4 req) (Some (ExecutionRequest.user_id req))
       (ExecutionRequest.session_id req) (ExecutionRequest.metadata req)
       (request_context req) now"

definition final_status :: "ToolResult list \<Rightarrow> ExecutionStatus" where
  "final_status rs =
     (if list_all success rs then ExecutionStatus.SUCCESS
      else if list_ex success rs then ExecutionStatus.PARTIAL
      else ExecutionStatus.FAILED)"

text \<open>
  \<open>dispatch\<close>. The model returns the response and the world, whose
  \<open>execution_context\<close> is the context the call created.
\<close>

definition dispatch ::
  "'x ExecutionDispatcher \<Rightarrow> string \<Rightarrow> ExecutionRequest \<Rightarrow> 'x world
     \<Rightarrow> ExecutionResponse \<times> 'x world" where
  "dispatch d uuid4 req w =
     (let rid = dispatch_request_id uuid4 req;
          w0 = w\<lparr>execution_context := dispatch_context uuid4 req (clock w)\<rparr>;
          validation_errors = validate_tool_calls (ExecutionDispatcher.registry d) (tool_calls req)
      in if validation_errors \<noteq> [] then
           (let w1 = w0\<lparr>execution_context :=
                        complete ExecutionStatus.FAILED (clock w0) (execution_context w0)\<rparr>
            in (aggregate rid []
                  (map (\<lambda>m. execution_error m ''ValidationError'' ''INVALID_TOOL_CALL'' (clock w1))
                     validation_errors)
                  (ExecutionContext.start_time (execution_context w1)) (Some (clock w1))
                  (ExecutionRequest.metadata req) (clock w1), w1))
         else
           (case execute_by_mode d req w0 of
              (Inr rs, w1) \<Rightarrow>
                (let w2 = w1\<lparr>execution_context :=
                             complete (final_status rs) (clock w1) (execution_context w1)\<rparr>
                 in (aggregate rid rs (ExecutionContext.errors (execution_context w2))
                       (ExecutionContext.start_time (execution_context w2))
                       (ExecutionContext.end_time (execution_context w2))
                       (ExecutionRequest.metadata req) (clock w2), w2))
            | (Inl e, w1) \<Rightarrow>
                (let w2 = w1\<lparr>execution_context :=
                             complete ExecutionStatus.FAILED (clock w1) (execution_context w1)\<rparr>
                 in (aggregate rid (ExecutionContext.results (execution_context w2))
                       [execution_error (str e) (type_name (exn_type e)) ''EXECUTION_ERROR'' (clock w2)]
                       (ExecutionContext.start_time (execution_context w2)) (Some (clock w2))
                       (ExecutionRequest.metadata req) (clock w2), w2))))"

section \<open>Sample values for instantiating the theorems\<close>

definition result_with :: "string \<Rightarrow> ToolStatus \<Rightarrow> ToolResult" where
  "result_with nm st =
     \<lparr>ToolResult.tool_name = nm, status = st, data = None, error = None,
      execution_time_ms = 0, timestamp = 0, metadata = [], retry_count = 0\<rparr>"


definition sample_breaker_config :: CircuitBreakerConfig where
  "sample_breaker_config =
     \<lparr>failure_threshold = 3, success_threshold = 2,
      CircuitBreakerConfig.timeout_seconds = 60, half_open_max_calls = 1\<rparr>"

text \<open>A breaker configuration whose thresholds are zero (the constructor checks nothing).\<close>

definition zero_threshold_config :: CircuitBreakerConfig where
  "zero_threshold_config =
     \<lparr>failure_threshold = 0, success_threshold = 0,
      CircuitBreakerConfig.timeout_seconds = 60, half_open_max_calls = 1\<rparr>"

definition sample_rate_config :: RateLimitConfig where
  "sample_rate_config = RateLimitConfig_init 60 60 None"

definition sample_limiter :: RateLimiter where
  "sample_limiter =
     \<lparr>RateLimiter.config = sample_rate_config, tokens = 60, last_update = 0, refill_rate = 1\<rparr>"

definition sample_context :: ExecutionContext where
  "sample_context = ExecutionContext_init ''request-1'' None None [] [] 0"

text \<open>
  A world at time 0 with no breaker or limiter created yet; it counts tool runs in
  its external part and every random draw is \<open>3/4\<close>.
\<close>

definition sample_world :: "nat world" where
  "sample_world =
     \<lparr>clock = 0, random_source = (\<lambda>i. 3 / 4), random_draws = 0, external = 0,
      circuit_breaker =
        \<lparr>CircuitBreaker.default_config = sample_breaker_config, breakers = [], configs = []\<rparr>,
      rate_limiter =
        \<lparr>MultiRateLimiter.default_config = sample_rate_config, limiters = [], configs = []\<rparr>,
      execution_context = sample_context\<rparr>"

definition connection_error :: exception where
  "connection_error =
     \<lparr>exn_type = Other ''ConnectionError'', str = [Text ''connection refused''],
      exn_tool_name = None, error_code = None\<rparr>"

text \<open>A call that raises every time it is tried, and counts its tries.\<close>

definition always_raises :: "nat world \<Rightarrow> (exception + ToolResult) \<times> nat world" where
  "always_raises w = (Inl connection_error, w\<lparr>external := Suc (external w)\<rparr>)"

definition no_jitter_config :: RetryConfig where
  "no_jitter_config = RetryConfig_init 3 1 60 2 False None"

definition negative_cap_config :: RetryConfig where
  "negative_cap_config = RetryConfig_init 3 1 (- 1) 2 False None"

text \<open>Four attempts; the base \<open>2.0 ** 600\<close> is a double, its square is out of range.\<close>

definition large_base :: real where
  "large_base = 2 ^ 600"

definition large_base_config :: RetryConfig where
  "large_base_config = RetryConfig_init 4 1 60 large_base False None"

definition zero_attempts_config :: RetryConfig where
  "zero_attempts_config = RetryConfig_init 0 1 60 2 False None"

text \<open>
  An executor with the default retry configuration and a 30 second timeout, whose
  parameter validator requires the key \<open>id\<close>.
\<close>

definition requires_id ::
  "nat BaseTool \<Rightarrow> pydict \<Rightarrow> nat world \<Rightarrow> (exception + ValidationResult) \<times> nat world" where
  "requires_id tool ps w =
     (if map_of ps ''id'' \<noteq> None
      then (Inr \<lparr>is_valid = True, errors = [], warnings = []\<rparr>, w)
      else (Inr \<lparr>is_valid = False, errors = [''Missing required parameters: id''],
                 warnings = []\<rparr>, w))"

definition accepts_result ::
  "nat BaseTool \<Rightarrow> pydict \<Rightarrow> nat world \<Rightarrow> (exception + ValidationResult) \<times> nat world" where
  "accepts_result tool d w = (Inr \<lparr>is_valid = True, errors = [], warnings = []\<rparr>, w)"

definition sample_executor :: "nat ToolExecutor" where
  "sample_executor =
     \<lparr>retry_strategy = \<lparr>RetryStrategy.default_config = RetryConfig_default, tool_configs = []\<rparr>,
      timeout_handler = \<lparr>default_timeout_seconds = 30, tool_timeouts = []\<rparr>,
      validate_params = requires_id, validate_result = accepts_result\<rparr>"

text \<open>
  Four tools. Each run adds one to the external counter. The first returns a
  successful result after one second, the second returns a result with status
  failed, the third raises, the fourth is still running at the deadline.
\<close>

definition succeeding_tool :: "string \<Rightarrow> nat BaseTool" where
  "succeeding_tool nm =
     \<lparr>name = nm,
      execute_with_timing = (\<lambda>t ps w.
        (Returned ((result_with nm ToolStatus.SUCCESS)
                     \<lparr>data := Some [(''run'', PyInt (int (external w)))], ToolResult.timestamp := clock w + 1\<rparr>),
         w\<lparr>clock := clock w + 1, external := Suc (external w)\<rparr>))\<rparr>"

definition failing_tool :: "string \<Rightarrow> nat BaseTool" where
  "failing_tool nm =
     \<lparr>name = nm,
      execute_with_timing = (\<lambda>t ps w.
        (Returned ((result_with nm ToolStatus.FAILED)\<lparr>error := Some [Text ''not found'']\<rparr>),
         w\<lparr>external := Suc (external w)\<rparr>))\<rparr>"

definition raising_tool :: "string \<Rightarrow> nat BaseTool" where
  "raising_tool nm =
     \<lparr>name = nm,
      execute_with_timing = (\<lambda>t ps w.
        (Raised connection_error, w\<lparr>external := Suc (external w)\<rparr>))\<rparr>"

definition hanging_tool :: "string \<Rightarrow> nat BaseTool" where
  "hanging_tool nm =
     \<lparr>name = nm,
      execute_with_timing = (\<lambda>t ps w.
        (Expired, w\<lparr>clock := clock w + of_int t, external := Suc (external w)\<rparr>))\<rparr>"

text \<open>
  The sample world with the breaker of tool \<open>orders\<close> open since time 0, and the
  sample world with the limiter of tool \<open>orders\<close> out of tokens.
\<close>

definition world_with_open_breaker :: "nat world" where
  "world_with_open_breaker =
     sample_world\<lparr>clock := 10,
       circuit_breaker :=
         \<lparr>CircuitBreaker.default_config = sample_breaker_config,
          breakers = [(''orders'',
             (CircuitBreakerState_init sample_breaker_config)
               \<lparr>state := OPEN, opened_at := Some 0, last_failure_time := Some 0\<rparr>)],
          configs = []\<rparr>\<rparr>"

definition world_with_empty_bucket :: "nat world" where
  "world_with_empty_bucket =
     sample_world\<lparr>rate_limiter :=
       \<lparr>MultiRateLimiter.default_config = sample_rate_config,
        limiters = [(''orders'', sample_limiter\<lparr>tokens := 0\<rparr>)], configs = []\<rparr>\<rparr>"

text \<open>
  A registry with five tools and the strategies and dispatcher over it; \<open>call\<close> is
  a tool call with valid parameters and \<open>saga_step\<close> a step whose compensating
  action, if any, names a tool. No tool is registered under \<open>ghost\<close>.
\<close>

definition sample_registry :: "nat ToolRegistry" where
  "sample_registry =
     \<lparr>tools = [(''orders'', succeeding_tool ''orders''), (''lookup'', failing_tool ''lookup''),
               (''refund'', succeeding_tool ''refund''), (''cancel'', succeeding_tool ''cancel''),
               (''restock'', raising_tool ''restock'')]\<rparr>"

definition call :: "string \<Rightarrow> ToolCall" where
  "call nm =
     \<lparr>ToolCall.tool_name = nm, params = [(''id'', PyInt 7)], timeout_seconds = Some 30,
      retry_on_failure = True, metadata = []\<rparr>"

definition saga_step :: "string \<Rightarrow> string option \<Rightarrow> TransactionStep" where
  "saga_step nm undo =
     \<lparr>forward = call nm,
      compensate = map_option (\<lambda>u. \<lparr>CompensatingAction.tool_name = u,
                                       params = [(''id'', PyInt 7)], description = []\<rparr>) undo\<rparr>"

definition sample_sequential :: "nat SequentialStrategy" where
  "sample_sequential =
     \<lparr>SequentialStrategy.registry = sample_registry, executor = sample_executor\<rparr>"

definition sample_compensating :: "nat CompensatingStrategy" where
  "sample_compensating =
     \<lparr>CompensatingStrategy.registry = sample_registry, executor = sample_executor\<rparr>"

definition sample_dispatcher :: "nat ExecutionDispatcher" where
  "sample_dispatcher =
     \<lparr>ExecutionDispatcher.registry = sample_registry, executor = sample_executor,
      max_concurrent = 10\<rparr>"

definition sample_request :: "ExecutionMode \<Rightarrow> ToolCall list \<Rightarrow> ExecutionRequest" where
  "sample_request mode tcs =
     \<lparr>ExecutionRequest.request_id = None, user_id = ''user-1'', session_id = None,
      tool_calls = tcs, execution_mode = mode, stop_on_error = False,
      timeout_seconds = Some 300, metadata = [], request_context = []\<rparr>"

section \<open>Verified properties\<close>

subsection \<open>Dictionaries\<close>

lemma map_of_dict_set: "map_of (dict_set k v d) = (map_of d)(k \<mapsto> v)"
  by (induction d) (auto simp: fun_eq_iff)

lemma find_app:
  "find P (xs @ ys) = (case find P xs of None \<Rightarrow> find P ys | Some x \<Rightarrow> Some x)"
  by (induction xs) auto

subsection \<open>ResultAggregator: derivation of the overall status\<close>








subsection \<open>ExecutionContext: order of results and lookup by tool name\<close>

lemma add_results_Nil: "add_results [] c = c"
  by (simp add: add_results_def)

lemma add_results_Cons: "add_results (r # rs) c = add_results rs (add_result r c)"
  by (simp add: add_results_def)

lemma results_add_result:
  "ExecutionContext.results (add_result r c) = ExecutionContext.results c @ [r]"
  by (simp add: add_result_def)

lemma results_add_results:
  "ExecutionContext.results (add_results rs c) = ExecutionContext.results c @ rs"
  by (induction rs arbitrary: c) (simp_all add: add_results_Nil add_results_Cons add_result_def)

lemma get_result_add_result:
  "get_result (add_result r c) nm =
     (if ToolResult.tool_name r = nm then Some r else get_result c nm)"
  by (simp add: get_result_def add_result_def map_of_dict_set)

lemma get_result_add_results:
  "get_result (add_results rs c) nm =
     (case find (\<lambda>r. ToolResult.tool_name r = nm) (rev rs) of
        Some r \<Rightarrow> Some r | None \<Rightarrow> get_result c nm)"
proof (induction rs arbitrary: c)
  case Nil
  show ?case by (simp add: add_results_Nil)
next
  case (Cons r rs)
  show ?case
    by (simp add: add_results_Cons Cons.IH find_app get_result_add_result split: option.splits)
qed

text \<open>
  C10. One \<open>add_result\<close> appends exactly one result; after any run of calls the
  results list is the old list followed by the added results in call order, and
  \<open>get_result\<close> for a name returns the last added result of that name (the earlier
  lookup when none was added). When two results share a tool name, both stay in the
  list and the lookup, and so the predicate of \<open>create_condition_from_result\<close>,
  sees only the later one.
\<close>

theorem add_result_order_and_lookup:
  "ExecutionContext.results (add_result r c) = ExecutionContext.results c @ [r]
   \<and> length (ExecutionContext.results (add_result r c)) = length (ExecutionContext.results c) + 1
   \<and> ExecutionContext.results (add_results rs c) = ExecutionContext.results c @ rs
   \<and> get_result (add_results rs c) nm =
       (case find (\<lambda>r. ToolResult.tool_name r = nm) (rev rs) of
          Some r \<Rightarrow> Some r | None \<Rightarrow> get_result c nm)
   \<and> (let r2' = r2\<lparr>ToolResult.tool_name := ToolResult.tool_name r1\<rparr>;
           c' = add_result r2' (add_result r1 c)
       in ExecutionContext.results c' = ExecutionContext.results c @ [r1, r2']
          \<and> get_result c' (ToolResult.tool_name r1) = Some r2'
          \<and> create_condition_from_result (ToolResult.tool_name r1) check c' = check r2')"
  by (simp add: results_add_result results_add_results get_result_add_results Let_def
      get_result_add_result create_condition_from_result_def)

subsection \<open>CircuitBreakerState: the transitions\<close>

lemma record_calls_Nil: "record_calls [] b = b"
  by (simp add: record_calls_def)

lemma record_calls_Cons: "record_calls (c # cs) b = record_calls cs (record_call c b)"
  by (simp add: record_calls_def)

lemma record_calls_append: "record_calls (cs @ ds) b = record_calls ds (record_calls cs b)"
  by (simp add: record_calls_def)

text \<open>Fewer failures than the threshold leave a closed breaker closed and are counted.\<close>

lemma failures_below_threshold:
  "state b = CLOSED \<Longrightarrow>
   failure_count b + int (length ts) < failure_threshold (CircuitBreakerState.config b) \<Longrightarrow>
   record_calls (map RecordFailure ts) b =
     b\<lparr>last_failure_time := (if ts = [] then last_failure_time b else Some (last ts)),
       failure_count := failure_count b + int (length ts)\<rparr>"
proof (induction ts arbitrary: b)
  case Nil
  show ?case by (simp add: record_calls_Nil)
next
  case (Cons t ts)
  let ?b1 = "record_failure t b"
  have b1: "?b1 = b\<lparr>last_failure_time := Some t, failure_count := failure_count b + 1\<rparr>"
    using Cons.prems by (simp add: record_failure_def Let_def)
  have "record_calls (map RecordFailure ts) ?b1 =
          ?b1\<lparr>last_failure_time := (if ts = [] then last_failure_time ?b1 else Some (last ts)),
              failure_count := failure_count ?b1 + int (length ts)\<rparr>"
    using Cons.prems by (intro Cons.IH) (simp_all add: b1)
  then show ?case
    by (simp add: record_calls_Cons b1)
qed

lemma failure_at_threshold:
  "state b = CLOSED \<Longrightarrow>
   failure_threshold (CircuitBreakerState.config b) \<le> failure_count b + 1 \<Longrightarrow>
   record_failure t b =
     b\<lparr>last_failure_time := Some t, state := OPEN, opened_at := Some t,
       failure_count := 0, success_count := 0\<rparr>"
  by (simp add: record_failure_def Let_def open_circuit_def)

lemma threshold_failures_open:
  assumes "state b = CLOSED" "failure_count b = 0"
    and "1 \<le> failure_threshold (CircuitBreakerState.config b)"
    and "int (length ts) = failure_threshold (CircuitBreakerState.config b)"
  shows "record_calls (map RecordFailure ts) b =
           b\<lparr>last_failure_time := Some (last ts), state := OPEN, opened_at := Some (last ts),
             failure_count := 0, success_count := 0\<rparr>"
proof -
  from assms have "ts \<noteq> []" by auto
  then obtain us t where ts: "ts = us @ [t]"
    by (metis rev_exhaust)
  let ?b1 = "record_calls (map RecordFailure us) b"
  have b1: "?b1 = b\<lparr>last_failure_time := (if us = [] then last_failure_time b else Some (last us)),
       failure_count := failure_count b + int (length us)\<rparr>"
    using assms ts by (intro failures_below_threshold) simp_all
  have "record_failure t ?b1 = ?b1\<lparr>last_failure_time := Some t, state := OPEN, opened_at := Some t,
       failure_count := 0, success_count := 0\<rparr>"
    using assms ts by (intro failure_at_threshold) (simp_all add: b1)
  then show ?thesis
    by (simp add: ts record_calls_append record_calls_Cons record_calls_Nil b1)
qed

lemma can_execute_open:
  "state b = OPEN \<Longrightarrow> opened_at b = Some t \<Longrightarrow>
   can_execute now b =
     (if of_int (CircuitBreakerConfig.timeout_seconds (CircuitBreakerState.config b)) \<le> now - t
      then (True, b\<lparr>state := HALF_OPEN, half_open_calls := 0\<rparr>) else (False, b))"
  by (simp add: can_execute_def Let_def)

lemma half_open_failure:
  "state b = HALF_OPEN \<Longrightarrow>
   state (record_failure now b) = OPEN \<and> opened_at (record_failure now b) = Some now"
  by (simp add: record_failure_def Let_def open_circuit_def)

lemma successes_below_threshold:
  "state b = HALF_OPEN \<Longrightarrow>
   success_count b + int k < success_threshold (CircuitBreakerState.config b) \<Longrightarrow>
   record_calls (replicate k RecordSuccess) b = b\<lparr>success_count := success_count b + int k\<rparr>"
proof (induction k arbitrary: b)
  case 0
  show ?case by (simp add: record_calls_Nil)
next
  case (Suc k)
  let ?b1 = "record_success b"
  have b1: "?b1 = b\<lparr>success_count := success_count b + 1\<rparr>"
    using Suc.prems by (simp add: record_success_def Let_def)
  have "record_calls (replicate k RecordSuccess) ?b1 = ?b1\<lparr>success_count := success_count ?b1 + int k\<rparr>"
    using Suc.prems by (intro Suc.IH) (simp_all add: b1)
  then show ?case
    by (simp add: record_calls_Cons b1)
qed

lemma threshold_successes_close:
  assumes "state b = HALF_OPEN" "success_count b = 0"
    and "1 \<le> success_threshold (CircuitBreakerState.config b)"
    and "int k = success_threshold (CircuitBreakerState.config b)"
  shows "record_calls (replicate k RecordSuccess) b =
           b\<lparr>success_count := 0, state := CLOSED, failure_count := 0, opened_at := None\<rparr>"
proof -
  from assms obtain j where k: "k = Suc j" by (cases k) auto
  let ?b1 = "record_calls (replicate j RecordSuccess) b"
  have b1: "?b1 = b\<lparr>success_count := success_count b + int j\<rparr>"
    using assms k by (intro successes_below_threshold) simp_all
  have "record_success ?b1 = ?b1\<lparr>success_count := 0, state := CLOSED, failure_count := 0, opened_at := None\<rparr>"
    using assms k by (simp add: b1 record_success_def Let_def close_circuit_def)
  moreover have "replicate k RecordSuccess = replicate j RecordSuccess @ [RecordSuccess]"
    by (simp add: k replicate_append_same)
  ultimately show ?thesis
    by (simp add: record_calls_append record_calls_Cons record_calls_Nil b1)
qed


text \<open>What a history of outcome reports can reach from a closed breaker.\<close>

lemma record_call_closed_or_open:
  assumes "(state b = CLOSED \<and> 0 \<le> failure_count b
              \<and> failure_count b < failure_threshold (CircuitBreakerState.config b))
           \<or> (state b = OPEN \<and> opened_at b \<noteq> None \<and> success_count b = 0)"
  shows "CircuitBreakerState.config (record_call c b) = CircuitBreakerState.config b
         \<and> ((state (record_call c b) = CLOSED \<and> 0 \<le> failure_count (record_call c b)
              \<and> failure_count (record_call c b) < failure_threshold (CircuitBreakerState.config b))
           \<or> (state (record_call c b) = OPEN \<and> opened_at (record_call c b) \<noteq> None
              \<and> success_count (record_call c b) = 0))"
  using assms
  by (cases c) (auto simp: record_success_def record_failure_def Let_def open_circuit_def)

lemma record_calls_closed_or_open:
  assumes "(state b = CLOSED \<and> 0 \<le> failure_count b
              \<and> failure_count b < failure_threshold (CircuitBreakerState.config b))
           \<or> (state b = OPEN \<and> opened_at b \<noteq> None \<and> success_count b = 0)"
  shows "CircuitBreakerState.config (record_calls h b) = CircuitBreakerState.config b
         \<and> ((state (record_calls h b) = CLOSED \<and> 0 \<le> failure_count (record_calls h b)
              \<and> failure_count (record_calls h b) < failure_threshold (CircuitBreakerState.config b))
           \<or> (state (record_calls h b) = OPEN \<and> opened_at (record_calls h b) \<noteq> None
              \<and> success_count (record_calls h b) = 0))"
  using assms
proof (induction h arbitrary: b)
  case Nil
  then show ?case by (simp add: record_calls_Nil)
next
  case (Cons c h)
  from record_call_closed_or_open [OF Cons.prems, of c]
  show ?case
    using Cons.IH [of "record_call c b"] by (simp add: record_calls_Cons)
qed

text \<open>Enough consecutive failures open a breaker that is closed or already open.\<close>

lemma failures_open:
  assumes "(state b = CLOSED \<and> 0 \<le> failure_count b
              \<and> failure_count b < failure_threshold (CircuitBreakerState.config b)
              \<and> failure_threshold (CircuitBreakerState.config b) \<le> failure_count b + int (length ts))
           \<or> (state b = OPEN \<and> opened_at b \<noteq> None \<and> success_count b = 0)"
  shows "state (record_calls (map RecordFailure ts) b) = OPEN
         \<and> opened_at (record_calls (map RecordFailure ts) b) \<noteq> None
         \<and> success_count (record_calls (map RecordFailure ts) b) = 0
         \<and> CircuitBreakerState.config (record_calls (map RecordFailure ts) b)
             = CircuitBreakerState.config b"
  using assms
proof (induction ts arbitrary: b)
  case Nil
  then show ?case by (auto simp: record_calls_Nil)
next
  case (Cons t ts)
  let ?b1 = "record_failure t b"
  have cfg: "CircuitBreakerState.config ?b1 = CircuitBreakerState.config b"
    by (simp add: record_failure_def Let_def open_circuit_def)
  have 1: "(state ?b1 = CLOSED \<and> 0 \<le> failure_count ?b1
              \<and> failure_count ?b1 < failure_threshold (CircuitBreakerState.config ?b1)
              \<and> failure_threshold (CircuitBreakerState.config ?b1) \<le> failure_count ?b1 + int (length ts))
           \<or> (state ?b1 = OPEN \<and> opened_at ?b1 \<noteq> None \<and> success_count ?b1 = 0)"
    using Cons.prems by (auto simp: record_failure_def Let_def open_circuit_def)
  from Cons.IH [OF 1] show ?case
    by (simp add: record_calls_Cons cfg)
qed

text \<open>
  C4 (as amended). Take a closed breaker whose failure count is zero (a new breaker,
  or any closed breaker after a success) whose \<open>failure_threshold\<close> and
  \<open>success_threshold\<close> are at least one, and any history \<open>h\<close> of
  success and failure reports. After \<open>failure_threshold\<close> further consecutive failures
  the breaker is open, and \<open>can_execute\<close> answers false until \<open>timeout_seconds\<close> have
  passed since \<open>opened_at\<close>; from then on it answers true and moves the breaker to
  half-open. Half-open, one failure reopens it with \<open>opened_at\<close> set to the time of
  that failure; fewer than \<open>success_threshold\<close> successes leave it half-open and
  \<open>success_threshold\<close> successes close it. A success while closed resets the count:
  after it, fewer than \<open>failure_threshold\<close> failures leave the breaker closed and
  executable, and exactly \<open>failure_threshold\<close> failures open it at the time of the last.
\<close>

theorem circuit_breaker_transitions:
  assumes "1 \<le> failure_threshold cfg" and "1 \<le> success_threshold cfg"
    and "CircuitBreakerState.config b = cfg" and "state b = CLOSED" and "failure_count b = 0"
    and "int (length ts) = failure_threshold cfg"
    and "int (length us) < failure_threshold cfg"
    and "int k < success_threshold cfg"
  shows
    "(let b1 = record_calls (h @ map RecordFailure ts) b;
          b2 = b1\<lparr>state := HALF_OPEN, half_open_calls := 0\<rparr>
      in state b1 = OPEN
         \<and> (\<exists>t. opened_at b1 = Some t
                \<and> can_execute now b1 =
                    (if of_int (CircuitBreakerConfig.timeout_seconds cfg) \<le> now - t
                     then (True, b2) else (False, b1)))
         \<and> state (record_failure now' b2) = OPEN
         \<and> opened_at (record_failure now' b2) = Some now'
         \<and> state (record_calls (replicate k RecordSuccess) b2) = HALF_OPEN
         \<and> state (record_calls (replicate (nat (success_threshold cfg)) RecordSuccess) b2) = CLOSED)
     \<and> (state (record_calls h b) = CLOSED \<longrightarrow>
          (let bk = record_calls (h @ RecordSuccess # map RecordFailure us) b;
               b1 = record_calls (h @ RecordSuccess # map RecordFailure ts) b
           in state bk = CLOSED \<and> failure_count bk = int (length us) \<and> fst (can_execute now bk)
              \<and> state b1 = OPEN \<and> opened_at b1 = Some (last ts)))"
proof -
  let ?bh = "record_calls h b"
  have inv_b: "(state b = CLOSED \<and> 0 \<le> failure_count b
              \<and> failure_count b < failure_threshold (CircuitBreakerState.config b))
           \<or> (state b = OPEN \<and> opened_at b \<noteq> None \<and> success_count b = 0)"
    using assms by simp
  note bh = record_calls_closed_or_open [OF inv_b, of h]
  have cfg_h: "CircuitBreakerState.config ?bh = cfg"
    using bh assms by simp
  let ?b1 = "record_calls (h @ map RecordFailure ts) b"
  have b1_eq: "?b1 = record_calls (map RecordFailure ts) ?bh"
    by (simp add: record_calls_append)
  have b1: "state ?b1 = OPEN \<and> opened_at ?b1 \<noteq> None \<and> success_count ?b1 = 0
            \<and> CircuitBreakerState.config ?b1 = cfg"
    unfolding b1_eq using failures_open [of ?bh ts] bh assms cfg_h by auto
  then obtain t where t: "opened_at ?b1 = Some t" by auto
  let ?b2 = "?b1\<lparr>state := HALF_OPEN, half_open_calls := 0\<rparr>"
  have ce: "can_execute now ?b1 =
              (if of_int (CircuitBreakerConfig.timeout_seconds cfg) \<le> now - t
               then (True, ?b2) else (False, ?b1))"
    using can_execute_open [of ?b1 t now] b1 t by simp
  have hf: "state (record_failure now' ?b2) = OPEN \<and> opened_at (record_failure now' ?b2) = Some now'"
    by (rule half_open_failure) simp
  have sk: "record_calls (replicate k RecordSuccess) ?b2 = ?b2\<lparr>success_count := success_count ?b2 + int k\<rparr>"
    using b1 assms by (intro successes_below_threshold) simp_all
  have sc: "record_calls (replicate (nat (success_threshold cfg)) RecordSuccess) ?b2 =
           ?b2\<lparr>success_count := 0, state := CLOSED, failure_count := 0, opened_at := None\<rparr>"
    using b1 assms by (intro threshold_successes_close) simp_all
  have first: "state ?b1 = OPEN
         \<and> (\<exists>t. opened_at ?b1 = Some t
                \<and> can_execute now ?b1 =
                    (if of_int (CircuitBreakerConfig.timeout_seconds cfg) \<le> now - t
                     then (True, ?b2) else (False, ?b1)))
         \<and> state (record_failure now' ?b2) = OPEN
         \<and> opened_at (record_failure now' ?b2) = Some now'
         \<and> state (record_calls (replicate k RecordSuccess) ?b2) = HALF_OPEN
         \<and> state (record_calls (replicate (nat (success_threshold cfg)) RecordSuccess) ?b2) = CLOSED"
    using b1 t ce hf by (simp add: sk sc)
  have second: "state bk = CLOSED \<and> failure_count bk = int (length us) \<and> fst (can_execute now bk)
              \<and> state b1' = OPEN \<and> opened_at b1' = Some (last ts)"
    if closed: "state ?bh = CLOSED"
      and bk: "bk = record_calls (h @ RecordSuccess # map RecordFailure us) b"
      and b1': "b1' = record_calls (h @ RecordSuccess # map RecordFailure ts) b"
    for bk b1'
  proof -
    let ?b0 = "record_success ?bh"
    have b0: "?b0 = ?bh\<lparr>failure_count := 0\<rparr>"
      using closed by (simp add: record_success_def)
    have "bk = record_calls (map RecordFailure us) ?b0"
      by (simp add: bk record_calls_append record_calls_Cons)
    also have "\<dots> = ?b0\<lparr>last_failure_time := (if us = [] then last_failure_time ?b0 else Some (last us)),
       failure_count := failure_count ?b0 + int (length us)\<rparr>"
      using closed assms cfg_h by (intro failures_below_threshold) (simp_all add: b0)
    finally have k: "state bk = CLOSED \<and> failure_count bk = int (length us)"
      using closed by (simp add: b0)
    have "b1' = record_calls (map RecordFailure ts) ?b0"
      by (simp add: b1' record_calls_append record_calls_Cons)
    also have "\<dots> = ?b0\<lparr>last_failure_time := Some (last ts), state := OPEN, opened_at := Some (last ts),
             failure_count := 0, success_count := 0\<rparr>"
      using closed assms cfg_h by (intro threshold_failures_open) (simp_all add: b0)
    finally have "state b1' = OPEN \<and> opened_at b1' = Some (last ts)"
      by simp
    with k show ?thesis by (simp add: can_execute_def)
  qed
  show ?thesis
    unfolding Let_def using first second by blast
qed

theorem circuit_breaker_transitions_witness:
  "1 \<le> failure_threshold sample_breaker_config \<and> 1 \<le> success_threshold sample_breaker_config
   \<and> state (CircuitBreakerState_init sample_breaker_config) = CLOSED
   \<and> failure_count (CircuitBreakerState_init sample_breaker_config) = 0
   \<and> (let h = [RecordFailure 1, RecordFailure 2, RecordSuccess];
           b = CircuitBreakerState_init sample_breaker_config;
           b1 = record_calls (h @ map RecordFailure [10, 20, 30]) b;
           b2 = b1\<lparr>state := HALF_OPEN, half_open_calls := 0\<rparr>;
           bk = record_calls (h @ RecordSuccess # map RecordFailure [40, 50]) b
       in state (record_calls h b) = CLOSED
          \<and> state b1 = OPEN \<and> opened_at b1 = Some 30
          \<and> can_execute 89 b1 = (False, b1) \<and> can_execute 90 b1 = (True, b2)
          \<and> state (record_failure 120 b2) = OPEN \<and> opened_at (record_failure 120 b2) = Some 120
          \<and> state (record_calls (replicate 1 RecordSuccess) b2) = HALF_OPEN
          \<and> state (record_calls (replicate 2 RecordSuccess) b2) = CLOSED
          \<and> state bk = CLOSED \<and> failure_count bk = 2 \<and> fst (can_execute 95 bk))"
proof -
  let ?b = "CircuitBreakerState_init sample_breaker_config"
  let ?h = "[RecordFailure 1, RecordFailure 2, RecordSuccess]"
  have c: "failure_threshold sample_breaker_config = 3" "success_threshold sample_breaker_config = 2"
    "CircuitBreakerConfig.timeout_seconds sample_breaker_config = 60"
    by (simp_all add: sample_breaker_config_def)
  have b: "CircuitBreakerState.config ?b = sample_breaker_config" "state ?b = CLOSED"
    "failure_count ?b = 0"
    by (simp_all add: CircuitBreakerState_init_def)
  have h: "state (record_calls ?h ?b) = CLOSED"
    by (simp add: record_calls_def record_failure_def record_success_def Let_def c b)
  have o: "opened_at (record_calls (?h @ map RecordFailure [10, 20, 30]) ?b) = Some 30"
    by (simp add: record_calls_def record_failure_def record_success_def Let_def c b
        open_circuit_def)
  note t = circuit_breaker_transitions [of sample_breaker_config ?b "[10, 20, 30]" "[40, 50]" 1]
  have t1: "int (length [10::real, 20, 30]) = failure_threshold sample_breaker_config"
    "int (length [40::real, 50]) < failure_threshold sample_breaker_config"
    "int 1 < success_threshold sample_breaker_config"
    by (simp_all add: c)
  note u = t [OF _ _ b t1, of ?h 89 120, unfolded c Let_def, simplified]
    and v = t [OF _ _ b t1, of ?h 90 120, unfolded c Let_def, simplified]
    and w = t [OF _ _ b t1, of ?h 95 120, unfolded c Let_def, simplified]
  show ?thesis
    unfolding Let_def using u v w h o by (simp add: c b)
qed

text \<open>
  The claim as stated fails for thresholds of zero, which the configuration accepts.
  With \<open>failure_threshold = 0\<close>, a new breaker after \<open>failure_threshold\<close> (no)
  failures is closed and \<open>can_execute\<close> answers true. With \<open>success_threshold = 0\<close>,
  a half-open breaker after \<open>success_threshold\<close> (no) successes is still half-open.
\<close>

theorem circuit_breaker_zero_threshold_counterexample:
  "failure_threshold zero_threshold_config = 0 \<and> success_threshold zero_threshold_config = 0
   \<and> (let b = CircuitBreakerState_init zero_threshold_config;
          b1 = record_calls (map RecordFailure
                 (replicate (nat (failure_threshold zero_threshold_config)) 10)) b;
          b2 = snd (can_execute 100 (record_failure 10 b));
          b3 = record_calls
                 (replicate (nat (success_threshold zero_threshold_config)) RecordSuccess) b2
      in state b = CLOSED
         \<and> state b1 = CLOSED \<and> can_execute 5 b1 = (True, b1)
         \<and> state b2 = HALF_OPEN \<and> state b3 = HALF_OPEN)"
  by (simp add: zero_threshold_config_def CircuitBreakerState_init_def record_calls_def
      can_execute_def record_failure_def open_circuit_def Let_def)

subsection \<open>RateLimiter: the token bucket\<close>

lemma acquire_keeps_rate:
  "RateLimiter.config (snd (acquire n now l)) = RateLimiter.config l
   \<and> refill_rate (snd (acquire n now l)) = refill_rate l"
  by (simp add: acquire_def refill_def Let_def)

lemma acquires_keeps_rate:
  "RateLimiter.config (acquires cs l) = RateLimiter.config l
   \<and> refill_rate (acquires cs l) = refill_rate l"
proof (induction cs arbitrary: l)
  case Nil
  show ?case by (simp add: acquires_def)
next
  case (Cons c cs)
  obtain n now where c: "c = (n, now)" by (cases c)
  have "acquires (c # cs) l = acquires cs (snd (acquire n now l))"
    by (simp add: acquires_def c)
  then show ?case
    using Cons.IH [of "snd (acquire n now l)"] acquire_keeps_rate [of n now l] by simp
qed

text \<open>
  C5. For a limiter built by the constructor and any earlier \<open>acquire\<close> calls: the
  tokens available are the stored tokens plus elapsed seconds times
  \<open>max_calls / window_seconds\<close>, capped at \<open>burst_size\<close>; \<open>acquire n\<close> answers true
  exactly when at least \<open>n\<close> are available and then leaves \<open>available - n\<close>; otherwise
  it answers false and leaves all of them.
\<close>

theorem acquire_token_bucket:
  assumes "RateLimiter_init cfg t0 = Inr l0"
  shows "(let l = acquires cs l0;
              available = min (of_int (burst_size cfg))
                (tokens l + (now - last_update l) * (of_int (max_calls cfg) / of_int (window_seconds cfg)));
              (ok, l') = acquire n now l
          in ok = (of_int n \<le> available)
             \<and> tokens l' = (if ok then available - of_int n else available)
             \<and> last_update l' = now
             \<and> RateLimiter.config l' = cfg
             \<and> refill_rate l' = of_int (max_calls cfg) / of_int (window_seconds cfg))"
proof -
  from assms have l0: "RateLimiter.config l0 = cfg"
    "refill_rate l0 = of_int (max_calls cfg) / of_int (window_seconds cfg)"
    by (auto simp: RateLimiter_init_def split: if_splits)
  with acquires_keeps_rate [of cs l0]
  have l: "RateLimiter.config (acquires cs l0) = cfg"
    "refill_rate (acquires cs l0) = of_int (max_calls cfg) / of_int (window_seconds cfg)"
    by simp_all
  show ?thesis
    by (simp add: Let_def acquire_def refill_def l)
qed


theorem acquire_token_bucket_witness:
  "RateLimiter_init sample_rate_config 0 = Inr sample_limiter
   \<and> tokens (acquires [(60, 0)] sample_limiter) = 0
   \<and> fst (acquire 1 1 (acquires [(60, 0)] sample_limiter))
   \<and> tokens (snd (acquire 1 1 (acquires [(60, 0)] sample_limiter))) = 0
   \<and> \<not> fst (acquire 2 1 (acquires [(60, 0)] sample_limiter))
   \<and> tokens (snd (acquire 2 1 (acquires [(60, 0)] sample_limiter))) = 1"
proof -
  have i: "RateLimiter_init sample_rate_config 0 = Inr sample_limiter"
    by (simp add: RateLimiter_init_def sample_rate_config_def RateLimitConfig_init_def
        sample_limiter_def)
  have t: "acquires [(60, 0)] sample_limiter = sample_limiter\<lparr>tokens := 0\<rparr>"
    by (simp add: acquires_def acquire_def refill_def Let_def sample_limiter_def
        sample_rate_config_def RateLimitConfig_init_def)
  note a = acquire_token_bucket [OF i, of "[(60, 0)]" 1 1, unfolded t]
    and b = acquire_token_bucket [OF i, of "[(60, 0)]" 1 2, unfolded t]
  have c: "burst_size sample_rate_config = 60" "max_calls sample_rate_config = 60"
    "window_seconds sample_rate_config = 60" "tokens sample_limiter = 60"
    "last_update sample_limiter = 0"
    by (simp_all add: sample_rate_config_def RateLimitConfig_init_def sample_limiter_def)
  show ?thesis
    unfolding t using a b i by (simp add: Let_def split_beta c)
qed

subsection \<open>RetryStrategy: backoff delay and exhausted attempts\<close>

lemma float_overflow_bound: "\<bar>x\<bar> \<le> 2 ^ 1000 \<Longrightarrow> \<not> float_overflow x"
proof -
  have "(2::real) ^ 1000 < 2 ^ 1024 - 2 ^ 970"
    by simp
  then show "\<bar>x\<bar> \<le> 2 ^ 1000 \<Longrightarrow> \<not> float_overflow x"
    by (simp add: float_overflow_def)
qed

lemma float_pow_in_range:
  "\<not> float_overflow (real n) \<Longrightarrow> \<not> float_overflow (x ^ n) \<Longrightarrow> float_pow x n = Inr (x ^ n)"
  by (simp add: float_pow_def)

lemma float_pow_overflow:
  "float_overflow (real n) \<or> float_overflow (x ^ n) \<Longrightarrow>
   float_pow x n = Inl int_too_large \<or> float_pow x n = Inl result_out_of_range"
  by (auto simp add: float_pow_def)

lemma exn_type_overflow [simp]:
  "exn_type int_too_large = OverflowError" "exn_type result_out_of_range = OverflowError"
  by (simp_all add: int_too_large_def result_out_of_range_def overflow_error_def)

lemma calculate_delay_no_jitter:
  "\<not> jitter cfg \<Longrightarrow> float_pow (exponential_base cfg) n = Inr p \<Longrightarrow>
   calculate_delay n cfg w =
     (Inr (max 0 (min (initial_delay_seconds cfg * p) (max_delay_seconds cfg))), w)"
  by (simp add: calculate_delay_def Let_def)

lemma jitter_bounds:
  fixes m u :: real
  assumes "0 \<le> u" "u < 1"
  shows "0.75 * max 0 m \<le> max 0 (m + (- (m * 0.25) + (m * 0.25 - - (m * 0.25)) * u))
         \<and> max 0 (m + (- (m * 0.25) + (m * 0.25 - - (m * 0.25)) * u)) \<le> 1.25 * max 0 m"
proof -
  have e: "m + (- (m * 0.25) + (m * 0.25 - - (m * 0.25)) * u) = m * (0.75 + 0.5 * u)"
    by (simp add: algebra_simps)
  have f: "0.75 \<le> 0.75 + 0.5 * u" "0.75 + 0.5 * u \<le> 1.25" "0 < 0.75 + 0.5 * u"
    using assms by simp_all
  show ?thesis
  proof (cases "0 \<le> m")
    case True
    have 1: "m * 0.75 \<le> m * (0.75 + 0.5 * u)"
      by (rule mult_left_mono [OF f(1) True])
    have 2: "m * (0.75 + 0.5 * u) \<le> m * 1.25"
      by (rule mult_left_mono [OF f(2) True])
    have 3: "0 \<le> m * (0.75 + 0.5 * u)"
      by (rule mult_nonneg_nonneg [OF True]) (use f in linarith)
    have 4: "max 0 m = m" "max 0 (m * (0.75 + 0.5 * u)) = m * (0.75 + 0.5 * u)"
      using True 3 by (simp_all only: max_def if_True)
    have 5: "0.75 * m = m * 0.75" "1.25 * m = m * 1.25"
      by (simp_all only: mult.commute)
    show ?thesis
      unfolding e 4 5 using 1 2 by (rule conjI)
  next
    case False
    then have "m < 0" by simp
    then have "m * (0.75 + 0.5 * u) < 0"
      by (rule mult_neg_pos) (rule f(3))
    then have "max 0 (m * (0.75 + 0.5 * u)) = 0" "max 0 m = 0"
      using \<open>m < 0\<close> by (simp_all only: max_def) auto
    then show ?thesis
      unfolding e by simp
  qed
qed

lemma calculate_delay_jitter:
  assumes "jitter cfg" "0 \<le> random_source w (random_draws w)" "random_source w (random_draws w) < 1"
    and "float_pow (exponential_base cfg) n = Inr p"
  shows "\<exists>d. fst (calculate_delay n cfg w) = Inr d
           \<and> 0.75 * max 0 (min (initial_delay_seconds cfg * p) (max_delay_seconds cfg)) \<le> d
           \<and> d \<le> 1.25 * max 0 (min (initial_delay_seconds cfg * p) (max_delay_seconds cfg))"
  using jitter_bounds [OF assms(2,3),
      of "min (initial_delay_seconds cfg * p) (max_delay_seconds cfg)"] assms(1,4)
  by (simp add: calculate_delay_def Let_def random_uniform_def random_def split_beta)

lemma calculate_delay_overflow:
  "float_pow (exponential_base cfg) n = Inl e \<Longrightarrow> calculate_delay n cfg w = (Inl e, w)"
  by (simp add: calculate_delay_def)

lemma calculate_delay_returns:
  "float_pow (exponential_base cfg) n = Inr p \<Longrightarrow> \<exists>d w'. calculate_delay n cfg w = (Inr d, w')"
  by (simp add: calculate_delay_def Let_def split_beta)

lemma execute_attempts_exhausted:
  assumes "\<forall>k < nat (max_attempts cfg). \<exists>e w'.
             func (world_before_attempt cfg func k w) = (Inl e, w') \<and> is_retryable e cfg"
    and pw: "\<forall>k. k + 1 < nat (max_attempts cfg) \<longrightarrow> (\<exists>p. float_pow (exponential_base cfg) k = Inr p)"
    and "0 \<le> a" "a < max_attempts cfg" "n = nat (max_attempts cfg - 1 - a)"
  shows "execute_attempts cfg func a le (world_before_attempt cfg func (nat a) w)
         = func (world_before_attempt cfg func (nat (max_attempts cfg) - 1) w)"
  using assms(3-)
proof (induction n arbitrary: a le)
  case 0
  then have a: "a = max_attempts cfg - 1" by simp
  then have na: "nat (max_attempts cfg) - 1 = nat a" by simp
  have lt: "a < max_attempts cfg" "max_attempts cfg - 1 \<le> a"
    using a by simp_all
  have "nat a < nat (max_attempts cfg)"
    using 0 by simp
  with assms(1) obtain e w' where
    f: "func (world_before_attempt cfg func (nat a) w) = (Inl e, w')" and "is_retryable e cfg"
    by blast
  then show ?case
    unfolding na by (subst execute_attempts.simps) (simp add: lt)
next
  case (Suc n)
  then have a: "a < max_attempts cfg - 1" by simp
  have "nat a < nat (max_attempts cfg)"
    using Suc.prems by simp
  with assms(1) obtain e w' where
    f: "func (world_before_attempt cfg func (nat a) w) = (Inl e, w')" and r: "is_retryable e cfg"
    by blast
  have "nat a + 1 < nat (max_attempts cfg)"
    using Suc.prems a by simp
  with pw obtain p where "float_pow (exponential_base cfg) (nat a) = Inr p"
    by blast
  from calculate_delay_returns [OF this]
  obtain delay w2 where d: "calculate_delay (nat a) cfg w' = (Inr delay, w2)"
    by blast
  have nxt: "world_before_attempt cfg func (nat (a + 1)) w = sleep delay w2"
    using Suc.prems(1) by (simp add: nat_add_distrib f d)
  have lt: "a < max_attempts cfg" "\<not> max_attempts cfg - 1 \<le> a"
    using a by simp_all
  have "execute_attempts cfg func a le (world_before_attempt cfg func (nat a) w)
        = execute_attempts cfg func (a + 1) (Some e) (sleep delay w2)"
    using r by (subst execute_attempts.simps) (simp add: f d lt)
  also have "\<dots> = func (world_before_attempt cfg func (nat (max_attempts cfg) - 1) w)"
  proof -
    have "0 \<le> a + 1" "a + 1 < max_attempts cfg" "n = nat (max_attempts cfg - 1 - (a + 1))"
      using Suc.prems a by simp_all
    from Suc.IH [OF this, of "Some e"] show ?thesis
      by (simp only: nxt)
  qed
  finally show ?case .
qed

lemma execute_attempts_overflow:
  assumes "\<forall>j \<le> k. \<exists>e w'.
             func (world_before_attempt cfg func j w) = (Inl e, w') \<and> is_retryable e cfg"
    and pw: "\<forall>j < k. \<exists>p. float_pow (exponential_base cfg) j = Inr p"
    and ov: "float_pow (exponential_base cfg) k = Inl oe"
    and k: "int k + 1 < max_attempts cfg"
    and "a \<le> k" "n = k - a"
  shows "execute_attempts cfg func (int a) le (world_before_attempt cfg func a w)
         = (Inl oe, snd (func (world_before_attempt cfg func k w)))"
  using assms(5-)
proof (induction n arbitrary: a le)
  case 0
  then have a: "a = k" by simp
  from assms(1) obtain e w' where
    f: "func (world_before_attempt cfg func k w) = (Inl e, w')" and r: "is_retryable e cfg"
    by blast
  have lt: "int k < max_attempts cfg" "\<not> max_attempts cfg - 1 \<le> int k"
    using k by simp_all
  show ?case
    unfolding a using r
    by (subst execute_attempts.simps) (simp add: f lt calculate_delay_overflow [OF ov])
next
  case (Suc n)
  then have a: "a < k" by simp
  with assms(1) obtain e w' where
    f: "func (world_before_attempt cfg func a w) = (Inl e, w')" and r: "is_retryable e cfg"
    by (meson less_imp_le)
  from pw a obtain p where "float_pow (exponential_base cfg) a = Inr p"
    by blast
  from calculate_delay_returns [OF this]
  obtain delay w2 where d: "calculate_delay a cfg w' = (Inr delay, w2)"
    by blast
  have nxt: "world_before_attempt cfg func (Suc a) w = sleep delay w2"
    by (simp add: f d)
  have lt: "int a < max_attempts cfg" "\<not> max_attempts cfg - 1 \<le> int a"
    using a k by simp_all
  have "execute_attempts cfg func (int a) le (world_before_attempt cfg func a w)
        = execute_attempts cfg func (int a + 1) (Some e) (sleep delay w2)"
    using r by (subst execute_attempts.simps) (simp add: f d lt)
  also have "\<dots> = execute_attempts cfg func (int (Suc a)) (Some e)
                      (world_before_attempt cfg func (Suc a) w)"
    by (simp only: nxt) (simp add: add.commute)
  also have "\<dots> = (Inl oe, snd (func (world_before_attempt cfg func k w)))"
  proof -
    have "Suc a \<le> k" "n = k - Suc a"
      using Suc.prems a by simp_all
    from Suc.IH [OF this] show ?thesis .
  qed
  finally show ?case .
qed

lemma execute_attempts_none:
  "max_attempts cfg \<le> 0 \<Longrightarrow> execute_attempts cfg func 0 None w = (Inl retry_logic_failed, w)"
  by (subst execute_attempts.simps) simp

text \<open>
  C6 (as amended). For every retry configuration and attempt index \<open>n\<close> at which the
  float power \<open>base ** n\<close> is in range, the delay computed without jitter is
  \<open>max 0 (min (initial_delay * base ^ n) max_delay)\<close>, which is
  \<open>min (initial_delay * base ^ n) max_delay\<close> whenever that is not negative; with
  jitter (and a random draw in \<open>[0, 1)\<close>) the delay lies within 25 percent of that
  value. At an index where the power is out of range, \<open>_calculate_delay\<close> raises
  \<open>OverflowError\<close> and computes no delay. With \<open>max_attempts\<close> of at least one, when
  every attempt raises a retryable exception and the power is in range for every
  delay between two attempts, \<open>RetryStrategy.execute\<close> ends exactly as the attempt
  number \<open>max_attempts\<close> does: it raises that attempt's exception. When instead the
  delay after attempt \<open>k + 1\<close>, not the last one, is the first whose power is out of
  range, \<open>execute\<close> raises \<open>OverflowError\<close> right after that attempt.
\<close>

theorem backoff_delay_and_exhaustion:
  "(\<not> float_overflow (real n) \<and> \<not> float_overflow (exponential_base cfg ^ n) \<longrightarrow>
      (\<not> jitter cfg \<longrightarrow>
         fst (calculate_delay n cfg w)
           = Inr (max 0 (min (initial_delay_seconds cfg * exponential_base cfg ^ n)
                    (max_delay_seconds cfg))))
      \<and> (jitter cfg \<and> 0 \<le> random_source w (random_draws w)
           \<and> random_source w (random_draws w) < 1 \<longrightarrow>
           (\<exists>d. fst (calculate_delay n cfg w) = Inr d
              \<and> 0.75 * max 0 (min (initial_delay_seconds cfg * exponential_base cfg ^ n)
                          (max_delay_seconds cfg)) \<le> d
              \<and> d \<le> 1.25 * max 0 (min (initial_delay_seconds cfg * exponential_base cfg ^ n)
                          (max_delay_seconds cfg)))))
   \<and> (float_overflow (real n) \<or> float_overflow (exponential_base cfg ^ n) \<longrightarrow>
        (\<exists>e. calculate_delay n cfg w = (Inl e, w) \<and> exn_type e = OverflowError))
   \<and> (1 \<le> max_attempts (get_config s nm)
        \<and> (\<forall>k. k + 1 < nat (max_attempts (get_config s nm)) \<longrightarrow>
              \<not> float_overflow (real k)
              \<and> \<not> float_overflow (exponential_base (get_config s nm) ^ k))
        \<and> (\<forall>k < nat (max_attempts (get_config s nm)). \<exists>e v'.
              func (world_before_attempt (get_config s nm) func k v) = (Inl e, v')
              \<and> is_retryable e (get_config s nm)) \<longrightarrow>
        RetryStrategy_execute s func nm v
          = func (world_before_attempt (get_config s nm) func (nat (max_attempts (get_config s nm)) - 1) v)
        \<and> (\<exists>e v'. RetryStrategy_execute s func nm v = (Inl e, v')))
   \<and> (int k + 1 < max_attempts (get_config s nm)
        \<and> (\<forall>j < k. \<not> float_overflow (real j)
              \<and> \<not> float_overflow (exponential_base (get_config s nm) ^ j))
        \<and> (float_overflow (real k) \<or> float_overflow (exponential_base (get_config s nm) ^ k))
        \<and> (\<forall>j \<le> k. \<exists>e v'.
              func (world_before_attempt (get_config s nm) func j v) = (Inl e, v')
              \<and> is_retryable e (get_config s nm)) \<longrightarrow>
        (\<exists>oe. RetryStrategy_execute s func nm v
                = (Inl oe, snd (func (world_before_attempt (get_config s nm) func k v)))
           \<and> exn_type oe = OverflowError))"
proof (intro conjI impI)
  assume r: "\<not> float_overflow (real n) \<and> \<not> float_overflow (exponential_base cfg ^ n)"
  then have p: "float_pow (exponential_base cfg) n = Inr (exponential_base cfg ^ n)"
    by (simp add: float_pow_in_range)
  {
    assume "\<not> jitter cfg"
    then show "fst (calculate_delay n cfg w)
          = Inr (max 0 (min (initial_delay_seconds cfg * exponential_base cfg ^ n)
                   (max_delay_seconds cfg)))"
      by (simp add: calculate_delay_no_jitter [OF _ p])
  next
    assume "jitter cfg \<and> 0 \<le> random_source w (random_draws w)
           \<and> random_source w (random_draws w) < 1"
    then show "\<exists>d. fst (calculate_delay n cfg w) = Inr d
              \<and> 0.75 * max 0 (min (initial_delay_seconds cfg * exponential_base cfg ^ n)
                          (max_delay_seconds cfg)) \<le> d
              \<and> d \<le> 1.25 * max 0 (min (initial_delay_seconds cfg * exponential_base cfg ^ n)
                          (max_delay_seconds cfg))"
      using calculate_delay_jitter [OF _ _ _ p, of w] by blast
  }
next
  assume "float_overflow (real n) \<or> float_overflow (exponential_base cfg ^ n)"
  from float_pow_overflow [OF this]
  show "\<exists>e. calculate_delay n cfg w = (Inl e, w) \<and> exn_type e = OverflowError"
    by (auto simp add: calculate_delay_overflow)
next
  let ?cfg = "get_config s nm"
  assume a: "1 \<le> max_attempts ?cfg
        \<and> (\<forall>k. k + 1 < nat (max_attempts ?cfg) \<longrightarrow>
              \<not> float_overflow (real k) \<and> \<not> float_overflow (exponential_base ?cfg ^ k))
        \<and> (\<forall>k < nat (max_attempts ?cfg). \<exists>e v'.
              func (world_before_attempt ?cfg func k v) = (Inl e, v') \<and> is_retryable e ?cfg)"
  then have all: "\<forall>k < nat (max_attempts ?cfg). \<exists>e v'.
              func (world_before_attempt ?cfg func k v) = (Inl e, v') \<and> is_retryable e ?cfg"
    by blast
  from a have pw: "\<forall>k. k + 1 < nat (max_attempts ?cfg) \<longrightarrow>
              (\<exists>p. float_pow (exponential_base ?cfg) k = Inr p)"
    by (simp add: float_pow_in_range)
  have "execute_attempts ?cfg func 0 None (world_before_attempt ?cfg func (nat 0) v)
         = func (world_before_attempt ?cfg func (nat (max_attempts ?cfg) - 1) v)"
    using a by (intro execute_attempts_exhausted [OF all pw]) simp_all
  then show eq: "RetryStrategy_execute s func nm v
          = func (world_before_attempt ?cfg func (nat (max_attempts ?cfg) - 1) v)"
    by (simp add: RetryStrategy_execute_def)
  have "nat (max_attempts ?cfg) - 1 < nat (max_attempts ?cfg)"
    using a by simp
  with all obtain e v' where
    "func (world_before_attempt ?cfg func (nat (max_attempts ?cfg) - 1) v) = (Inl e, v')"
    by blast
  with eq show "\<exists>e v'. RetryStrategy_execute s func nm v = (Inl e, v')"
    by simp
next
  let ?cfg = "get_config s nm"
  assume a: "int k + 1 < max_attempts ?cfg
        \<and> (\<forall>j < k. \<not> float_overflow (real j) \<and> \<not> float_overflow (exponential_base ?cfg ^ j))
        \<and> (float_overflow (real k) \<or> float_overflow (exponential_base ?cfg ^ k))
        \<and> (\<forall>j \<le> k. \<exists>e v'.
              func (world_before_attempt ?cfg func j v) = (Inl e, v') \<and> is_retryable e ?cfg)"
  then have all: "\<forall>j \<le> k. \<exists>e v'.
              func (world_before_attempt ?cfg func j v) = (Inl e, v') \<and> is_retryable e ?cfg"
    and lt: "int k + 1 < max_attempts ?cfg"
    by blast+
  from a have pw: "\<forall>j < k. \<exists>p. float_pow (exponential_base ?cfg) j = Inr p"
    by (simp add: float_pow_in_range)
  from a have "float_overflow (real k) \<or> float_overflow (exponential_base ?cfg ^ k)"
    by blast
  from float_pow_overflow [OF this]
  obtain oe where ov: "float_pow (exponential_base ?cfg) k = Inl oe"
    and ty: "exn_type oe = OverflowError"
    by auto
  from execute_attempts_overflow [OF all pw ov lt, of 0 k None]
  have "execute_attempts ?cfg func 0 None v
         = (Inl oe, snd (func (world_before_attempt ?cfg func k v)))"
    by simp
  with ty show "\<exists>oe. RetryStrategy_execute s func nm v
                = (Inl oe, snd (func (world_before_attempt ?cfg func k v)))
           \<and> exn_type oe = OverflowError"
    by (simp add: RetryStrategy_execute_def)
qed

lemma no_jitter_config_simps:
  "max_attempts no_jitter_config = 3" "initial_delay_seconds no_jitter_config = 1"
  "max_delay_seconds no_jitter_config = 60" "exponential_base no_jitter_config = 2"
  "\<not> jitter no_jitter_config" "retryable_exceptions no_jitter_config = [Exception]"
  by (simp_all add: no_jitter_config_def RetryConfig_init_def)

lemma large_base_config_simps:
  "max_attempts large_base_config = 4" "initial_delay_seconds large_base_config = 1"
  "max_delay_seconds large_base_config = 60" "exponential_base large_base_config = large_base"
  "\<not> jitter large_base_config" "retryable_exceptions large_base_config = [Exception]"
  by (simp_all add: large_base_config_def RetryConfig_init_def)

lemma always_raises_retryable:
  "always_raises w = (Inl connection_error, w\<lparr>external := Suc (external w)\<rparr>)
   \<and> is_retryable connection_error no_jitter_config
   \<and> is_retryable connection_error large_base_config"
  by (simp add: always_raises_def is_retryable_def isinstance_def no_jitter_config_simps
      large_base_config_simps)

lemma small_powers_in_range:
  "n \<le> 7 \<Longrightarrow> \<not> float_overflow (real n) \<and> \<not> float_overflow (2 ^ n)"
proof -
  assume n: "n \<le> 7"
  then have "real n \<le> 7"
    by simp
  moreover have "(2::real) ^ n \<le> 2 ^ 7"
    using n by (intro power_increasing) simp_all
  ultimately show ?thesis
    by (intro conjI float_overflow_bound) simp_all
qed

lemma large_powers:
  "\<not> float_overflow 0" "\<not> float_overflow 1" "\<not> float_overflow 2" "\<not> float_overflow 1024"
  "\<not> float_overflow large_base" "float_overflow (large_base ^ 2)" "float_overflow (2 ^ 1024)"
  "min large_base 60 = 60"
  by (simp_all add: float_overflow_def large_base_def)

lemma float_pow_samples:
  "float_pow 2 0 = Inr 1" "float_pow 2 (Suc 0) = Inr 2"
  "float_pow 2 1024 = Inl result_out_of_range"
  "float_pow large_base 0 = Inr 1" "float_pow large_base (Suc 0) = Inr large_base"
  "float_pow large_base 2 = Inl result_out_of_range"
  by (simp_all add: float_pow_def float_overflow_def large_base_def)

theorem backoff_delay_and_exhaustion_witness:
  "map (\<lambda>n. fst (calculate_delay n no_jitter_config sample_world)) [0, 1, 2, 3, 6, 7]
     = map Inr [1, 2, 4, 8, 60, 60]
   \<and> (\<exists>d. fst (calculate_delay 2 RetryConfig_default sample_world) = Inr d \<and> 3 \<le> d \<and> d \<le> 5)
   \<and> (\<exists>e. fst (calculate_delay 1024 no_jitter_config sample_world) = Inl e
         \<and> exn_type e = OverflowError)
   \<and> fst (RetryStrategy_execute \<lparr>RetryStrategy.default_config = no_jitter_config, tool_configs = []\<rparr>
            always_raises None sample_world) = Inl connection_error
   \<and> external (snd (RetryStrategy_execute
            \<lparr>RetryStrategy.default_config = no_jitter_config, tool_configs = []\<rparr>
            always_raises None sample_world)) = 3
   \<and> (\<exists>oe. fst (RetryStrategy_execute
                 \<lparr>RetryStrategy.default_config = large_base_config, tool_configs = []\<rparr>
                 always_raises None sample_world) = Inl oe
          \<and> exn_type oe = OverflowError)
   \<and> external (snd (RetryStrategy_execute
            \<lparr>RetryStrategy.default_config = large_base_config, tool_configs = []\<rparr>
            always_raises None sample_world)) = 3"
proof -
  let ?s = "\<lparr>RetryStrategy.default_config = no_jitter_config, tool_configs = []\<rparr>"
  let ?l = "\<lparr>RetryStrategy.default_config = large_base_config, tool_configs = []\<rparr>"
  have g: "get_config ?s None = no_jitter_config" "get_config ?l None = large_base_config"
    by (simp_all add: get_config_def)
  note t = backoff_delay_and_exhaustion [where cfg = no_jitter_config and w = sample_world
      and s = ?s and nm = None and func = always_raises and v = sample_world and k = 0]
  have d: "fst (calculate_delay n no_jitter_config sample_world)
        = Inr (max 0 (min (1 * 2 ^ n) 60))" if "n \<le> 7" for n
    using t [where n = n] small_powers_in_range [OF that] by (simp add: no_jitter_config_simps)
  have ov: "float_overflow (real 1024) \<or> float_overflow (exponential_base no_jitter_config ^ 1024)"
    by (simp add: no_jitter_config_simps float_overflow_def)
  have "\<exists>e. calculate_delay 1024 no_jitter_config sample_world = (Inl e, sample_world)
         \<and> exn_type e = OverflowError"
    using t [where n = 1024] ov by blast
  then have o: "\<exists>e. fst (calculate_delay 1024 no_jitter_config sample_world) = Inl e
         \<and> exn_type e = OverflowError"
    by auto
  have dflt: "jitter RetryConfig_default" "initial_delay_seconds RetryConfig_default = 1"
    "max_delay_seconds RetryConfig_default = 60" "exponential_base RetryConfig_default = 2"
    by (simp_all add: RetryConfig_default_def RetryConfig_init_def)
  have j: "\<exists>d. fst (calculate_delay 2 RetryConfig_default sample_world) = Inr d \<and> 3 \<le> d \<and> d \<le> 5"
    using backoff_delay_and_exhaustion [where cfg = RetryConfig_default and n = 2
        and w = sample_world and s = ?s and nm = None and func = always_raises
        and v = sample_world and k = 0] small_powers_in_range [of 2]
    by (simp add: dflt sample_world_def)
  have all: "\<forall>k < nat (max_attempts (get_config ?s None)). \<exists>e v'.
              always_raises (world_before_attempt (get_config ?s None) always_raises k sample_world) = (Inl e, v')
              \<and> is_retryable e (get_config ?s None)"
    unfolding g using always_raises_retryable by blast
  have pw: "\<forall>k. k + 1 < nat (max_attempts (get_config ?s None)) \<longrightarrow>
              \<not> float_overflow (real k) \<and> \<not> float_overflow (exponential_base (get_config ?s None) ^ k)"
    unfolding g using small_powers_in_range by (simp add: no_jitter_config_simps)
  have w2: "external (world_before_attempt no_jitter_config always_raises 2 sample_world) = 2"
    by (simp add: numeral_2_eq_2 always_raises_def calculate_delay_def no_jitter_config_simps
        Let_def sleep_def sample_world_def float_pow_samples)
  have r: "RetryStrategy_execute ?s always_raises None sample_world
           = always_raises (world_before_attempt no_jitter_config always_raises 2 sample_world)"
    using t [where n = 0] all pw by (simp add: g no_jitter_config_simps)
  have lall: "\<forall>j \<le> 2. \<exists>e v'.
              always_raises (world_before_attempt (get_config ?l None) always_raises j sample_world) = (Inl e, v')
              \<and> is_retryable e (get_config ?l None)"
    unfolding g using always_raises_retryable by blast
  have lpw: "\<forall>j < 2. \<not> float_overflow (real j)
              \<and> \<not> float_overflow (exponential_base (get_config ?l None) ^ j)"
    unfolding g by (simp add: large_base_config_simps less_Suc_eq numeral_2_eq_2 large_powers)
  have lov: "float_overflow (exponential_base (get_config ?l None) ^ 2)"
    unfolding g by (simp add: large_base_config_simps large_powers)
  have lw2: "external (world_before_attempt large_base_config always_raises 2 sample_world) = 2"
    by (simp add: numeral_2_eq_2 always_raises_def calculate_delay_def large_base_config_simps
        Let_def sleep_def sample_world_def float_pow_samples large_powers)
  have "\<exists>oe. RetryStrategy_execute ?l always_raises None sample_world
                = (Inl oe, snd (always_raises
                     (world_before_attempt (get_config ?l None) always_raises 2 sample_world)))
           \<and> exn_type oe = OverflowError"
    using backoff_delay_and_exhaustion [where cfg = no_jitter_config and n = 0
        and w = sample_world and s = ?l and nm = None and func = always_raises
        and v = sample_world and k = 2] lall lpw lov
    by (simp add: g large_base_config_simps)
  then obtain oe where
    lr: "RetryStrategy_execute ?l always_raises None sample_world
           = (Inl oe, snd (always_raises
                (world_before_attempt large_base_config always_raises 2 sample_world)))"
    and ty: "exn_type oe = OverflowError"
    unfolding g by blast
  show ?thesis
    using j o ty by (simp add: d r lr always_raises_def w2 lw2)
qed

text \<open>
  The claim as stated fails for a configuration with a negative cap (the delay is
  clamped to 0, not \<open>-1\<close>), for \<open>max_attempts = 0\<close> (the call is never tried and a
  RuntimeError is raised: there is no last exception), and where the power is out
  of the range of a float: with base 2 there is no delay for the attempt index
  1024, and with four attempts and the base \<open>2.0 ** 600\<close> the call is tried three
  times and \<open>OverflowError\<close> is raised, not the exception of the last attempt.
\<close>

theorem backoff_delay_counterexample:
  "\<not> jitter negative_cap_config
   \<and> fst (calculate_delay 0 negative_cap_config sample_world) = Inr 0
   \<and> min (initial_delay_seconds negative_cap_config * exponential_base negative_cap_config ^ 0)
         (max_delay_seconds negative_cap_config) = - 1
   \<and> max_attempts zero_attempts_config = 0
   \<and> RetryStrategy_execute \<lparr>RetryStrategy.default_config = zero_attempts_config, tool_configs = []\<rparr>
        always_raises None sample_world = (Inl retry_logic_failed, sample_world)
   \<and> fst (calculate_delay 1024 no_jitter_config sample_world) = Inl result_out_of_range
   \<and> exn_type result_out_of_range = OverflowError
   \<and> max_attempts large_base_config = 4
   \<and> fst (RetryStrategy_execute
            \<lparr>RetryStrategy.default_config = large_base_config, tool_configs = []\<rparr>
            always_raises None sample_world) = Inl result_out_of_range
   \<and> external (snd (RetryStrategy_execute
            \<lparr>RetryStrategy.default_config = large_base_config, tool_configs = []\<rparr>
            always_raises None sample_world)) = 3
   \<and> fst (always_raises sample_world) = Inl connection_error
   \<and> exn_type connection_error \<noteq> OverflowError"
proof -
  have z: "execute_attempts zero_attempts_config always_raises 0 None sample_world
          = (Inl retry_logic_failed, sample_world)"
    by (rule execute_attempts_none) (simp add: zero_attempts_config_def RetryConfig_init_def)
  note p = float_pow_samples large_powers
  have l: "execute_attempts large_base_config always_raises 0 None sample_world
            = (Inl result_out_of_range, sample_world\<lparr>clock := clock sample_world + 61, external := 3\<rparr>)"
    by (simp add: execute_attempts.simps always_raises_def calculate_delay_def
        large_base_config_simps is_retryable_def isinstance_def connection_error_def
        Let_def sleep_def sample_world_def p)
  show ?thesis
    using z
    by (simp add: negative_cap_config_def zero_attempts_config_def RetryConfig_init_def
        calculate_delay_def RetryStrategy_execute_def get_config_def p l no_jitter_config_simps
        large_base_config_simps always_raises_def connection_error_def)
qed

subsection \<open>ToolExecutor: every failure becomes a result\<close>

lemma ToolExecutor_execute_total:
  "\<exists>r w'. ToolExecutor_execute ex tool ps w = (Inr r, w')"
  by (simp add: ToolExecutor_execute_def Let_def split: prod.splits sum.splits)

lemma isinstance_tool_error [simp]:
  "isinstance (tool_error ty msg nm code) cs = list_ex (issubclass ty) cs"
  by (simp add: isinstance_def tool_error_def)

lemma pipeline_invalid_params:
  assumes "validate_params ex tool ps w = (Inr vr, w1)" "\<not> is_valid vr"
  shows "execute_pipeline ex tool ps w =
           (Inl (tool_error ValidationError
                   [Text ''Parameter validation failed: '', FStrList (ValidationResult.errors vr)]
                   (name tool) ''VALIDATION_ERROR''), w1)"
  using assms by (simp add: execute_pipeline_def Let_def)

lemma pipeline_circuit_open:
  assumes "validate_params ex tool ps w = (Inr vr, w1)" "is_valid vr"
    and "CircuitBreaker_can_execute (name tool) (clock w1) (circuit_breaker w1) = (False, cb)"
  shows "execute_pipeline ex tool ps w =
           (Inl (tool_error CircuitBreakerError
                   [Text (''Circuit breaker is open for tool: '' @ name tool)]
                   (name tool) ''CIRCUIT_OPEN''), w1\<lparr>circuit_breaker := cb\<rparr>)"
  using assms by (simp add: execute_pipeline_def Let_def)

lemma pipeline_rate_limited:
  assumes "validate_params ex tool ps w = (Inr vr, w1)" "is_valid vr"
    and "CircuitBreaker_can_execute (name tool) (clock w1) (circuit_breaker w1) = (True, cb)"
    and "MultiRateLimiter_acquire (name tool) 1 (clock w1) (rate_limiter w1) = Inr (False, rl)"
  shows "execute_pipeline ex tool ps w =
           (Inl (tool_error RateLimitError
                   [Text (''Rate limit exceeded for tool: '' @ name tool)]
                   (name tool) ''RATE_LIMITED''), w1\<lparr>circuit_breaker := cb, rate_limiter := rl\<rparr>)"
  using assms by (simp add: execute_pipeline_def Let_def)

lemma execute_handled_error:
  assumes "execute_pipeline ex tool ps w = (Inl e, w1)"
    and "isinstance e [ValidationError, CircuitBreakerError, RateLimitError]"
  shows "ToolExecutor_execute ex tool ps w =
           (Inr \<lparr>ToolResult.tool_name = name tool,
                 status = (if isinstance e [CircuitBreakerError] then ToolStatus.CIRCUIT_OPEN
                           else if isinstance e [RateLimitError] then ToolStatus.RATE_LIMITED
                           else ToolStatus.FAILED),
                 data = None, error = Some (str e),
                 execution_time_ms = (clock w1 - clock w) * 1000, timestamp = clock w1,
                 metadata = [(''error_code'', opt_str (exception.error_code e))],
                 retry_count = 0\<rparr>, w1)"
  using assms by (simp add: ToolExecutor_execute_def Let_def)

lemma execute_other_error:
  assumes "execute_pipeline ex tool ps w = (Inl e, w1)"
    and "\<not> isinstance e [ValidationError, CircuitBreakerError, RateLimitError]"
  shows "ToolExecutor_execute ex tool ps w =
           (Inr \<lparr>ToolResult.tool_name = name tool, status = ToolStatus.FAILED,
                 data = None, error = Some (str e),
                 execution_time_ms = (clock w1 - clock w) * 1000, timestamp = clock w1,
                 metadata = [(''error_type'', PyStr (type_name (exn_type e)))],
                 retry_count = 0\<rparr>,
            w1\<lparr>circuit_breaker :=
                 CircuitBreaker_record_failure (name tool) (clock w1) (circuit_breaker w1)\<rparr>)"
  using assms by (simp add: ToolExecutor_execute_def Let_def)

text \<open>
  C3. \<open>ToolExecutor.execute\<close> always returns a ToolResult: no exception (of class
  \<open>Exception\<close>) escapes. When parameter validation reports invalid parameters the
  result has status failed and carries the validation errors, and the world is the
  one validation left: no breaker check, no rate-limit check, no execution. When the
  breaker refuses, the status is circuit_open and only the breaker manager was
  touched: no rate-limit check, no execution, no retry. When the limiter refuses,
  the status is rate_limited and nothing was executed. Any other exception raised in
  the pipeline yields a result with status failed whose error is the exception's
  message, after a failure was recorded in the breaker.
\<close>

theorem executor_never_raises:
  "(\<exists>r w'. ToolExecutor_execute ex tool ps w = (Inr r, w'))
   \<and> (validate_params ex tool ps w = (Inr vr, v) \<and> \<not> is_valid vr \<longrightarrow>
        (\<exists>r. ToolExecutor_execute ex tool ps w = (Inr r, v)
              \<and> ToolResult.status r = ToolStatus.FAILED
              \<and> ToolResult.error r
                  = Some [Text ''Parameter validation failed: '', FStrList (ValidationResult.errors vr)]))
   \<and> (validate_params ex tool ps w = (Inr vr, v) \<and> is_valid vr
        \<and> CircuitBreaker_can_execute (name tool) (clock v) (circuit_breaker v) = (False, cb) \<longrightarrow>
        (\<exists>r. ToolExecutor_execute ex tool ps w = (Inr r, v\<lparr>circuit_breaker := cb\<rparr>)
              \<and> ToolResult.status r = ToolStatus.CIRCUIT_OPEN))
   \<and> (validate_params ex tool ps w = (Inr vr, v) \<and> is_valid vr
        \<and> CircuitBreaker_can_execute (name tool) (clock v) (circuit_breaker v) = (True, cb)
        \<and> MultiRateLimiter_acquire (name tool) 1 (clock v) (rate_limiter v) = Inr (False, rl) \<longrightarrow>
        (\<exists>r. ToolExecutor_execute ex tool ps w
                = (Inr r, v\<lparr>circuit_breaker := cb, rate_limiter := rl\<rparr>)
              \<and> ToolResult.status r = ToolStatus.RATE_LIMITED))
   \<and> (execute_pipeline ex tool ps w = (Inl e, u)
        \<and> \<not> isinstance e [ValidationError, CircuitBreakerError, RateLimitError] \<longrightarrow>
        (\<exists>r. ToolExecutor_execute ex tool ps w
                = (Inr r, u\<lparr>circuit_breaker :=
                          CircuitBreaker_record_failure (name tool) (clock u) (circuit_breaker u)\<rparr>)
              \<and> ToolResult.status r = ToolStatus.FAILED
              \<and> ToolResult.error r = Some (str e)))"
proof (intro conjI impI)
  show "\<exists>r w'. ToolExecutor_execute ex tool ps w = (Inr r, w')"
    by (rule ToolExecutor_execute_total)
next
  assume a: "validate_params ex tool ps w = (Inr vr, v) \<and> \<not> is_valid vr"
  then have p: "execute_pipeline ex tool ps w =
           (Inl (tool_error ValidationError
                   [Text ''Parameter validation failed: '', FStrList (ValidationResult.errors vr)]
                   (name tool) ''VALIDATION_ERROR''), v)"
    using pipeline_invalid_params [of ex tool ps w vr v] by blast
  show "\<exists>r. ToolExecutor_execute ex tool ps w = (Inr r, v)
              \<and> ToolResult.status r = ToolStatus.FAILED
              \<and> ToolResult.error r
                  = Some [Text ''Parameter validation failed: '', FStrList (ValidationResult.errors vr)]"
    by (subst execute_handled_error [OF p]) (simp_all add: tool_error_def isinstance_def)
next
  assume a: "validate_params ex tool ps w = (Inr vr, v) \<and> is_valid vr
        \<and> CircuitBreaker_can_execute (name tool) (clock v) (circuit_breaker v) = (False, cb)"
  then have p: "execute_pipeline ex tool ps w =
           (Inl (tool_error CircuitBreakerError
                   [Text (''Circuit breaker is open for tool: '' @ name tool)]
                   (name tool) ''CIRCUIT_OPEN''), v\<lparr>circuit_breaker := cb\<rparr>)"
    using pipeline_circuit_open [of ex tool ps w vr v cb] by blast
  show "\<exists>r. ToolExecutor_execute ex tool ps w = (Inr r, v\<lparr>circuit_breaker := cb\<rparr>)
              \<and> ToolResult.status r = ToolStatus.CIRCUIT_OPEN"
    by (subst execute_handled_error [OF p]) (simp_all add: tool_error_def isinstance_def)
next
  assume a: "validate_params ex tool ps w = (Inr vr, v) \<and> is_valid vr
        \<and> CircuitBreaker_can_execute (name tool) (clock v) (circuit_breaker v) = (True, cb)
        \<and> MultiRateLimiter_acquire (name tool) 1 (clock v) (rate_limiter v) = Inr (False, rl)"
  then have p: "execute_pipeline ex tool ps w =
           (Inl (tool_error RateLimitError
                   [Text (''Rate limit exceeded for tool: '' @ name tool)]
                   (name tool) ''RATE_LIMITED''), v\<lparr>circuit_breaker := cb, rate_limiter := rl\<rparr>)"
    using pipeline_rate_limited [of ex tool ps w vr v cb rl] by blast
  show "\<exists>r. ToolExecutor_execute ex tool ps w
                = (Inr r, v\<lparr>circuit_breaker := cb, rate_limiter := rl\<rparr>)
              \<and> ToolResult.status r = ToolStatus.RATE_LIMITED"
    by (subst execute_handled_error [OF p]) (simp_all add: tool_error_def isinstance_def)
next
  assume a: "execute_pipeline ex tool ps w = (Inl e, u)
        \<and> \<not> isinstance e [ValidationError, CircuitBreakerError, RateLimitError]"
  then have p: "execute_pipeline ex tool ps w = (Inl e, u)"
    and n: "\<not> isinstance e [ValidationError, CircuitBreakerError, RateLimitError]"
    by simp_all
  show "\<exists>r. ToolExecutor_execute ex tool ps w
                = (Inr r, u\<lparr>circuit_breaker :=
                          CircuitBreaker_record_failure (name tool) (clock u) (circuit_breaker u)\<rparr>)
              \<and> ToolResult.status r = ToolStatus.FAILED
              \<and> ToolResult.error r = Some (str e)"
    by (subst execute_other_error [OF p n]) simp
qed


lemmas sample_defs =
  sample_executor_def requires_id_def accepts_result_def succeeding_tool_def failing_tool_def
  raising_tool_def hanging_tool_def sample_world_def sample_context_def
  world_with_open_breaker_def world_with_empty_bucket_def sample_limiter_def
  sample_breaker_config_def sample_rate_config_def connection_error_def result_with_def
  RetryConfig_default_def

lemmas engine_defs =
  ExecutionContext_init_def RateLimitConfig_init_def RetryConfig_init_def
  CircuitBreaker_can_execute_def get_breaker_def can_execute_def CircuitBreakerState_init_def
  CircuitBreaker_record_failure_def CircuitBreaker_record_success_def record_failure_def
  record_success_def open_circuit_def close_circuit_def
  MultiRateLimiter_acquire_def get_limiter_def RateLimiter_init_def acquire_def refill_def
  execute_with_result_def get_config_def execute_with_result_attempts.simps
  executor_execute_with_timeout_def execute_with_timeout_def get_timeout_def
  calculate_delay_def float_pow_samples random_uniform_def random_def sleep_def
  is_retryable_def isinstance_def
  tool_error_def opt_str_def success_def add_result_def add_error_def Let_def

lemma eval_invalid:
  "validate_params sample_executor (succeeding_tool ''orders'') [] sample_world
     = (Inr \<lparr>is_valid = False, errors = [''Missing required parameters: id''], warnings = []\<rparr>,
        sample_world)
   \<and> \<not> is_valid \<lparr>is_valid = False, errors = [''Missing required parameters: id''], warnings = []\<rparr>"
  by (simp add: sample_executor_def requires_id_def)

lemma eval_open:
  "validate_params sample_executor (succeeding_tool ''orders'') [(''id'', PyInt 7)]
       world_with_open_breaker
     = (Inr \<lparr>is_valid = True, errors = [], warnings = []\<rparr>, world_with_open_breaker)
   \<and> is_valid \<lparr>is_valid = True, errors = [], warnings = []\<rparr>
   \<and> CircuitBreaker_can_execute (name (succeeding_tool ''orders'')) (clock world_with_open_breaker)
       (circuit_breaker world_with_open_breaker)
     = (False, circuit_breaker world_with_open_breaker)"
  by (simp add: sample_defs engine_defs)

lemma eval_empty_bucket:
  "validate_params sample_executor (succeeding_tool ''orders'') [(''id'', PyInt 7)]
       world_with_empty_bucket
     = (Inr \<lparr>is_valid = True, errors = [], warnings = []\<rparr>, world_with_empty_bucket)
   \<and> is_valid \<lparr>is_valid = True, errors = [], warnings = []\<rparr>
   \<and> CircuitBreaker_can_execute (name (succeeding_tool ''orders'')) (clock world_with_empty_bucket)
       (circuit_breaker world_with_empty_bucket)
     = (True, \<lparr>CircuitBreaker.default_config = sample_breaker_config,
               breakers = [(''orders'', CircuitBreakerState_init sample_breaker_config)],
               configs = []\<rparr>)
   \<and> MultiRateLimiter_acquire (name (succeeding_tool ''orders'')) 1 (clock world_with_empty_bucket)
       (rate_limiter world_with_empty_bucket)
     = Inr (False, rate_limiter world_with_empty_bucket)"
  by (simp add: sample_defs engine_defs)

lemma eval_raising:
  "\<exists>u. (execute_pipeline sample_executor (raising_tool ''orders'') [(''id'', PyInt 7)] sample_world
         = (Inl connection_error, u)
         \<and> \<not> isinstance connection_error [ValidationError, CircuitBreakerError, RateLimitError])
        \<and> external u = 3"
  by (simp add: execute_pipeline_def sample_defs engine_defs)

theorem executor_never_raises_witness:
  "(\<exists>r. ToolExecutor_execute sample_executor (succeeding_tool ''orders'') [] sample_world
          = (Inr r, sample_world)
        \<and> ToolResult.status r = ToolStatus.FAILED)
   \<and> (\<exists>r. ToolExecutor_execute sample_executor (succeeding_tool ''orders'') [(''id'', PyInt 7)]
            world_with_open_breaker = (Inr r, world_with_open_breaker)
        \<and> ToolResult.status r = ToolStatus.CIRCUIT_OPEN)
   \<and> (\<exists>r w. ToolExecutor_execute sample_executor (succeeding_tool ''orders'') [(''id'', PyInt 7)]
            world_with_empty_bucket = (Inr r, w)
        \<and> ToolResult.status r = ToolStatus.RATE_LIMITED
        \<and> external w = 0 \<and> rate_limiter w = rate_limiter world_with_empty_bucket)
   \<and> (\<exists>r w. ToolExecutor_execute sample_executor (raising_tool ''orders'') [(''id'', PyInt 7)]
            sample_world = (Inr r, w)
        \<and> ToolResult.status r = ToolStatus.FAILED
        \<and> ToolResult.error r = Some [Text ''connection refused'']
        \<and> external w = 3)"
proof (intro conjI)
  note t = executor_never_raises [where ex = sample_executor]
  show "\<exists>r. ToolExecutor_execute sample_executor (succeeding_tool ''orders'') [] sample_world
          = (Inr r, sample_world)
        \<and> ToolResult.status r = ToolStatus.FAILED"
    using t [where tool = "succeeding_tool ''orders''" and ps = "[]" and w = sample_world
        and v = sample_world
        and vr = "\<lparr>is_valid = False, errors = [''Missing required parameters: id''], warnings = []\<rparr>"]
      eval_invalid
    by blast
  have "\<exists>r. ToolExecutor_execute sample_executor (succeeding_tool ''orders'') [(''id'', PyInt 7)]
            world_with_open_breaker
          = (Inr r, world_with_open_breaker\<lparr>circuit_breaker := circuit_breaker world_with_open_breaker\<rparr>)
        \<and> ToolResult.status r = ToolStatus.CIRCUIT_OPEN"
    using t [where tool = "succeeding_tool ''orders''" and ps = "[(''id'', PyInt 7)]"
        and w = world_with_open_breaker and v = world_with_open_breaker
        and vr = "\<lparr>is_valid = True, errors = [], warnings = []\<rparr>"
        and cb = "circuit_breaker world_with_open_breaker"]
      eval_open
    by blast
  then show "\<exists>r. ToolExecutor_execute sample_executor (succeeding_tool ''orders'') [(''id'', PyInt 7)]
            world_with_open_breaker = (Inr r, world_with_open_breaker)
        \<and> ToolResult.status r = ToolStatus.CIRCUIT_OPEN"
    by simp
  let ?cb = "\<lparr>CircuitBreaker.default_config = sample_breaker_config,
               breakers = [(''orders'', CircuitBreakerState_init sample_breaker_config)],
               configs = []\<rparr>"
  have "\<exists>r. ToolExecutor_execute sample_executor (succeeding_tool ''orders'') [(''id'', PyInt 7)]
            world_with_empty_bucket
          = (Inr r, world_with_empty_bucket\<lparr>circuit_breaker := ?cb,
                       rate_limiter := rate_limiter world_with_empty_bucket\<rparr>)
        \<and> ToolResult.status r = ToolStatus.RATE_LIMITED"
    using t [where tool = "succeeding_tool ''orders''" and ps = "[(''id'', PyInt 7)]"
        and w = world_with_empty_bucket and v = world_with_empty_bucket
        and vr = "\<lparr>is_valid = True, errors = [], warnings = []\<rparr>"
        and cb = ?cb and rl = "rate_limiter world_with_empty_bucket"]
      eval_empty_bucket
    by blast
  then obtain r where
    r: "ToolExecutor_execute sample_executor (succeeding_tool ''orders'') [(''id'', PyInt 7)]
            world_with_empty_bucket
          = (Inr r, world_with_empty_bucket\<lparr>circuit_breaker := ?cb,
                       rate_limiter := rate_limiter world_with_empty_bucket\<rparr>)"
    and "ToolResult.status r = ToolStatus.RATE_LIMITED"
    by blast
  moreover have "external world_with_empty_bucket = 0"
    by (simp add: world_with_empty_bucket_def sample_world_def)
  ultimately show "\<exists>r w. ToolExecutor_execute sample_executor (succeeding_tool ''orders'')
            [(''id'', PyInt 7)] world_with_empty_bucket = (Inr r, w)
        \<and> ToolResult.status r = ToolStatus.RATE_LIMITED
        \<and> external w = 0 \<and> rate_limiter w = rate_limiter world_with_empty_bucket"
    by simp
  from eval_raising obtain u where
    p: "execute_pipeline sample_executor (raising_tool ''orders'') [(''id'', PyInt 7)] sample_world
         = (Inl connection_error, u)
        \<and> \<not> isinstance connection_error [ValidationError, CircuitBreakerError, RateLimitError]"
    and x: "external u = 3"
    by blast
  have "\<exists>r. ToolExecutor_execute sample_executor (raising_tool ''orders'') [(''id'', PyInt 7)]
            sample_world
          = (Inr r, u\<lparr>circuit_breaker :=
                CircuitBreaker_record_failure (name (raising_tool ''orders'')) (clock u)
                  (circuit_breaker u)\<rparr>)
        \<and> ToolResult.status r = ToolStatus.FAILED
        \<and> ToolResult.error r = Some (str connection_error)"
    using t [where tool = "raising_tool ''orders''" and ps = "[(''id'', PyInt 7)]"
        and w = sample_world and e = connection_error and u = u] p
    by blast
  then show "\<exists>r w. ToolExecutor_execute sample_executor (raising_tool ''orders'') [(''id'', PyInt 7)]
            sample_world = (Inr r, w)
        \<and> ToolResult.status r = ToolStatus.FAILED
        \<and> ToolResult.error r = Some [Text ''connection refused'']
        \<and> external w = 3"
    using x by (auto simp: connection_error_def)
qed

text \<open>
  C1 (the code at failing inputs). With the default retry configuration (three
  attempts) and valid parameters, a tool that is still running at every deadline is
  tried three times and a failure is recorded in its breaker; the result carries the
  timeout message, but its status is failed, not timeout, and its retry count is 0,
  not 2. A tool that raises at every attempt likewise ends with retry count 0.
\<close>

theorem exhausted_retries_evaluation:
  "max_attempts (get_config (retry_strategy sample_executor) (Some ''orders'')) = 3
   \<and> (\<exists>r w. ToolExecutor_execute sample_executor (hanging_tool ''orders'') [(''id'', PyInt 7)]
            sample_world = (Inr r, w)
        \<and> external w = 3
        \<and> ToolResult.status r = ToolStatus.FAILED
        \<and> ToolResult.error r
            = Some [Text ''Execution exceeded timeout of '', FInt 30,
                    Text ''s (elapsed: '', FFloat2 30, Text ''s)'']
        \<and> retry_count r = 0
        \<and> map_option failure_count (map_of (breakers (circuit_breaker w)) ''orders'') = Some 1)
   \<and> (\<exists>r w. ToolExecutor_execute sample_executor (raising_tool ''orders'') [(''id'', PyInt 7)]
            sample_world = (Inr r, w)
        \<and> external w = 3
        \<and> ToolResult.status r = ToolStatus.FAILED
        \<and> retry_count r = 0)"
  by (simp add: ToolExecutor_execute_def execute_pipeline_def sample_defs engine_defs)

subsection \<open>Sequential execution with stop_on_error\<close>

lemma sequential_loop_extends:
  "sequential_loop s stop pr i tcs rs0 w = (Inr out, w') \<Longrightarrow> \<exists>rs. out = rs0 @ rs"
proof (induction tcs arbitrary: i rs0 w)
  case Nil
  then show ?case by simp
next
  case (Cons tc tcs)
  show ?case
  proof (cases "registry_get (SequentialStrategy.registry s) (ToolCall.tool_name tc)")
    case None
    with Cons show ?thesis
      by (cases stop) auto
  next
    case (Some tool)
    obtain r w1 where
      e: "ToolExecutor_execute (SequentialStrategy.executor s) tool (prepare_params pr i rs0 tc) w
            = (Inr r, w1)"
      using ToolExecutor_execute_total by blast
    show ?thesis
    proof (cases "\<not> success r \<and> stop")
      case True
      with Cons.prems Some e show ?thesis by (auto simp: Let_def)
    next
      case False
      with Cons.prems Some e
      have "sequential_loop s stop pr (Suc i) tcs (rs0 @ [r])
              (w1\<lparr>execution_context := add_result r (execution_context w1)\<rparr>) = (Inr out, w')"
        by (auto simp: Let_def)
      from Cons.IH [OF this] show ?thesis by auto
    qed
  qed
qed

lemma sequential_loop_prefix:
  assumes "sequential_loop s True pr i pre rs0 w = (Inr (rs0 @ rs), w1)"
    and "length rs = length pre" and "list_all success rs"
  shows "sequential_loop s True pr i (pre @ rest) rs0 w
           = sequential_loop s True pr (i + length pre) rest (rs0 @ rs) w1"
  using assms
proof (induction pre arbitrary: i rs0 rs w)
  case Nil
  then show ?case by simp
next
  case (Cons tc pre)
  show ?case
  proof (cases "registry_get (SequentialStrategy.registry s) (ToolCall.tool_name tc)")
    case None
    with Cons.prems show ?thesis by auto
  next
    case (Some tool)
    obtain r wa where
      e: "ToolExecutor_execute (SequentialStrategy.executor s) tool (prepare_params pr i rs0 tc) w
            = (Inr r, wa)"
      using ToolExecutor_execute_total by blast
    let ?wb = "wa\<lparr>execution_context := add_result r (execution_context wa)\<rparr>"
    show ?thesis
    proof (cases "success r")
      case False
      with Cons.prems Some e have "rs = [r]" by (auto simp: Let_def)
      with Cons.prems False show ?thesis by simp
    next
      case True
      with Cons.prems Some e
      have l: "sequential_loop s True pr (Suc i) pre (rs0 @ [r]) ?wb = (Inr (rs0 @ rs), w1)"
        by (auto simp: Let_def)
      from sequential_loop_extends [OF l] obtain rs' where rs: "rs = r # rs'"
        by auto
      have "sequential_loop s True pr (Suc i) (pre @ rest) (rs0 @ [r]) ?wb
              = sequential_loop s True pr (Suc i + length pre) rest ((rs0 @ [r]) @ rs') w1"
        using l Cons.prems by (intro Cons.IH) (simp_all add: rs)
      then show ?thesis
        using Some e True by (simp add: Let_def rs)
    qed
  qed
qed

lemma execute_sequential_loop_extends:
  "execute_sequential_loop d stop tcs rs0 w = (Inr out, w') \<Longrightarrow> \<exists>rs. out = rs0 @ rs"
proof (induction tcs arbitrary: rs0 w)
  case Nil
  then show ?case by simp
next
  case (Cons tc tcs)
  show ?case
  proof (cases "registry_get (ExecutionDispatcher.registry d) (ToolCall.tool_name tc)")
    case None
    with Cons show ?thesis
      by (cases stop) (auto simp: Let_def)
  next
    case (Some tool)
    obtain r w1 where
      e: "ToolExecutor_execute (ExecutionDispatcher.executor d) tool (ToolCall.params tc) w
            = (Inr r, w1)"
      using ToolExecutor_execute_total by blast
    show ?thesis
    proof (cases "stop \<and> \<not> success r")
      case True
      with Cons.prems Some e show ?thesis by (auto simp: Let_def)
    next
      case False
      with Cons.prems Some e
      have "execute_sequential_loop d stop tcs (rs0 @ [r])
              (w1\<lparr>execution_context := add_result r (execution_context w1)\<rparr>) = (Inr out, w')"
        by (auto simp: Let_def)
      from Cons.IH [OF this] show ?thesis by auto
    qed
  qed
qed

lemma execute_sequential_loop_prefix:
  assumes "execute_sequential_loop d True pre rs0 w = (Inr (rs0 @ rs), w1)"
    and "length rs = length pre" and "list_all success rs"
  shows "execute_sequential_loop d True (pre @ rest) rs0 w
           = execute_sequential_loop d True rest (rs0 @ rs) w1"
  using assms
proof (induction pre arbitrary: rs0 rs w)
  case Nil
  then show ?case by simp
next
  case (Cons tc pre)
  show ?case
  proof (cases "registry_get (ExecutionDispatcher.registry d) (ToolCall.tool_name tc)")
    case None
    with Cons.prems show ?thesis by (auto simp: Let_def)
  next
    case (Some tool)
    obtain r wa where
      e: "ToolExecutor_execute (ExecutionDispatcher.executor d) tool (ToolCall.params tc) w
            = (Inr r, wa)"
      using ToolExecutor_execute_total by blast
    let ?wb = "wa\<lparr>execution_context := add_result r (execution_context wa)\<rparr>"
    show ?thesis
    proof (cases "success r")
      case False
      with Cons.prems Some e have "rs = [r]" by (auto simp: Let_def)
      with Cons.prems False show ?thesis by simp
    next
      case True
      with Cons.prems Some e
      have l: "execute_sequential_loop d True pre (rs0 @ [r]) ?wb = (Inr (rs0 @ rs), w1)"
        by (auto simp: Let_def)
      from execute_sequential_loop_extends [OF l] obtain rs' where rs: "rs = r # rs'"
        by auto
      have "execute_sequential_loop d True (pre @ rest) (rs0 @ [r]) ?wb
              = execute_sequential_loop d True rest ((rs0 @ [r]) @ rs') w1"
        using l Cons.prems by (intro Cons.IH) (simp_all add: rs)
      then show ?thesis
        using Some e True by (simp add: Let_def rs)
    qed
  qed
qed


text \<open>
  C7 (as amended). Let the calls \<open>pre\<close> all be registered and run successfully
  under \<open>stop_on_error\<close>, with results \<open>rs\<close>. If the next call \<open>c\<close> names an
  unregistered tool, execution halts there and the returned list is \<open>rs\<close>. If \<open>c\<close>
  is registered and its result \<open>r\<close> is not successful, execution halts there and the
  returned list is \<open>rs\<close> followed by \<open>r\<close>. In both cases the outcome does not depend
  on the calls \<open>post\<close> after \<open>c\<close>: none of them is executed. This holds for
  \<open>SequentialStrategy.execute\<close> and for the dispatcher's \<open>_execute_sequential\<close> (which
  also records a tool-not-found error in the context).
\<close>

theorem sequential_stop_on_error:
  "(SequentialStrategy_execute s pre True pr w = (Inr rs, w1) \<and> length rs = length pre
      \<and> list_all success rs \<longrightarrow>
      (registry_get (SequentialStrategy.registry s) (ToolCall.tool_name c) = None \<longrightarrow>
         SequentialStrategy_execute s (pre @ c # post) True pr w = (Inr rs, w1))
      \<and> (registry_get (SequentialStrategy.registry s) (ToolCall.tool_name c) = Some tool
          \<and> ToolExecutor_execute (SequentialStrategy.executor s) tool
                (prepare_params pr (length pre) rs c) w1 = (Inr r, w2)
          \<and> \<not> success r \<longrightarrow>
          SequentialStrategy_execute s (pre @ c # post) True pr w
            = (Inr (rs @ [r]), w2\<lparr>execution_context := add_result r (execution_context w2)\<rparr>)))
   \<and> (execute_sequential d pre True w = (Inr rs, w1) \<and> length rs = length pre
      \<and> list_all success rs \<longrightarrow>
      (registry_get (ExecutionDispatcher.registry d) (ToolCall.tool_name c) = None \<longrightarrow>
         execute_sequential d (pre @ c # post) True w
           = (Inr rs, w1\<lparr>execution_context :=
                          add_error (tool_not_found (ToolCall.tool_name c) (clock w1))
                            (execution_context w1)\<rparr>))
      \<and> (registry_get (ExecutionDispatcher.registry d) (ToolCall.tool_name c) = Some tool
          \<and> ToolExecutor_execute (ExecutionDispatcher.executor d) tool (ToolCall.params c) w1
                = (Inr r, w2)
          \<and> \<not> success r \<longrightarrow>
          execute_sequential d (pre @ c # post) True w
            = (Inr (rs @ [r]), w2\<lparr>execution_context := add_result r (execution_context w2)\<rparr>)))"
proof (intro conjI impI)
  assume a: "SequentialStrategy_execute s pre True pr w = (Inr rs, w1) \<and> length rs = length pre
      \<and> list_all success rs"
  then have p: "SequentialStrategy_execute s (pre @ c # post) True pr w
                = sequential_loop s True pr (length pre) (c # post) rs w1"
    using sequential_loop_prefix [of s pr 0 pre "[]" w rs w1 "c # post"]
    by (simp add: SequentialStrategy_execute_def)
  {
    assume "registry_get (SequentialStrategy.registry s) (ToolCall.tool_name c) = None"
    then show "SequentialStrategy_execute s (pre @ c # post) True pr w = (Inr rs, w1)"
      by (simp add: p)
  next
    assume "registry_get (SequentialStrategy.registry s) (ToolCall.tool_name c) = Some tool
          \<and> ToolExecutor_execute (SequentialStrategy.executor s) tool
                (prepare_params pr (length pre) rs c) w1 = (Inr r, w2)
          \<and> \<not> success r"
    then show "SequentialStrategy_execute s (pre @ c # post) True pr w
            = (Inr (rs @ [r]), w2\<lparr>execution_context := add_result r (execution_context w2)\<rparr>)"
      by (simp add: p Let_def)
  }
next
  assume a: "execute_sequential d pre True w = (Inr rs, w1) \<and> length rs = length pre
      \<and> list_all success rs"
  then have p: "execute_sequential d (pre @ c # post) True w
                = execute_sequential_loop d True (c # post) rs w1"
    using execute_sequential_loop_prefix [of d pre "[]" w rs w1 "c # post"]
    by (simp add: execute_sequential_def)
  {
    assume "registry_get (ExecutionDispatcher.registry d) (ToolCall.tool_name c) = None"
    then show "execute_sequential d (pre @ c # post) True w
           = (Inr rs, w1\<lparr>execution_context :=
                          add_error (tool_not_found (ToolCall.tool_name c) (clock w1))
                            (execution_context w1)\<rparr>)"
      by (simp add: p Let_def)
  next
    assume "registry_get (ExecutionDispatcher.registry d) (ToolCall.tool_name c) = Some tool
          \<and> ToolExecutor_execute (ExecutionDispatcher.executor d) tool (ToolCall.params c) w1
                = (Inr r, w2)
          \<and> \<not> success r"
    then show "execute_sequential d (pre @ c # post) True w
            = (Inr (rs @ [r]), w2\<lparr>execution_context := add_result r (execution_context w2)\<rparr>)"
      by (simp add: p Let_def)
  }
qed

lemmas strategy_defs =
  sample_registry_def call_def sample_sequential_def sample_compensating_def
  sample_dispatcher_def registry_get_def registry_exists_def registry_list_all_def
  prepare_params_def compensation_params_def

lemma eval_sequential:
  "\<exists>r1 w1 r w2.
     (SequentialStrategy_execute sample_sequential [call ''orders''] True False sample_world
        = (Inr [r1], w1)
      \<and> length [r1] = length [call ''orders''] \<and> list_all success [r1])
     \<and> (registry_get (SequentialStrategy.registry sample_sequential)
           (ToolCall.tool_name (call ''lookup'')) = Some (failing_tool ''lookup'')
        \<and> ToolExecutor_execute (SequentialStrategy.executor sample_sequential)
             (failing_tool ''lookup'')
             (prepare_params False (length [call ''orders'']) [r1] (call ''lookup'')) w1
            = (Inr r, w2)
        \<and> \<not> success r)
     \<and> registry_get (SequentialStrategy.registry sample_sequential)
           (ToolCall.tool_name (call ''ghost'')) = None
     \<and> external w1 = 1 \<and> external w2 = 2"
  by (simp add: SequentialStrategy_execute_def ToolExecutor_execute_def execute_pipeline_def
      strategy_defs sample_defs engine_defs)


lemma eval_execute_sequential:
  "\<exists>r1 w1 r w2.
     (execute_sequential sample_dispatcher [call ''orders''] True sample_world = (Inr [r1], w1)
      \<and> length [r1] = length [call ''orders''] \<and> list_all success [r1])
     \<and> (registry_get (ExecutionDispatcher.registry sample_dispatcher)
           (ToolCall.tool_name (call ''lookup'')) = Some (failing_tool ''lookup'')
        \<and> ToolExecutor_execute (ExecutionDispatcher.executor sample_dispatcher)
             (failing_tool ''lookup'') (ToolCall.params (call ''lookup'')) w1
            = (Inr r, w2)
        \<and> \<not> success r)
     \<and> registry_get (ExecutionDispatcher.registry sample_dispatcher)
           (ToolCall.tool_name (call ''ghost'')) = None
     \<and> external w1 = 1 \<and> external w2 = 2"
  by (simp add: execute_sequential_def ToolExecutor_execute_def execute_pipeline_def
      strategy_defs sample_defs engine_defs)

theorem sequential_stop_on_error_witness:
  "(\<exists>rs w. SequentialStrategy_execute sample_sequential
               [call ''orders'', call ''lookup'', call ''refund''] True False sample_world
             = (Inr rs, w)
           \<and> length rs = 2 \<and> \<not> success (last rs) \<and> external w = 2)
   \<and> (\<exists>rs w. SequentialStrategy_execute sample_sequential
               [call ''orders'', call ''ghost'', call ''refund''] True False sample_world
             = (Inr rs, w)
           \<and> length rs = 1 \<and> external w = 1)
   \<and> (\<exists>rs w. execute_sequential sample_dispatcher
               [call ''orders'', call ''lookup'', call ''refund''] True sample_world
             = (Inr rs, w)
           \<and> length rs = 2 \<and> \<not> success (last rs) \<and> external w = 2)
   \<and> (\<exists>rs w. execute_sequential sample_dispatcher
               [call ''orders'', call ''ghost'', call ''refund''] True sample_world
             = (Inr rs, w)
           \<and> length rs = 1 \<and> external w = 1
           \<and> length (ExecutionContext.errors (execution_context w)) = 1)"
proof -
  from eval_sequential obtain r1 w1 r w2 where
    a: "SequentialStrategy_execute sample_sequential [call ''orders''] True False sample_world
        = (Inr [r1], w1)
      \<and> length [r1] = length [call ''orders''] \<and> list_all success [r1]"
    and b: "registry_get (SequentialStrategy.registry sample_sequential)
           (ToolCall.tool_name (call ''lookup'')) = Some (failing_tool ''lookup'')
        \<and> ToolExecutor_execute (SequentialStrategy.executor sample_sequential)
             (failing_tool ''lookup'')
             (prepare_params False (length [call ''orders'']) [r1] (call ''lookup'')) w1
            = (Inr r, w2)
        \<and> \<not> success r"
    and c: "registry_get (SequentialStrategy.registry sample_sequential)
           (ToolCall.tool_name (call ''ghost'')) = None"
    and x: "external w1 = 1" "external w2 = 2"
    by blast
  from eval_execute_sequential obtain q1 v1 q v2 where
    a': "execute_sequential sample_dispatcher [call ''orders''] True sample_world = (Inr [q1], v1)
      \<and> length [q1] = length [call ''orders''] \<and> list_all success [q1]"
    and b': "registry_get (ExecutionDispatcher.registry sample_dispatcher)
           (ToolCall.tool_name (call ''lookup'')) = Some (failing_tool ''lookup'')
        \<and> ToolExecutor_execute (ExecutionDispatcher.executor sample_dispatcher)
             (failing_tool ''lookup'') (ToolCall.params (call ''lookup'')) v1
            = (Inr q, v2)
        \<and> \<not> success q"
    and c': "registry_get (ExecutionDispatcher.registry sample_dispatcher)
           (ToolCall.tool_name (call ''ghost'')) = None"
    and x': "external v1 = 1" "external v2 = 2"
    by blast
  note t = sequential_stop_on_error [where s = sample_sequential and pre = "[call ''orders'']"
      and pr = False and w = sample_world and post = "[call ''refund'']"
      and d = sample_dispatcher]
  have 1: "SequentialStrategy_execute sample_sequential
             ([call ''orders''] @ call ''lookup'' # [call ''refund'']) True False sample_world
           = (Inr ([r1] @ [r]), w2\<lparr>execution_context := add_result r (execution_context w2)\<rparr>)"
    using t [where rs = "[r1]" and ?w1.0 = w1 and c = "call ''lookup''"
        and tool = "failing_tool ''lookup''" and r = r and ?w2.0 = w2] a b
    by blast
  have 2: "SequentialStrategy_execute sample_sequential
             ([call ''orders''] @ call ''ghost'' # [call ''refund'']) True False sample_world
           = (Inr [r1], w1)"
    using t [where rs = "[r1]" and ?w1.0 = w1 and c = "call ''ghost''"] a c
    by blast
  have 3: "execute_sequential sample_dispatcher
             ([call ''orders''] @ call ''lookup'' # [call ''refund'']) True sample_world
           = (Inr ([q1] @ [q]), v2\<lparr>execution_context := add_result q (execution_context v2)\<rparr>)"
    using t [where rs = "[q1]" and ?w1.0 = v1 and c = "call ''lookup''"
        and tool = "failing_tool ''lookup''" and r = q and ?w2.0 = v2] a' b'
    by blast
  have 4: "execute_sequential sample_dispatcher
             ([call ''orders''] @ call ''ghost'' # [call ''refund'']) True sample_world
           = (Inr [q1], v1\<lparr>execution_context :=
                          add_error (tool_not_found (ToolCall.tool_name (call ''ghost'')) (clock v1))
                            (execution_context v1)\<rparr>)"
    using t [where rs = "[q1]" and ?w1.0 = v1 and c = "call ''ghost''"] a' c'
    by blast
  have e: "ExecutionContext.errors (execution_context v1) = []"
    using a' by (simp add: execute_sequential_def ToolExecutor_execute_def execute_pipeline_def
        strategy_defs sample_defs engine_defs) auto
  show ?thesis
    using 1 2 3 4 b b' x x' e by (simp add: add_error_def)
qed

text \<open>
  The claim as stated fails when an unregistered tool comes first: the first call
  whose result is not successful is \<open>lookup\<close>, yet execution halts at \<open>ghost\<close>,
  \<open>lookup\<close> is never executed and the returned list is empty.
\<close>

theorem sequential_stop_on_error_counterexample:
  "SequentialStrategy_execute sample_sequential
     [call ''ghost'', call ''lookup'', call ''orders''] True False sample_world
     = (Inr [], sample_world)
   \<and> registry_get (SequentialStrategy.registry sample_sequential) ''ghost'' = None
   \<and> registry_get (SequentialStrategy.registry sample_sequential) ''lookup''
       = Some (failing_tool ''lookup'')
   \<and> (\<exists>r w. ToolExecutor_execute (SequentialStrategy.executor sample_sequential)
              (failing_tool ''lookup'') (ToolCall.params (call ''lookup'')) sample_world = (Inr r, w)
            \<and> \<not> success r)"
  by (simp add: SequentialStrategy_execute_def ToolExecutor_execute_def execute_pipeline_def
      strategy_defs sample_defs engine_defs)

subsection \<open>CompensatingStrategy: rollback in reverse order\<close>

lemma rollback_loop_calls:
  "rollback_loop s xs w
     = run_compensations (CompensatingStrategy.executor s)
         (List.map_filter (compensation_call (CompensatingStrategy.registry s)) xs) w"
proof (induction xs arbitrary: w)
  case Nil
  show ?case by (simp add: run_compensations_def map_filter_simps)
next
  case (Cons x xs)
  obtain step fr where x: "x = (step, fr)" by (cases x)
  show ?case
  proof (cases "compensate step")
    case None
    then show ?thesis
      using Cons.IH by (simp add: x map_filter_simps)
  next
    case (Some ca)
    show ?thesis
    proof (cases "registry_get (CompensatingStrategy.registry s) (CompensatingAction.tool_name ca)")
      case None
      then show ?thesis
        using Cons.IH Some by (simp add: x map_filter_simps)
    next
      case (Some tool)
      then show ?thesis
        using Cons.IH \<open>compensate step = Some ca\<close>
        by (simp add: x map_filter_simps run_compensations_def run_compensation_def
            split: prod.splits sum.splits)
    qed
  qed
qed

lemma rollback_calls:
  "rollback s executed w
     = run_compensations (CompensatingStrategy.executor s)
         (compensation_calls (CompensatingStrategy.registry s) executed) w"
  by (simp add: rollback_def rollback_loop_calls compensation_calls_def run_compensations_def
      map_filter_simps)

lemma compensating_loop_extends:
  "compensating_loop s steps rs0 ex0 w = (Inr out, w') \<Longrightarrow> \<exists>rs. out = rs0 @ rs"
proof (induction steps arbitrary: rs0 ex0 w)
  case Nil
  then show ?case by simp
next
  case (Cons st steps)
  show ?case
  proof (cases "registry_get (CompensatingStrategy.registry s) (ToolCall.tool_name (forward st))")
    case None
    with Cons show ?thesis by auto
  next
    case (Some tool)
    obtain r w1 where
      e: "ToolExecutor_execute (CompensatingStrategy.executor s) tool (ToolCall.params (forward st)) w
            = (Inr r, w1)"
      using ToolExecutor_execute_total by blast
    show ?thesis
    proof (cases "success r")
      case False
      with Cons.prems Some e show ?thesis by (auto simp: Let_def)
    next
      case True
      with Cons.prems Some e
      have "compensating_loop s steps (rs0 @ [r]) (ex0 @ [(st, r)])
              (w1\<lparr>execution_context := add_result r (execution_context w1)\<rparr>) = (Inr out, w')"
        by (auto simp: Let_def)
      from Cons.IH [OF this] show ?thesis by auto
    qed
  qed
qed

lemma compensating_loop_prefix:
  assumes "compensating_loop s pre rs0 ex0 w = (Inr (rs0 @ rs), w1)"
    and "length rs = length pre" and "list_all success rs"
  shows "compensating_loop s (pre @ rest) rs0 ex0 w
           = compensating_loop s rest (rs0 @ rs) (ex0 @ zip pre rs) w1"
  using assms
proof (induction pre arbitrary: rs0 ex0 rs w)
  case Nil
  then show ?case by simp
next
  case (Cons st pre)
  show ?case
  proof (cases "registry_get (CompensatingStrategy.registry s) (ToolCall.tool_name (forward st))")
    case None
    with Cons.prems show ?thesis by auto
  next
    case (Some tool)
    obtain r wa where
      e: "ToolExecutor_execute (CompensatingStrategy.executor s) tool (ToolCall.params (forward st)) w
            = (Inr r, wa)"
      using ToolExecutor_execute_total by blast
    let ?wb = "wa\<lparr>execution_context := add_result r (execution_context wa)\<rparr>"
    show ?thesis
    proof (cases "success r")
      case False
      with Cons.prems Some e have "rs = [r]" by (auto simp: Let_def)
      with Cons.prems False show ?thesis by simp
    next
      case True
      with Cons.prems Some e
      have l: "compensating_loop s pre (rs0 @ [r]) (ex0 @ [(st, r)]) ?wb = (Inr (rs0 @ rs), w1)"
        by (auto simp: Let_def)
      from compensating_loop_extends [OF l] obtain rs' where rs: "rs = r # rs'"
        by auto
      have "compensating_loop s (pre @ rest) (rs0 @ [r]) (ex0 @ [(st, r)]) ?wb
              = compensating_loop s rest ((rs0 @ [r]) @ rs') ((ex0 @ [(st, r)]) @ zip pre rs') w1"
        using l Cons.prems by (intro Cons.IH) (simp_all add: rs)
      then show ?thesis
        using Some e True by (simp add: Let_def rs)
    qed
  qed
qed

text \<open>
  C8 (as amended). Let the steps \<open>pre\<close> all run forward successfully, with results
  \<open>rs\<close>. If the next step names an unregistered forward tool, or its forward result
  \<open>r\<close> is not successful, execution halts there (the steps \<open>post\<close> play no part) and
  the rollback runs exactly the calls \<open>compensation_calls\<close> of the steps \<open>pre\<close>:
  their compensating actions in reverse order of execution, each with the forward
  result's data, leaving out a step that has no compensating action or whose
  compensating tool is not registered. The failed step is not among them, and every
  call of the list is run whatever the earlier compensations returned or raised.
\<close>

theorem compensating_rollback:
  "(CompensatingStrategy_execute s pre w = (Inr rs, w1) \<and> length rs = length pre
      \<and> list_all success rs \<longrightarrow>
      (registry_get (CompensatingStrategy.registry s) (ToolCall.tool_name (forward st)) = None \<longrightarrow>
         CompensatingStrategy_execute s (pre @ st # post) w
           = (Inr rs,
              foldl (\<lambda>w c. run_compensation (CompensatingStrategy.executor s) c w) w1
                (compensation_calls (CompensatingStrategy.registry s) (zip pre rs))))
      \<and> (registry_get (CompensatingStrategy.registry s) (ToolCall.tool_name (forward st)) = Some tool
          \<and> ToolExecutor_execute (CompensatingStrategy.executor s) tool
                (ToolCall.params (forward st)) w1 = (Inr r, w2)
          \<and> \<not> success r \<longrightarrow>
          CompensatingStrategy_execute s (pre @ st # post) w
            = (Inr (rs @ [r]),
               foldl (\<lambda>w c. run_compensation (CompensatingStrategy.executor s) c w)
                 (w2\<lparr>execution_context := add_result r (execution_context w2)\<rparr>)
                 (compensation_calls (CompensatingStrategy.registry s) (zip pre rs)))))
   \<and> compensation_calls (CompensatingStrategy.registry s) (zip pre rs)
       = List.map_filter
           (\<lambda>(step, forward_result).
              case compensate step of
                None \<Rightarrow> None
              | Some ca \<Rightarrow>
                  map_option (\<lambda>tool. (tool, compensation_params ca forward_result))
                    (registry_get (CompensatingStrategy.registry s) (CompensatingAction.tool_name ca)))
           (rev (zip pre rs))"
proof (intro conjI impI)
  assume a: "CompensatingStrategy_execute s pre w = (Inr rs, w1) \<and> length rs = length pre
      \<and> list_all success rs"
  then have p: "CompensatingStrategy_execute s (pre @ st # post) w
                = compensating_loop s (st # post) rs (zip pre rs) w1"
    using compensating_loop_prefix [of s pre "[]" "[]" w rs w1 "st # post"]
    by (simp add: CompensatingStrategy_execute_def)
  {
    assume "registry_get (CompensatingStrategy.registry s) (ToolCall.tool_name (forward st)) = None"
    then show "CompensatingStrategy_execute s (pre @ st # post) w
           = (Inr rs,
              foldl (\<lambda>w c. run_compensation (CompensatingStrategy.executor s) c w) w1
                (compensation_calls (CompensatingStrategy.registry s) (zip pre rs)))"
      by (simp add: p rollback_calls run_compensations_def)
  next
    assume "registry_get (CompensatingStrategy.registry s) (ToolCall.tool_name (forward st)) = Some tool
          \<and> ToolExecutor_execute (CompensatingStrategy.executor s) tool
                (ToolCall.params (forward st)) w1 = (Inr r, w2)
          \<and> \<not> success r"
    then show "CompensatingStrategy_execute s (pre @ st # post) w
            = (Inr (rs @ [r]),
               foldl (\<lambda>w c. run_compensation (CompensatingStrategy.executor s) c w)
                 (w2\<lparr>execution_context := add_result r (execution_context w2)\<rparr>)
                 (compensation_calls (CompensatingStrategy.registry s) (zip pre rs)))"
      by (simp add: p Let_def rollback_calls run_compensations_def)
  }
next
  have "compensation_call (CompensatingStrategy.registry s)
          = (\<lambda>(step, forward_result).
              case compensate step of
                None \<Rightarrow> None
              | Some ca \<Rightarrow>
                  map_option (\<lambda>tool. (tool, compensation_params ca forward_result))
                    (registry_get (CompensatingStrategy.registry s) (CompensatingAction.tool_name ca)))"
    by (auto simp: fun_eq_iff split: option.splits)
  then show "compensation_calls (CompensatingStrategy.registry s) (zip pre rs)
       = List.map_filter
           (\<lambda>(step, forward_result).
              case compensate step of
                None \<Rightarrow> None
              | Some ca \<Rightarrow>
                  map_option (\<lambda>tool. (tool, compensation_params ca forward_result))
                    (registry_get (CompensatingStrategy.registry s) (CompensatingAction.tool_name ca)))
           (rev (zip pre rs))"
    by (simp add: compensation_calls_def)
qed


lemmas saga_defs =
  saga_step_def compensation_calls_def run_compensation_def map_filter_simps
  CompensatingStrategy_execute_def rollback_def ToolExecutor_execute_def execute_pipeline_def

lemma eval_saga:
  "\<exists>r1 r2 w1 r w2.
     (CompensatingStrategy_execute sample_compensating
        [saga_step ''orders'' (Some ''cancel''), saga_step ''refund'' (Some ''restock'')] sample_world
        = (Inr [r1, r2], w1)
      \<and> length [r1, r2]
          = length [saga_step ''orders'' (Some ''cancel''), saga_step ''refund'' (Some ''restock'')]
      \<and> list_all success [r1, r2])
     \<and> (registry_get (CompensatingStrategy.registry sample_compensating)
           (ToolCall.tool_name (forward (saga_step ''lookup'' (Some ''cancel''))))
          = Some (failing_tool ''lookup'')
        \<and> ToolExecutor_execute (CompensatingStrategy.executor sample_compensating)
             (failing_tool ''lookup'')
             (ToolCall.params (forward (saga_step ''lookup'' (Some ''cancel'')))) w1
            = (Inr r, w2)
        \<and> \<not> success r)
     \<and> map (\<lambda>c. name (fst c))
          (compensation_calls (CompensatingStrategy.registry sample_compensating)
             (zip [saga_step ''orders'' (Some ''cancel''), saga_step ''refund'' (Some ''restock'')]
                  [r1, r2]))
         = [''restock'', ''cancel'']
     \<and> execution_order (execution_context
          (foldl (\<lambda>w c. run_compensation (CompensatingStrategy.executor sample_compensating) c w)
             (w2\<lparr>execution_context := add_result r (execution_context w2)\<rparr>)
             (compensation_calls (CompensatingStrategy.registry sample_compensating)
                (zip [saga_step ''orders'' (Some ''cancel''), saga_step ''refund'' (Some ''restock'')]
                     [r1, r2]))))
         = [''orders'', ''refund'', ''lookup'', ''restock'', ''cancel'']"
  by (simp add: saga_defs strategy_defs sample_defs engine_defs)

theorem compensating_rollback_witness:
  "\<exists>rs w. CompensatingStrategy_execute sample_compensating
             [saga_step ''orders'' (Some ''cancel''), saga_step ''refund'' (Some ''restock''),
              saga_step ''lookup'' (Some ''cancel''), saga_step ''orders'' None] sample_world
           = (Inr rs, w)
         \<and> length rs = 3
         \<and> execution_order (execution_context w)
             = [''orders'', ''refund'', ''lookup'', ''restock'', ''cancel'']"
proof -
  let ?pre = "[saga_step ''orders'' (Some ''cancel''), saga_step ''refund'' (Some ''restock'')]"
  from eval_saga obtain r1 r2 w1 r w2 where
    a: "CompensatingStrategy_execute sample_compensating ?pre sample_world = (Inr [r1, r2], w1)
      \<and> length [r1, r2] = length ?pre \<and> list_all success [r1, r2]"
    and b: "registry_get (CompensatingStrategy.registry sample_compensating)
           (ToolCall.tool_name (forward (saga_step ''lookup'' (Some ''cancel''))))
          = Some (failing_tool ''lookup'')
        \<and> ToolExecutor_execute (CompensatingStrategy.executor sample_compensating)
             (failing_tool ''lookup'')
             (ToolCall.params (forward (saga_step ''lookup'' (Some ''cancel'')))) w1
            = (Inr r, w2)
        \<and> \<not> success r"
    and o: "execution_order (execution_context
          (foldl (\<lambda>w c. run_compensation (CompensatingStrategy.executor sample_compensating) c w)
             (w2\<lparr>execution_context := add_result r (execution_context w2)\<rparr>)
             (compensation_calls (CompensatingStrategy.registry sample_compensating)
                (zip ?pre [r1, r2]))))
         = [''orders'', ''refund'', ''lookup'', ''restock'', ''cancel'']"
    by blast
  have "CompensatingStrategy_execute sample_compensating
          (?pre @ saga_step ''lookup'' (Some ''cancel'') # [saga_step ''orders'' None]) sample_world
        = (Inr ([r1, r2] @ [r]),
           foldl (\<lambda>w c. run_compensation (CompensatingStrategy.executor sample_compensating) c w)
             (w2\<lparr>execution_context := add_result r (execution_context w2)\<rparr>)
             (compensation_calls (CompensatingStrategy.registry sample_compensating)
                (zip ?pre [r1, r2])))"
    using compensating_rollback [where s = sample_compensating and pre = ?pre
        and w = sample_world and rs = "[r1, r2]" and ?w1.0 = w1
        and st = "saga_step ''lookup'' (Some ''cancel'')" and post = "[saga_step ''orders'' None]"
        and tool = "failing_tool ''lookup''" and r = r and ?w2.0 = w2] a b
    by blast
  with o show ?thesis by simp
qed

text \<open>
  The claim as stated fails when the compensating tool of a successful step is not
  registered: \<open>orders\<close> succeeded and has a compensating action, \<open>lookup\<close> then
  failed, and the rollback executes nothing.
\<close>

theorem compensating_rollback_counterexample:
  "\<exists>rs w. CompensatingStrategy_execute sample_compensating
             [saga_step ''orders'' (Some ''ghost''), saga_step ''lookup'' None] sample_world
           = (Inr rs, w)
         \<and> map success rs = [True, False]
         \<and> compensate (saga_step ''orders'' (Some ''ghost'')) \<noteq> None
         \<and> execution_order (execution_context w) = [''orders'', ''lookup'']
         \<and> external w = 2"
  by (simp add: saga_defs strategy_defs sample_defs engine_defs)

subsection \<open>ExecutionDispatcher: dispatch by execution mode\<close>

lemma execute_sequential_loop_total:
  "\<exists>out w'. execute_sequential_loop d stop tcs rs0 w = (Inr out, w')"
proof (induction tcs arbitrary: rs0 w)
  case Nil
  show ?case by simp
next
  case (Cons tc tcs)
  show ?case
  proof (cases "registry_get (ExecutionDispatcher.registry d) (ToolCall.tool_name tc)")
    case None
    then show ?thesis
      using Cons.IH by (cases stop) (simp_all add: Let_def)
  next
    case (Some tool)
    obtain r w1 where
      "ToolExecutor_execute (ExecutionDispatcher.executor d) tool (ToolCall.params tc) w = (Inr r, w1)"
      using ToolExecutor_execute_total by blast
    then show ?thesis
      using Some Cons.IH by (cases stop; cases "success r") (simp_all add: Let_def)
  qed
qed

lemma execute_single_total: "\<exists>r w'. execute_single d tc w = (Inr r, w')"
  using ToolExecutor_execute_total
  by (auto simp: execute_single_def Let_def split: option.splits)

lemma gather_total: "\<exists>out w'. gather d tcs w = (Inr out, w')"
proof (induction tcs arbitrary: w)
  case Nil
  show ?case by simp
next
  case (Cons tc tcs)
  obtain r w1 where e: "execute_single d tc w = (Inr r, w1)"
    using execute_single_total by blast
  obtain out w2 where "gather d tcs w1 = (Inr out, w2)"
    using Cons.IH by blast
  with e show ?case by simp
qed

lemma execute_parallel_total: "\<exists>out w'. execute_parallel d tcs w = (Inr out, w')"
proof -
  obtain out w1 where "gather d tcs w = (Inr out, w1)"
    using gather_total by blast
  then show ?thesis by (simp add: execute_parallel_def)
qed

lemma dispatch_executed:
  assumes "validate_tool_calls (ExecutionDispatcher.registry d) (tool_calls req) = []"
    and "execute_by_mode d req (w\<lparr>execution_context := dispatch_context uuid4 req (clock w)\<rparr>)
           = (Inr rs, w1)"
  shows "dispatch d uuid4 req w =
           (aggregate (dispatch_request_id uuid4 req) rs
              (ExecutionContext.errors (execution_context w1))
              (ExecutionContext.start_time (execution_context w1)) (Some (clock w1))
              (ExecutionRequest.metadata req) (clock w1),
            w1\<lparr>execution_context := complete (final_status rs) (clock w1) (execution_context w1)\<rparr>)"
  using assms by (simp add: dispatch_def Let_def complete_def)


lemma dispatch_unsupported:
  assumes "validate_tool_calls (ExecutionDispatcher.registry d) (tool_calls req) = []"
    and "execution_mode req = CONDITIONAL \<or> execution_mode req = COMPENSATING"
  shows "dispatch d uuid4 req w =
           (aggregate (dispatch_request_id uuid4 req) []
              [execution_error [Text ''Unsupported execution mode: '', FMode (execution_mode req)]
                 ''ValueError'' ''EXECUTION_ERROR'' (clock w)]
              (clock w) (Some (clock w)) (ExecutionRequest.metadata req) (clock w),
            w\<lparr>execution_context :=
                complete ExecutionStatus.FAILED (clock w) (dispatch_context uuid4 req (clock w))\<rparr>)"
  using assms
  by (auto simp: dispatch_def Let_def execute_by_mode_def unsupported_mode_def complete_def
      dispatch_context_def ExecutionContext_init_def)

lemma dispatch_completes: "is_complete (execution_context (snd (dispatch d uuid4 req w)))"
  by (simp add: dispatch_def Let_def is_complete_def complete_def split: prod.splits sum.splits)

text \<open>
  C2 (as amended). For a request whose tool calls all name registered tools:
  in sequential mode \<open>dispatch\<close> runs \<open>_execute_sequential\<close> on the calls, and in
  parallel mode \<open>_execute_parallel\<close>; neither raises, the context is completed with
  the status derived from the results, and the response aggregates exactly these
  results and the context's errors. In conditional and in compensating mode no tool
  is executed: the context is completed as failed and the response has no results
  and the single error \<open>EXECUTION_ERROR\<close> (unsupported execution mode). In every
  case the context is marked complete, and an aggregated response holds the given
  results with the status \<open>determine_status\<close> derives from them.
\<close>

theorem dispatch_by_mode:
  "(validate_tool_calls (ExecutionDispatcher.registry d) (tool_calls req) = [] \<longrightarrow>
     (execution_mode req = SEQUENTIAL \<longrightarrow>
        (\<exists>rs w1.
           execute_sequential d (tool_calls req) (stop_on_error req)
             (w\<lparr>execution_context := dispatch_context uuid4 req (clock w)\<rparr>) = (Inr rs, w1)
           \<and> dispatch d uuid4 req w =
               (aggregate (dispatch_request_id uuid4 req) rs
                  (ExecutionContext.errors (execution_context w1))
                  (ExecutionContext.start_time (execution_context w1)) (Some (clock w1))
                  (ExecutionRequest.metadata req) (clock w1),
                w1\<lparr>execution_context :=
                     complete (final_status rs) (clock w1) (execution_context w1)\<rparr>)))
     \<and> (execution_mode req = PARALLEL \<longrightarrow>
        (\<exists>rs w1.
           execute_parallel d (tool_calls req)
             (w\<lparr>execution_context := dispatch_context uuid4 req (clock w)\<rparr>) = (Inr rs, w1)
           \<and> dispatch d uuid4 req w =
               (aggregate (dispatch_request_id uuid4 req) rs
                  (ExecutionContext.errors (execution_context w1))
                  (ExecutionContext.start_time (execution_context w1)) (Some (clock w1))
                  (ExecutionRequest.metadata req) (clock w1),
                w1\<lparr>execution_context :=
                     complete (final_status rs) (clock w1) (execution_context w1)\<rparr>)))
     \<and> (execution_mode req = CONDITIONAL \<or> execution_mode req = COMPENSATING \<longrightarrow>
        dispatch d uuid4 req w =
          (aggregate (dispatch_request_id uuid4 req) []
             [execution_error [Text ''Unsupported execution mode: '', FMode (execution_mode req)]
                ''ValueError'' ''EXECUTION_ERROR'' (clock w)]
             (clock w) (Some (clock w)) (ExecutionRequest.metadata req) (clock w),
           w\<lparr>execution_context :=
               complete ExecutionStatus.FAILED (clock w) (dispatch_context uuid4 req (clock w))\<rparr>)))
   \<and> is_complete (execution_context (snd (dispatch d uuid4 req w)))
   \<and> ExecutionResponse.results (aggregate rid rs' errs t0 t1 md now) = rs'
   \<and> ExecutionResponse.errors (aggregate rid rs' errs t0 t1 md now) = errs
   \<and> ExecutionResponse.status (aggregate rid rs' errs t0 t1 md now) = determine_status rs' errs"
proof (intro conjI impI)
  assume v: "validate_tool_calls (ExecutionDispatcher.registry d) (tool_calls req) = []"
  let ?w0 = "w\<lparr>execution_context := dispatch_context uuid4 req (clock w)\<rparr>"
  {
    assume m: "execution_mode req = SEQUENTIAL"
    obtain rs w1 where
      e: "execute_sequential d (tool_calls req) (stop_on_error req) ?w0 = (Inr rs, w1)"
      using execute_sequential_loop_total [of d "stop_on_error req" "tool_calls req" "[]" ?w0]
      by (auto simp: execute_sequential_def)
    then have "execute_by_mode d req ?w0 = (Inr rs, w1)"
      using m by (simp add: execute_by_mode_def)
    from dispatch_executed [OF v this] e
    show "\<exists>rs w1.
           execute_sequential d (tool_calls req) (stop_on_error req) ?w0 = (Inr rs, w1)
           \<and> dispatch d uuid4 req w =
               (aggregate (dispatch_request_id uuid4 req) rs
                  (ExecutionContext.errors (execution_context w1))
                  (ExecutionContext.start_time (execution_context w1)) (Some (clock w1))
                  (ExecutionRequest.metadata req) (clock w1),
                w1\<lparr>execution_context :=
                     complete (final_status rs) (clock w1) (execution_context w1)\<rparr>)"
      by blast
  next
    assume m: "execution_mode req = PARALLEL"
    obtain rs w1 where
      e: "execute_parallel d (tool_calls req) ?w0 = (Inr rs, w1)"
      using execute_parallel_total by blast
    then have "execute_by_mode d req ?w0 = (Inr rs, w1)"
      using m by (simp add: execute_by_mode_def)
    from dispatch_executed [OF v this] e
    show "\<exists>rs w1.
           execute_parallel d (tool_calls req) ?w0 = (Inr rs, w1)
           \<and> dispatch d uuid4 req w =
               (aggregate (dispatch_request_id uuid4 req) rs
                  (ExecutionContext.errors (execution_context w1))
                  (ExecutionContext.start_time (execution_context w1)) (Some (clock w1))
                  (ExecutionRequest.metadata req) (clock w1),
                w1\<lparr>execution_context :=
                     complete (final_status rs) (clock w1) (execution_context w1)\<rparr>)"
      by blast
  next
    assume "execution_mode req = CONDITIONAL \<or> execution_mode req = COMPENSATING"
    from dispatch_unsupported [OF v this]
    show "dispatch d uuid4 req w =
          (aggregate (dispatch_request_id uuid4 req) []
             [execution_error [Text ''Unsupported execution mode: '', FMode (execution_mode req)]
                ''ValueError'' ''EXECUTION_ERROR'' (clock w)]
             (clock w) (Some (clock w)) (ExecutionRequest.metadata req) (clock w),
           w\<lparr>execution_context :=
               complete ExecutionStatus.FAILED (clock w) (dispatch_context uuid4 req (clock w))\<rparr>)" .
  }
next
  show "is_complete (execution_context (snd (dispatch d uuid4 req w)))"
    by (rule dispatch_completes)
qed (simp_all add: aggregate_def Let_def)


lemmas dispatch_defs =
  sample_request_def dispatch_context_def dispatch_request_id_def validate_tool_calls_def
  execute_sequential_def execute_parallel_def execute_single_def execute_by_mode_def
  ToolExecutor_execute_def execute_pipeline_def add_results_def final_status_def complete_def
  is_complete_def aggregate_def determine_status_def execution_error_def unsupported_mode_def

lemma eval_dispatch_sequential:
  "validate_tool_calls (ExecutionDispatcher.registry sample_dispatcher)
      (tool_calls (sample_request SEQUENTIAL [call ''orders'', call ''lookup''])) = []
   \<and> execution_mode (sample_request SEQUENTIAL [call ''orders'', call ''lookup'']) = SEQUENTIAL
   \<and> (\<exists>r1 r2 w1.
        execute_sequential sample_dispatcher
          (tool_calls (sample_request SEQUENTIAL [call ''orders'', call ''lookup'']))
          (stop_on_error (sample_request SEQUENTIAL [call ''orders'', call ''lookup'']))
          (sample_world\<lparr>execution_context :=
             dispatch_context ''uuid-1'' (sample_request SEQUENTIAL [call ''orders'', call ''lookup''])
               (clock sample_world)\<rparr>) = (Inr [r1, r2], w1)
        \<and> ToolResult.status r1 = ToolStatus.SUCCESS \<and> ToolResult.status r2 = ToolStatus.FAILED
        \<and> ExecutionContext.errors (execution_context w1) = [] \<and> external w1 = 2)"
  by (simp add: dispatch_defs strategy_defs sample_defs engine_defs)

lemma eval_dispatch_parallel:
  "validate_tool_calls (ExecutionDispatcher.registry sample_dispatcher)
      (tool_calls (sample_request PARALLEL [call ''orders'', call ''refund''])) = []
   \<and> execution_mode (sample_request PARALLEL [call ''orders'', call ''refund'']) = PARALLEL
   \<and> (\<exists>r1 r2 w1.
        execute_parallel sample_dispatcher
          (tool_calls (sample_request PARALLEL [call ''orders'', call ''refund'']))
          (sample_world\<lparr>execution_context :=
             dispatch_context ''uuid-1'' (sample_request PARALLEL [call ''orders'', call ''refund''])
               (clock sample_world)\<rparr>) = (Inr [r1, r2], w1)
        \<and> ToolResult.tool_name r1 = ''orders'' \<and> ToolResult.tool_name r2 = ''refund''
        \<and> ToolResult.status r1 = ToolStatus.SUCCESS \<and> ToolResult.status r2 = ToolStatus.SUCCESS
        \<and> ExecutionContext.errors (execution_context w1) = [] \<and> external w1 = 2)"
  by (simp add: dispatch_defs strategy_defs sample_defs engine_defs)

lemma eval_dispatch_conditional:
  "validate_tool_calls (ExecutionDispatcher.registry sample_dispatcher)
      (tool_calls (sample_request CONDITIONAL [call ''orders''])) = []
   \<and> execution_mode (sample_request CONDITIONAL [call ''orders'']) = CONDITIONAL"
  by (simp add: dispatch_defs strategy_defs)

theorem dispatch_by_mode_witness:
  "(\<exists>resp w. dispatch sample_dispatcher ''uuid-1''
                (sample_request SEQUENTIAL [call ''orders'', call ''lookup'']) sample_world = (resp, w)
        \<and> map ToolResult.status (ExecutionResponse.results resp)
            = [ToolStatus.SUCCESS, ToolStatus.FAILED]
        \<and> ExecutionResponse.status resp = ExecutionStatus.PARTIAL
        \<and> ExecutionContext.status (execution_context w) = ExecutionStatus.PARTIAL
        \<and> external w = 2)
   \<and> (\<exists>resp w. dispatch sample_dispatcher ''uuid-1''
                (sample_request PARALLEL [call ''orders'', call ''refund'']) sample_world = (resp, w)
        \<and> map ToolResult.tool_name (ExecutionResponse.results resp) = [''orders'', ''refund'']
        \<and> ExecutionResponse.status resp = ExecutionStatus.SUCCESS
        \<and> ExecutionContext.status (execution_context w) = ExecutionStatus.SUCCESS
        \<and> external w = 2)
   \<and> (\<exists>resp w. dispatch sample_dispatcher ''uuid-1''
                (sample_request CONDITIONAL [call ''orders'']) sample_world = (resp, w)
        \<and> ExecutionResponse.results resp = []
        \<and> ExecutionResponse.status resp = ExecutionStatus.FAILED
        \<and> ExecutionContext.status (execution_context w) = ExecutionStatus.FAILED
        \<and> external w = 0)"
proof (intro conjI)
  let ?seq = "sample_request SEQUENTIAL [call ''orders'', call ''lookup'']"
  let ?par = "sample_request PARALLEL [call ''orders'', call ''refund'']"
  let ?cond = "sample_request CONDITIONAL [call ''orders'']"
  note t = dispatch_by_mode [where d = sample_dispatcher and ?uuid4.0 = "''uuid-1''"
      and w = sample_world]
  from eval_dispatch_sequential obtain r1 r2 w1 where
    v: "validate_tool_calls (ExecutionDispatcher.registry sample_dispatcher) (tool_calls ?seq) = []"
    and m: "execution_mode ?seq = SEQUENTIAL"
    and e: "execute_sequential sample_dispatcher (tool_calls ?seq) (stop_on_error ?seq)
          (sample_world\<lparr>execution_context :=
             dispatch_context ''uuid-1'' ?seq (clock sample_world)\<rparr>) = (Inr [r1, r2], w1)"
    and r: "ToolResult.status r1 = ToolStatus.SUCCESS" "ToolResult.status r2 = ToolStatus.FAILED"
      "ExecutionContext.errors (execution_context w1) = []" "external w1 = 2"
    by blast
  from t [where req = ?seq] v m e
  have "dispatch sample_dispatcher ''uuid-1'' ?seq sample_world =
               (aggregate (dispatch_request_id ''uuid-1'' ?seq) [r1, r2]
                  (ExecutionContext.errors (execution_context w1))
                  (ExecutionContext.start_time (execution_context w1)) (Some (clock w1))
                  (ExecutionRequest.metadata ?seq) (clock w1),
                w1\<lparr>execution_context :=
                     complete (final_status [r1, r2]) (clock w1) (execution_context w1)\<rparr>)"
    by auto
  then show "\<exists>resp w. dispatch sample_dispatcher ''uuid-1'' ?seq sample_world = (resp, w)
        \<and> map ToolResult.status (ExecutionResponse.results resp)
            = [ToolStatus.SUCCESS, ToolStatus.FAILED]
        \<and> ExecutionResponse.status resp = ExecutionStatus.PARTIAL
        \<and> ExecutionContext.status (execution_context w) = ExecutionStatus.PARTIAL
        \<and> external w = 2"
    using r by (simp add: aggregate_def determine_status_def final_status_def complete_def
        success_def Let_def)
  from eval_dispatch_parallel obtain q1 q2 v1 where
    v: "validate_tool_calls (ExecutionDispatcher.registry sample_dispatcher) (tool_calls ?par) = []"
    and m: "execution_mode ?par = PARALLEL"
    and e: "execute_parallel sample_dispatcher (tool_calls ?par)
          (sample_world\<lparr>execution_context :=
             dispatch_context ''uuid-1'' ?par (clock sample_world)\<rparr>) = (Inr [q1, q2], v1)"
    and r: "ToolResult.tool_name q1 = ''orders''" "ToolResult.tool_name q2 = ''refund''"
      "ToolResult.status q1 = ToolStatus.SUCCESS" "ToolResult.status q2 = ToolStatus.SUCCESS"
      "ExecutionContext.errors (execution_context v1) = []" "external v1 = 2"
    by blast
  from t [where req = ?par] v m e
  have "dispatch sample_dispatcher ''uuid-1'' ?par sample_world =
               (aggregate (dispatch_request_id ''uuid-1'' ?par) [q1, q2]
                  (ExecutionContext.errors (execution_context v1))
                  (ExecutionContext.start_time (execution_context v1)) (Some (clock v1))
                  (ExecutionRequest.metadata ?par) (clock v1),
                v1\<lparr>execution_context :=
                     complete (final_status [q1, q2]) (clock v1) (execution_context v1)\<rparr>)"
    by auto
  then show "\<exists>resp w. dispatch sample_dispatcher ''uuid-1'' ?par sample_world = (resp, w)
        \<and> map ToolResult.tool_name (ExecutionResponse.results resp) = [''orders'', ''refund'']
        \<and> ExecutionResponse.status resp = ExecutionStatus.SUCCESS
        \<and> ExecutionContext.status (execution_context w) = ExecutionStatus.SUCCESS
        \<and> external w = 2"
    using r by (simp add: aggregate_def determine_status_def final_status_def complete_def
        success_def Let_def)
  from t [where req = ?cond] eval_dispatch_conditional
  have "dispatch sample_dispatcher ''uuid-1'' ?cond sample_world =
          (aggregate (dispatch_request_id ''uuid-1'' ?cond) []
             [execution_error [Text ''Unsupported execution mode: '', FMode (execution_mode ?cond)]
                ''ValueError'' ''EXECUTION_ERROR'' (clock sample_world)]
             (clock sample_world) (Some (clock sample_world)) (ExecutionRequest.metadata ?cond)
             (clock sample_world),
           sample_world\<lparr>execution_context :=
               complete ExecutionStatus.FAILED (clock sample_world)
                 (dispatch_context ''uuid-1'' ?cond (clock sample_world))\<rparr>)"
    by blast
  then show "\<exists>resp w. dispatch sample_dispatcher ''uuid-1'' ?cond sample_world = (resp, w)
        \<and> ExecutionResponse.results resp = []
        \<and> ExecutionResponse.status resp = ExecutionStatus.FAILED
        \<and> ExecutionContext.status (execution_context w) = ExecutionStatus.FAILED
        \<and> external w = 0"
    by (simp add: aggregate_def determine_status_def complete_def sample_world_def Let_def)
qed

text \<open>
  The claim as stated fails for the compensating (and the conditional) mode: the
  only tool named is registered, yet no strategy is executed; the response is failed
  with a single \<open>EXECUTION_ERROR\<close>, and no tool, breaker or limiter was touched.
\<close>

theorem dispatch_by_mode_counterexample:
  "validate_tool_calls (ExecutionDispatcher.registry sample_dispatcher)
      (tool_calls (sample_request COMPENSATING [call ''orders''])) = []
   \<and> (\<exists>resp w. dispatch sample_dispatcher ''uuid-1''
                (sample_request COMPENSATING [call ''orders'']) sample_world = (resp, w)
        \<and> ExecutionResponse.status resp = ExecutionStatus.FAILED
        \<and> ExecutionResponse.results resp = []
        \<and> map ExecutionError.error_code (ExecutionResponse.errors resp) = [Some ''EXECUTION_ERROR'']
        \<and> map ExecutionError.message (ExecutionResponse.errors resp)
            = [[Text ''Unsupported execution mode: '', FMode COMPENSATING]]
        \<and> external w = 0
        \<and> breakers (circuit_breaker w) = []
        \<and> limiters (rate_limiter w) = [])"
  by (simp add: dispatch_def dispatch_defs strategy_defs sample_defs engine_defs)

end
